(* ===== verification/Prelude.thy ===== *)
theory Prelude
  imports Main "HOL-Library.AList"
begin

text \<open>
  Shared vocabulary of the development: the identifier types of the domain model,
  the result type used for every fallible operation, and a small model of the
  JavaScript values and operators that the client pages under \<open>src/project\<close> and
  the server bootstrap \<open>src/server/index.js\<close> rely on (truthiness, \<open>||\<close>, \<open>&&\<close>,
  optional property access \<open>v?.k\<close>, object literals with spread).  The lemmas
  here are the ones the component theories share; the evaluation equations of
  the JavaScript model are collected in \<open>js_simps\<close>.
\<close>

named_theorems js_simps "evaluation equations of the JavaScript value model"
named_theorems store_simps "characteristic equations of the store lookups"

section \<open>Identifiers and results\<close>

type_synonym user_id = nat
type_synonym post_id = nat
type_synonym token = nat
type_synonym time = nat

text \<open>Every failure of the domain model is a value of \<open>api_error\<close>; an
  operation returns \<open>api_error + 'a\<close>, with \<open>Inl\<close> the error.\<close>

datatype api_error =
    DuplicateEmail | WeakCredential | NotFound | InvalidCredential
  | InvalidToken | SessionExpired
  | SelfRequest | UnknownUser | AlreadyRequested | NoSuchRequest | NoSuchRelation
  | Forbidden

type_synonym 'a result = "api_error + 'a"

section \<open>JavaScript values\<close>

text \<open>
  A JavaScript value as the pages see it: \<open>undefined\<close>, \<open>null\<close>, booleans,
  numbers (integral here: the code only compares them and uses them as ports),
  strings, arrays and plain objects.  An object is the list of its own enumerable
  properties in insertion order, as \<open>Object.keys\<close> returns them.
\<close>

datatype jsval =
    JUndef | JNull | JBool bool | JNum int | JStr string
  | JArr "jsval list"
  | JObj "(string \<times> jsval) list"

fun js_truthy :: "jsval \<Rightarrow> bool" where
  "js_truthy JUndef = False"
| "js_truthy JNull = False"
| "js_truthy (JBool b) = b"
| "js_truthy (JNum n) = (n \<noteq> 0)"
| "js_truthy (JStr s) = (s \<noteq> [])"
| "js_truthy (JArr _) = True"
| "js_truthy (JObj _) = True"

text \<open>\<open>a || b\<close> and \<open>a && b\<close> return one of their operands.\<close>

definition js_or :: "jsval \<Rightarrow> jsval \<Rightarrow> jsval" where
  "js_or a b = (if js_truthy a then a else b)"

definition js_and :: "jsval \<Rightarrow> jsval \<Rightarrow> jsval" where
  "js_and a b = (if js_truthy a then b else a)"

text \<open>Decimal rendering of a natural number, for array-like index keys.\<close>

fun digits10 :: "nat \<Rightarrow> string" where
  "digits10 n = (if n < 10 then [char_of (48 + n)]
                 else digits10 (n div 10) @ [char_of (48 + n mod 10)])"

declare digits10.simps [simp del]

fun separate_commas :: "string list \<Rightarrow> string list" where
  "separate_commas [] = []"
| "separate_commas [x] = [x]"
| "separate_commas (x # y # zs) = x # '','' # separate_commas (y # zs)"

text \<open>The index properties \<open>"0"\<close>, \<open>"1"\<close>, ... of an array-like value.\<close>

definition indexed_props :: "jsval list \<Rightarrow> (string \<times> jsval) list" where
  "indexed_props xs = zip (map digits10 [0..<length xs]) xs"

text \<open>
  Property access \<open>v?.k\<close>.  On \<open>undefined\<close> and \<open>null\<close> optional chaining
  short-circuits to \<open>undefined\<close>; on an object it is the own property or
  \<open>undefined\<close>; strings and arrays have \<open>length\<close> and their index properties; the
  other primitives have none of the properties the code reads.
\<close>

fun js_get :: "jsval \<Rightarrow> string \<Rightarrow> jsval" where
  "js_get (JObj ps) k = (case map_of ps k of Some v \<Rightarrow> v | None \<Rightarrow> JUndef)"
| "js_get (JStr s) k =
     (if k = ''length'' then JNum (int (length s))
      else (case map_of (indexed_props (map (\<lambda>c. JStr [c]) s)) k of
              Some v \<Rightarrow> v | None \<Rightarrow> JUndef))"
| "js_get (JArr xs) k =
     (if k = ''length'' then JNum (int (length xs))
      else (case map_of (indexed_props xs) k of Some v \<Rightarrow> v | None \<Rightarrow> JUndef))"
| "js_get _ k = JUndef"

text \<open>Own enumerable properties, which is what object spread \<open>{...v}\<close> copies:
  nothing for \<open>undefined\<close>, \<open>null\<close>, booleans and numbers, the elements of a
  string or an array under their indices, the properties of an object.\<close>

fun js_own_props :: "jsval \<Rightarrow> (string \<times> jsval) list" where
  "js_own_props (JObj ps) = ps"
| "js_own_props (JStr s) = indexed_props (map (\<lambda>c. JStr [c]) s)"
| "js_own_props (JArr xs) = indexed_props xs"
| "js_own_props _ = []"

text \<open>String conversion, as \<open>"..." + v\<close> performs it.\<close>

definition int_to_string :: "int \<Rightarrow> string" where
  "int_to_string n = (if n < 0 then ''-'' @ digits10 (nat (- n)) else digits10 (nat n))"

fun js_to_string :: "jsval \<Rightarrow> string" where
  "js_to_string JUndef = ''undefined''"
| "js_to_string JNull = ''null''"
| "js_to_string (JBool b) = (if b then ''true'' else ''false'')"
| "js_to_string (JNum n) = int_to_string n"
| "js_to_string (JStr s) = s"
| "js_to_string (JArr xs) =
     concat (separate_commas (map (\<lambda>x. if x = JUndef \<or> x = JNull then [] else js_to_string x) xs))"
| "js_to_string (JObj _) = ''[object Object]''"

text \<open>
  Assignment of a property: an existing key keeps its position and takes the new
  value, a new key is appended (\<open>AList.update\<close> does exactly this).  An object
  literal \<open>{k1: v1, ..., ...o}\<close> is built by assigning its entries from left to
  right.
\<close>

definition obj_set :: "string \<Rightarrow> jsval \<Rightarrow> (string \<times> jsval) list \<Rightarrow> (string \<times> jsval) list" where
  "obj_set k v ps = AList.update k v ps"

definition obj_spread :: "(string \<times> jsval) list \<Rightarrow> jsval \<Rightarrow> (string \<times> jsval) list" where
  "obj_spread ps v = fold (\<lambda>(k, x) acc. obj_set k x acc) (js_own_props v) ps"

text \<open>ASCII lower case, as \<open>String.prototype.toLowerCase\<close> does on ASCII letters.\<close>

definition lower_ascii :: "char \<Rightarrow> char" where
  "lower_ascii c = (let n = (of_char c :: nat) in if 65 \<le> n \<and> n \<le> 90 then char_of (n + 32) else c)"

declare js_truthy.simps [js_simps] js_or_def [js_simps] js_and_def [js_simps]
  obj_set_def [js_simps]

section \<open>Shared lemmas\<close>

lemma lower_ascii_idem [simp]: "lower_ascii (lower_ascii c) = lower_ascii c"
  by (simp add: lower_ascii_def Let_def)

lemma indexed_props_Nil [simp]: "indexed_props [] = []"
  by (simp add: indexed_props_def)

lemma digits10_hd_digit: "\<exists>c cs. digits10 n = c # cs \<and> 48 \<le> (of_char c :: nat) \<and> (of_char c :: nat) \<le> 57"
proof (induction n rule: digits10.induct)
  case (1 n)
  show ?case
  proof (cases "n < 10")
    case True
    then show ?thesis by (subst digits10.simps) simp
  next
    case False
    with "1.IH" obtain c cs where "digits10 (n div 10) = c # cs" and
      "48 \<le> (of_char c :: nat)" and "(of_char c :: nat) \<le> 57" by blast
    with False show ?thesis by (subst digits10.simps) simp
  qed
qed

text \<open>A key that does not start with a digit names no index property.\<close>

lemma map_of_indexed_props_named:
  assumes "\<not> (48 \<le> (of_char c :: nat) \<and> (of_char c :: nat) \<le> 57)"
  shows "map_of (indexed_props xs) (c # cs) = None"
proof -
  have d: "digits10 n \<noteq> c # cs" for n
  proof
    assume "digits10 n = c # cs"
    with digits10_hd_digit [of n] assms show False by auto
  qed
  have "(c # cs) \<notin> set (map digits10 [0..<length xs])"
  proof
    assume "(c # cs) \<in> set (map digits10 [0..<length xs])"
    then obtain n where "c # cs = digits10 n" by auto
    with d show False by metis
  qed
  then have "(c # cs) \<notin> fst ` set (indexed_props xs)"
    by (auto simp: indexed_props_def dest: set_zip_leftD)
  then show ?thesis by (simp add: map_of_eq_None_iff)
qed

lemma map_of_obj_set [simp]: "map_of (obj_set k v ps) = (map_of ps)(k \<mapsto> v)"
  by (simp add: obj_set_def update_conv')

lemma map_of_fold_update:
  "map_of (fold (\<lambda>(k, x) acc. AList.update k x acc) qs ps) = map_of ps ++ map_of (rev qs)"
proof (induction qs arbitrary: ps)
  case Nil
  then show ?case by simp
next
  case (Cons q qs)
  then show ?case
    by (cases q) (auto simp: map_of_append map_add_def update_conv' fun_upd_def split: option.splits)
qed

lemma obj_set_fold_eq: "(\<lambda>(k, x) acc. obj_set k x acc) = (\<lambda>(k, x) acc. AList.update k x acc)"
  by (simp add: obj_set_def)

lemma map_of_obj_spread [simp]:
  "map_of (obj_spread ps v) = map_of ps ++ map_of (rev (js_own_props v))"
  by (simp add: obj_spread_def obj_set_fold_eq map_of_fold_update)

lemma js_or_truthy [simp]: "js_truthy a \<Longrightarrow> js_or a b = a"
  by (simp add: js_or_def)

lemma js_or_falsy [simp]: "\<not> js_truthy a \<Longrightarrow> js_or a b = b"
  by (simp add: js_or_def)

lemma set_update_subset: "set (AList.update k v ps) \<subseteq> insert (k, v) (set ps)"
  by (induction ps) auto

lemma set_delete_subset: "set (AList.delete k ps) \<subseteq> set ps"
  by (simp add: AList.delete_eq)

lemma find_Some_in_set:
  "find P xs = Some x \<Longrightarrow> x \<in> set xs \<and> P x"
  by (induction xs) (auto split: if_splits)

lemma find_append_single:
  "find P (xs @ [x]) = (case find P xs of None \<Rightarrow> (if P x then Some x else None) | Some y \<Rightarrow> Some y)"
  by (induction xs) auto

lemma map_of_Some_in_set: "map_of ps k = Some v \<Longrightarrow> (k, v) \<in> set ps"
  by (rule map_of_SomeD)

end
