(* ===== verification/ServerBootstrap.thy ===== *)
theory ServerBootstrap
  imports Prelude
begin

text \<open>
  The server bootstrap \<open>src/server/index.js\<close>: it creates the Express application,
  registers seven middleware functions in order and listens on a port.  It mounts no
  router.  The model is the request pipeline the file builds: each registered
  middleware is a constructor of \<open>middleware\<close>, run with the behaviour of the
  library it comes from (Express 4 with its final and error handlers, \<open>helmet\<close>,
  \<open>cors\<close> with its defaults, \<open>body-parser\<close> 1.x, on which \<open>express.json\<close> and
  \<open>express.urlencoded\<close> are built, and \<open>morgan\<close>); \<open>handle_request\<close> is what
  the running application does with one request.  The database connection
  (\<open>dbConnection\<close>, in \<open>dbConfig/\<close>, not under \<open>src/\<close>) and the console are not
  modelled.
\<close>

record http_request =
  req_method :: string
  req_path :: string
  req_content_type :: string       \<comment> \<open>the \<open>Content-Type\<close> header, empty when absent\<close>
  req_content_encoding :: string   \<comment> \<open>the \<open>Content-Encoding\<close> header, empty when absent\<close>
  req_body_len :: nat              \<comment> \<open>bytes of the decoded body; 0 for a request without one\<close>
  req_body_wellformed :: bool      \<comment> \<open>the body is complete and, for JSON, parses in strict mode\<close>
  req_param_count :: nat           \<comment> \<open>parameters of a urlencoded body\<close>
  req_body_read :: bool            \<comment> \<open>\<open>req._body\<close>: a parser has read the body\<close>
  req_logged :: bool

record http_response =
  res_status :: nat
  res_headers :: "(string \<times> string) list"
  res_body :: string

text \<open>The middleware the file registers with \<open>app.use\<close>; a body parser carries the
  kind of body it parses and its size limit in bytes.\<close>

datatype parser_kind = JsonBody | UrlencodedBody

datatype middleware =
    Helmet
  | Cors
  | BodyParser parser_kind nat
  | MorganDev

text \<open>What one middleware does: call \<open>next()\<close> with the request and the response
  headers set so far, call \<open>next(err)\<close> with an HTTP status, or end the response.\<close>

datatype mw_result =
    MwNext http_request "(string \<times> string) list"
  | MwError nat
  | MwEnd http_response

text \<open>Limits: body-parser's default is 100kb; \<open>express.json({limit: "10mb"})\<close>.\<close>

definition kb100 :: nat where "kb100 = 102400"
definition mb10 :: nat where "mb10 = 10485760"

text \<open>The stack of \<open>index.js\<close> lines 20--27, in registration order.\<close>

definition app_stack :: "middleware list" where
  "app_stack =
     [Helmet, Cors,
      BodyParser JsonBody kb100,
      BodyParser UrlencodedBody kb100,
      BodyParser JsonBody mb10,
      BodyParser UrlencodedBody kb100,
      MorganDev]"

text \<open>The headers helmet sets with its defaults (helmet 7; the repository does not pin a
  version); it also removes \<open>X-Powered-By\<close>, which Express's own initialisation sets
  on every response.\<close>

definition squote :: "string \<Rightarrow> string" where
  "squote s = CHR 0x27 # s @ [CHR 0x27]"

definition helmet_csp :: string where
  "helmet_csp =
     ''default-src '' @ squote ''self'' @ '';base-uri '' @ squote ''self'' @
     '';font-src '' @ squote ''self'' @ '' https: data:;form-action '' @ squote ''self'' @
     '';frame-ancestors '' @ squote ''self'' @ '';img-src '' @ squote ''self'' @ '' data:;object-src '' @
     squote ''none'' @ '';script-src '' @ squote ''self'' @ '';script-src-attr '' @ squote ''none'' @
     '';style-src '' @ squote ''self'' @ '' https: '' @ squote ''unsafe-inline'' @
     '';upgrade-insecure-requests''"

definition helmet_headers :: "(string \<times> string) list" where
  "helmet_headers =
     [(''Content-Security-Policy'', helmet_csp),
      (''Cross-Origin-Opener-Policy'', ''same-origin''),
      (''Cross-Origin-Resource-Policy'', ''same-origin''),
      (''Origin-Agent-Cluster'', ''?1''),
      (''Referrer-Policy'', ''no-referrer''),
      (''Strict-Transport-Security'', ''max-age=31536000; includeSubDomains''),
      (''X-Content-Type-Options'', ''nosniff''),
      (''X-DNS-Prefetch-Control'', ''off''),
      (''X-Download-Options'', ''noopen''),
      (''X-Frame-Options'', ''SAMEORIGIN''),
      (''X-Permitted-Cross-Domain-Policies'', ''none''),
      (''X-XSS-Protection'', ''0'')]"

definition express_init_headers :: "(string \<times> string) list" where
  "express_init_headers = [(''X-Powered-By'', ''Express'')]"

text \<open>The headers Express's final handler (\<open>finalhandler\<close>) sets on the 404 and
  error responses it writes, over those already set.\<close>

definition finalhandler_headers :: "(string \<times> string) list" where
  "finalhandler_headers =
     [(''Content-Security-Policy'', ''default-src '' @ squote ''none''),
      (''X-Content-Type-Options'', ''nosniff''),
      (''Content-Type'', ''text/html; charset=utf-8'')]"

definition set_headers :: "(string \<times> string) list \<Rightarrow> (string \<times> string) list \<Rightarrow> (string \<times> string) list" where
  "set_headers new hs = fold (\<lambda>(k, v) acc. AList.update k v acc) new hs"

subsection \<open>Content-Type and Content-Encoding, as body-parser reads them\<close>

definition is_ws :: "char \<Rightarrow> bool" where
  "is_ws c = (c = CHR '' '' \<or> c = CHR 0x09)"

definition trim_ws :: "string \<Rightarrow> string" where
  "trim_ws s = rev (dropWhile is_ws (rev (dropWhile is_ws s)))"

fun split_at_char :: "char \<Rightarrow> string \<Rightarrow> string list" where
  "split_at_char d [] = [[]]"
| "split_at_char d (c # cs) =
     (let ws = split_at_char d cs in if c = d then [] # ws else (c # hd ws) # tl ws)"

text \<open>The media type (\<open>type-is\<close> through \<open>media-typer\<close>): the part before the
  first \<open>;\<close>, trimmed and in lower case.\<close>

definition media_type :: "string \<Rightarrow> string" where
  "media_type ct = map lower_ascii (trim_ws (hd (split_at_char (CHR '';'') ct)))"

definition unquote :: "string \<Rightarrow> string" where
  "unquote v = (if 2 \<le> length v \<and> hd v = CHR 0x22 \<and> last v = CHR 0x22 then butlast (tl v) else v)"

text \<open>The \<open>charset\<close> parameter in lower case (\<open>getCharset\<close> of body-parser).\<close>

definition content_charset :: "string \<Rightarrow> string option" where
  "content_charset ct =
     map_option (\<lambda>p. map lower_ascii (unquote (drop 1 (dropWhile (\<lambda>c. c \<noteq> CHR ''='') p))))
       (find (\<lambda>p. map lower_ascii (takeWhile (\<lambda>c. c \<noteq> CHR ''='') p) = ''charset'')
          (map trim_ws (tl (split_at_char (CHR '';'') ct))))"

definition content_coding :: "string \<Rightarrow> string" where
  "content_coding enc = (if enc = [] then ''identity'' else map lower_ascii enc)"

definition parser_type :: "parser_kind \<Rightarrow> string" where
  "parser_type k = (case k of JsonBody \<Rightarrow> ''application/json''
                              | UrlencodedBody \<Rightarrow> ''application/x-www-form-urlencoded'')"

text \<open>The charsets a parser accepts before reading: JSON any \<open>utf-\<close> charset (RFC
  7159), urlencoded only \<open>utf-8\<close>; and the \<open>utf-\<close> charsets iconv-lite can decode.\<close>

definition charset_accepted :: "parser_kind \<Rightarrow> string \<Rightarrow> bool" where
  "charset_accepted k cs = (case k of JsonBody \<Rightarrow> take 4 cs = ''utf-'' | UrlencodedBody \<Rightarrow> cs = ''utf-8'')"

definition decoder_known :: "string \<Rightarrow> bool" where
  "decoder_known cs = (cs \<in> set [''utf-8'', ''utf-16'', ''utf-16le'', ''utf-16be'', ''utf-32'',
                                 ''utf-32le'', ''utf-32be'', ''utf-7'', ''utf-7-imap''])"

text \<open>What a parser of the body's media type answers, in body-parser's order: the
  charset check of the parser (415), the content coding (415), the size limit (413,
  raw-body checks it before it creates a decoder), the decoder (415), reading and
  parsing (400), and for urlencoded bodies the parameter limit of 1000 (413).
  \<open>None\<close>: the body is read.\<close>

definition body_check :: "parser_kind \<Rightarrow> nat \<Rightarrow> http_request \<Rightarrow> nat option" where
  "body_check k lim rq =
     (let cs = (case content_charset (req_content_type rq) of None \<Rightarrow> ''utf-8'' | Some c \<Rightarrow> c) in
      if \<not> charset_accepted k cs then Some 415
      else if content_coding (req_content_encoding rq) \<notin> set [''identity'', ''deflate'', ''gzip''] then Some 415
      else if lim < req_body_len rq then Some 413
      else if \<not> decoder_known cs then Some 415
      else if \<not> req_body_wellformed rq then Some 400
      else if k = UrlencodedBody \<and> 1000 < req_param_count rq then Some 413
      else None)"

fun run_mw :: "middleware \<Rightarrow> http_request \<Rightarrow> (string \<times> string) list \<Rightarrow> mw_result" where
  "run_mw Helmet rq hs = MwNext rq (set_headers helmet_headers (AList.delete ''X-Powered-By'' hs))"
| "run_mw Cors rq hs =
     (let hs' = AList.update ''Access-Control-Allow-Origin'' ''*'' hs in
      if req_method rq = ''OPTIONS''
      then MwEnd \<lparr>res_status = 204,
                  res_headers = set_headers [(''Access-Control-Allow-Methods'', ''GET,HEAD,PUT,PATCH,POST,DELETE''),
                                             (''Content-Length'', ''0'')] hs',
                  res_body = []\<rparr>
      else MwNext rq hs')"
| "run_mw (BodyParser k lim) rq hs =
     (if req_body_read rq \<or> req_body_len rq = 0 \<or> media_type (req_content_type rq) \<noteq> parser_type k
      then MwNext rq hs
      else case body_check k lim rq of
             Some st \<Rightarrow> MwError st
           | None \<Rightarrow> MwNext (rq\<lparr>req_body_read := True\<rparr>) hs)"
| "run_mw MorganDev rq hs = MwNext (rq\<lparr>req_logged := True\<rparr>) hs"

text \<open>Running the stack: \<open>next()\<close> passes to the following middleware, \<open>next(err)\<close>
  skips every ordinary middleware and reaches Express's final handler, which answers
  with the error's status; past the end of the stack the final handler answers 404
  \<open>Cannot METHOD PATH\<close> (the HTML page around the message is left out).  The
  result is the response and the request as the last middleware left it.\<close>

fun run_stack ::
  "middleware list \<Rightarrow> http_request \<Rightarrow> (string \<times> string) list \<Rightarrow> http_response \<times> http_request" where
  "run_stack [] rq hs =
     (\<lparr>res_status = 404, res_headers = set_headers finalhandler_headers hs,
       res_body = ''Cannot '' @ req_method rq @ '' '' @ req_path rq\<rparr>, rq)"
| "run_stack (m # ms) rq hs =
     (case run_mw m rq hs of
        MwNext rq' hs' \<Rightarrow> run_stack ms rq' hs'
      | MwError st \<Rightarrow> (\<lparr>res_status = st, res_headers = set_headers finalhandler_headers hs, res_body = []\<rparr>, rq)
      | MwEnd r \<Rightarrow> (r, rq))"

definition handle_request :: "http_request \<Rightarrow> http_response \<times> http_request" where
  "handle_request rq = run_stack app_stack rq express_init_headers"

text \<open>\<open>const PORT = process.env.PORT || 8800\<close> (line 15): \<open>process.env.PORT\<close> is a
  string or \<open>undefined\<close>.\<close>

definition server_port :: "jsval \<Rightarrow> jsval" where
  "server_port env_port = js_or env_port (JNum 8800)"

definition fresh_request :: "http_request \<Rightarrow> bool" where
  "fresh_request rq = (\<not> req_body_read rq \<and> \<not> req_logged rq)"

section \<open>Lemmas\<close>

text \<open>The status the stack answers with, read off the stack: a preflight ends in
  \<open>cors\<close>; a body of a parsed media type is decided by the first parser of that
  type, whose limit is 100kb; every other request runs off the end of the stack.\<close>

definition stack_status :: "http_request \<Rightarrow> nat" where
  "stack_status rq =
    (if req_method rq = ''OPTIONS'' then 204
     else if req_body_len rq \<noteq> 0 \<and> media_type (req_content_type rq) = ''application/json''
     then (case body_check JsonBody kb100 rq of Some st \<Rightarrow> st | None \<Rightarrow> 404)
     else if req_body_len rq \<noteq> 0 \<and> media_type (req_content_type rq) = ''application/x-www-form-urlencoded''
     then (case body_check UrlencodedBody kb100 rq of Some st \<Rightarrow> st | None \<Rightarrow> 404)
     else 404)"

lemma body_check_range: "body_check k lim rq \<in> {None, Some 400, Some 413, Some 415}"
  by (simp add: body_check_def Let_def)

lemma body_check_not_404 [simp]: "body_check k lim rq \<noteq> Some 404"
  using body_check_range [of k lim rq] by auto

lemma handle_request_status:
  "\<not> req_body_read rq \<Longrightarrow> res_status (fst (handle_request rq)) = stack_status rq"
  by (auto simp: handle_request_def app_stack_def stack_status_def parser_type_def
      split: option.splits)

lemma handle_request_logged:
  "\<not> req_body_read rq \<Longrightarrow>
     req_logged (snd (handle_request rq)) = (req_logged rq \<or> stack_status rq = 404)"
  by (auto simp: handle_request_def app_stack_def stack_status_def parser_type_def
      split: option.splits)

lemma map_of_set_headers [simp]: "map_of (set_headers new hs) = map_of hs ++ map_of (rev new)"
  by (simp add: set_headers_def map_of_fold_update)

text \<open>Body parsers and the logger never touch the response headers; whatever they
  end with, the final handler writes the response.\<close>

lemma run_stack_headers_frame:
  "\<forall>m \<in> set ms. m \<noteq> Helmet \<and> m \<noteq> Cors \<Longrightarrow>
     res_headers (fst (run_stack ms rq hs)) = set_headers finalhandler_headers hs"
proof (induction ms arbitrary: rq)
  case Nil
  then show ?case by simp
next
  case (Cons m ms)
  then show ?case by (cases m) (auto split: if_splits option.splits)
qed

definition after_cors_headers :: "(string \<times> string) list" where
  "after_cors_headers =
     AList.update ''Access-Control-Allow-Origin'' ''*''
       (set_headers helmet_headers (AList.delete ''X-Powered-By'' express_init_headers))"

lemma handle_request_headers:
  "res_headers (fst (handle_request rq)) =
     (if req_method rq = ''OPTIONS''
      then set_headers [(''Access-Control-Allow-Methods'', ''GET,HEAD,PUT,PATCH,POST,DELETE''),
                        (''Content-Length'', ''0'')] after_cors_headers
      else set_headers finalhandler_headers after_cors_headers)"
proof -
  let ?tail = "[BodyParser JsonBody kb100, BodyParser UrlencodedBody kb100,
      BodyParser JsonBody mb10, BodyParser UrlencodedBody kb100, MorganDev]"
  have "\<forall>m \<in> set ?tail. m \<noteq> Helmet \<and> m \<noteq> Cors" by simp
  then have "res_headers (fst (run_stack ?tail rq' hs)) = set_headers finalhandler_headers hs" for rq' hs
    by (rule run_stack_headers_frame)
  then show ?thesis
    by (simp add: handle_request_def app_stack_def after_cors_headers_def Let_def)
qed

lemma map_of_after_cors_headers:
  "map_of after_cors_headers =
     [''X-Powered-By'' \<mapsto> ''Express''] |` (- {''X-Powered-By''}) ++ map_of (rev helmet_headers)
       ++ [''Access-Control-Allow-Origin'' \<mapsto> ''*'']"
  by (simp add: after_cors_headers_def update_conv' delete_conv'
      express_init_headers_def restrict_map_def fun_eq_iff map_add_def split: option.splits)

section \<open>Properties\<close>

text \<open>C1: The application answers no request with a route: a fresh request ends as a
  CORS preflight (204), a body refused by a parser (400, 413, or 415 for a charset or
  content coding body-parser does not take) or Express's 404, never with a handler's
  answer.  \<open>index.js\<close> mounts no router, so the requests the pages send
  (\<open>/auth/login\<close>, \<open>/auth/register\<close>, \<open>/posts/...\<close>) all fail.\<close>

theorem server_routes_unreachable:
  assumes "fresh_request rq"
  shows "res_status (fst (handle_request rq)) \<in> {204, 400, 413, 415, 404}"
proof -
  have "res_status (fst (handle_request rq)) = stack_status rq"
    using assms by (simp add: fresh_request_def handle_request_status)
  moreover have "stack_status rq \<in> {204, 400, 413, 415, 404}"
    using body_check_range [of JsonBody kb100 rq] body_check_range [of UrlencodedBody kb100 rq]
    by (auto simp: stack_status_def split: option.splits)
  ultimately show ?thesis by simp
qed

lemma server_routes_unreachable_witness:
  "res_status (fst (handle_request \<lparr>req_method = ''POST'', req_path = ''/auth/login'',
     req_content_type = ''application/json'', req_content_encoding = [], req_body_len = 48,
     req_body_wellformed = True, req_param_count = 0, req_body_read = False, req_logged = False\<rparr>))
   \<in> {204, 400, 413, 415, 404}"
proof -
  have "fresh_request \<lparr>req_method = ''POST'', req_path = ''/auth/login'',
     req_content_type = ''application/json'', req_content_encoding = [], req_body_len = 48,
     req_body_wellformed = True, req_param_count = 0, req_body_read = False, req_logged = False\<rparr>"
    by (simp add: fresh_request_def)
  then show ?thesis by (rule server_routes_unreachable)
qed



text \<open>C3: Every response, errors, 404s and preflights included, carries helmet's
  headers and the open CORS origin, and none reveals \<open>X-Powered-By\<close>.\<close>

theorem security_headers_every_response:
  "map_of (res_headers (fst (handle_request rq))) ''X-Powered-By'' = None \<and>
   map_of (res_headers (fst (handle_request rq))) ''X-Content-Type-Options'' = Some ''nosniff'' \<and>
   map_of (res_headers (fst (handle_request rq))) ''X-Frame-Options'' = Some ''SAMEORIGIN'' \<and>
   map_of (res_headers (fst (handle_request rq))) ''Access-Control-Allow-Origin'' = Some ''*''"
  by (simp add: handle_request_headers map_of_after_cors_headers helmet_headers_def
      finalhandler_headers_def map_add_def restrict_map_def)

text \<open>C4: The request logger (\<open>morgan\<close>, registered last, line 27) sees exactly
  the requests that reach the end of the stack: preflights and refused bodies are
  answered before it and are never logged.\<close>

theorem logging_only_unrejected:
  assumes "fresh_request rq"
  shows "req_logged (snd (handle_request rq)) = (res_status (fst (handle_request rq)) = 404)"
  using assms by (simp add: fresh_request_def handle_request_status handle_request_logged)

lemma logging_only_unrejected_witness:
  "req_logged (snd (handle_request \<lparr>req_method = ''OPTIONS'', req_path = ''/auth/login'',
     req_content_type = [], req_content_encoding = [], req_body_len = 0, req_body_wellformed = True,
     req_param_count = 0, req_body_read = False, req_logged = False\<rparr>)) = False"
proof -
  let ?rq = "\<lparr>req_method = ''OPTIONS'', req_path = ''/auth/login'',
     req_content_type = [], req_content_encoding = [], req_body_len = 0, req_body_wellformed = True,
     req_param_count = 0, req_body_read = False, req_logged = False\<rparr>"
  have f: "fresh_request ?rq" by (simp add: fresh_request_def)
  have "res_status (fst (handle_request ?rq)) = 204"
    by (simp add: handle_request_status stack_status_def)
  with logging_only_unrejected [OF f] show ?thesis by simp
qed

end
