(* ===== verification/PageCommon.thy ===== *)
theory PageCommon
  imports Prelude
begin

text \<open>
  What the three client pages share: the rendered view as a list of nodes (styling
  left out: only the nodes, their text and the alert colour, which carries meaning),
  the rules of \<open>react-hook-form\<close> that the pages register (\<open>required\<close> and
  \<open>validate\<close>), and the rendering of a JSX \<open>{cond && node}\<close>: React renders
  nothing for \<open>false\<close>, \<open>null\<close>, \<open>undefined\<close> and \<open>""\<close>, but renders the
  number \<open>0\<close> as text.
\<close>

datatype view_node =
    VText string
  | VInput string string string  \<comment> \<open>field name, label, error message shown\<close>
  | VLink string string          \<comment> \<open>target, text\<close>
  | VAlert string jsval          \<comment> \<open>text colour, message\<close>
  | VLoading
  | VButton string
  | VImage string
  | VPostCard jsval
  | VProfileCard jsval
  | VFriendsCard jsval
  | VTopBar

text \<open>\<open>register(name, {required: msg})\<close>: a field whose value is the empty string
  fails with the rule's message.\<close>

definition rhf_required :: "string \<Rightarrow> string \<Rightarrow> string option" where
  "rhf_required msg v = (if v = [] then Some msg else None)"

text \<open>The \<open>errors\<close> state of \<open>useForm({mode: "onChange"})\<close>, as an association list
  from field names to messages.  It starts empty; a change of a field validates that
  field only and records or clears its error (\<open>rhf_validate_field\<close>);
  \<open>handleSubmit\<close> validates every registered field and replaces the whole state with
  the failures (\<open>rhf_errors\<close>).  The inputs render this state, not the rules applied
  to the current values.\<close>

type_synonym rhf_errors = "(string \<times> string) list"

definition rhf_validate_field :: "string \<Rightarrow> string option \<Rightarrow> rhf_errors \<Rightarrow> rhf_errors" where
  "rhf_validate_field k r errs = (case r of Some m \<Rightarrow> AList.update k m errs | None \<Rightarrow> AList.delete k errs)"

definition rhf_errors :: "(string \<times> string option) list \<Rightarrow> rhf_errors" where
  "rhf_errors rs = List.map_filter (\<lambda>(k, r). map_option (Pair k) r) rs"

text \<open>The field's error as the pages pass it to \<open>TextInput\<close>:
  \<open>errors.f ? errors.f.message : ""\<close>.\<close>

definition shown_error :: "string option \<Rightarrow> string" where
  "shown_error e = (case e of Some m \<Rightarrow> m | None \<Rightarrow> [])"

text \<open>\<open>{a && node}\<close> where \<open>node\<close> is rendered when \<open>a\<close> is truthy.\<close>

definition jsx_and :: "jsval \<Rightarrow> view_node \<Rightarrow> view_node list" where
  "jsx_and a n = (if js_truthy a then [n] else if a = JNum 0 then [VText ''0''] else [])"

text \<open>The alert the Login and Register pages render under their form: shown when
  \<open>errMsg?.message\<close> is truthy, red when \<open>errMsg?.status === "failed"\<close>, green
  otherwise.\<close>

definition alert_red :: string where "alert_red = ''#f64949fe''"
definition alert_green :: string where "alert_green = ''#2ba150fe''"

definition status_alert :: "jsval \<Rightarrow> view_node list" where
  "status_alert e =
     jsx_and (js_get e ''message'')
       (VAlert (if js_get e ''status'' = JStr ''failed'' then alert_red else alert_green)
          (js_get e ''message''))"

text \<open>\<open>{isSubmitting ? <Loading /> : <CustomButton type='submit' title=t />}\<close>.\<close>

definition submit_control :: "bool \<Rightarrow> string \<Rightarrow> view_node" where
  "submit_control submitting t = (if submitting then VLoading else VButton t)"

section \<open>Lemmas\<close>

lemma status_alert_failed:
  "js_get e ''status'' = JStr ''failed'' \<Longrightarrow> js_truthy (js_get e ''message'') \<Longrightarrow>
     status_alert e = [VAlert alert_red (js_get e ''message'')]"
  by (simp add: status_alert_def jsx_and_def)

lemma status_alert_empty_string [simp]: "status_alert (JStr []) = []"
  by (simp add: status_alert_def jsx_and_def)

lemma map_of_rhf_errors:
  "distinct (map fst rs) \<Longrightarrow> map_of (rhf_errors rs) k = (case map_of rs k of Some r \<Rightarrow> r | None \<Rightarrow> None)"
proof (induction rs)
  case Nil
  then show ?case by (simp add: rhf_errors_def)
next
  case (Cons p rs)
  then show ?case
    by (cases p) (auto simp: rhf_errors_def map_filter_simps split: option.splits; force)
qed

lemma map_of_rhf_validate_field [simp]:
  "map_of (rhf_validate_field k r errs) = (map_of errs)(k := r)"
  by (cases r) (simp_all add: rhf_validate_field_def update_conv' delete_conv')

lemma alert_colours_differ [simp]: "alert_red \<noteq> alert_green"
  by (simp add: alert_red_def alert_green_def)

end
