(* ===== verification/CredentialStore.thy ===== *)
theory CredentialStore
  imports Prelude
begin

text \<open>
  The Credential Store of spec section 4.1: the table of user records with
  registration, credential verification and profile update.  Its backend code is
  not part of \<open>src/\<close>, so it is modelled from the spec.  Users are never deleted
  (spec section 3), so the table is a list indexed by the user identifier.  The
  salted slow hash is an external collaborator: every operation that hashes takes
  it as a parameter \<open>H salt raw\<close>, and the fresh salt of a registration is an
  argument.  Verification compares hashes with a constant-time comparison
  \<open>ct_equal\<close>, shown equal to string equality and to take a number of steps that
  depends on the lengths only.
\<close>

record user =
  uid :: user_id
  email :: string
  salt :: string
  pw_hash :: string
  first_name :: string
  last_name :: string
  bio :: string
  avatar :: "string option"
  updated_at :: time

record cred_store =
  users :: "user list"

type_synonym hasher = "string \<Rightarrow> string \<Rightarrow> string"

definition empty_cred_store :: cred_store where
  "empty_cred_store = \<lparr>users = []\<rparr>"

text \<open>The password policy: non-empty and at least this long.  The spec leaves
  the length open; its example password \<open>pw123456\<close> has eight characters.\<close>

definition min_password_len :: nat where
  "min_password_len = 8"

section \<open>Email normalisation\<close>

definition normalize_email :: "string \<Rightarrow> string" where
  "normalize_email e = map lower_ascii e"

definition find_user_by_email :: "cred_store \<Rightarrow> string \<Rightarrow> user option" where
  "find_user_by_email s e = find (\<lambda>u. email u = normalize_email e) (users s)"

definition user_exists :: "cred_store \<Rightarrow> user_id \<Rightarrow> bool" where
  "user_exists s u = (u < length (users s))"

section \<open>Constant-time comparison\<close>

text \<open>The comparison runs over the whole common prefix and accumulates whether a
  difference was seen; it never exits early.  The second component counts the
  iterations.\<close>

fun ct_scan :: "string \<Rightarrow> string \<Rightarrow> bool \<Rightarrow> nat \<Rightarrow> bool \<times> nat" where
  "ct_scan (a # as) (b # bs) diff n = ct_scan as bs (diff \<or> a \<noteq> b) (Suc n)"
| "ct_scan _ _ diff n = (diff, n)"

definition ct_equal :: "string \<Rightarrow> string \<Rightarrow> bool" where
  "ct_equal xs ys = (length xs = length ys \<and> \<not> fst (ct_scan xs ys False 0))"

section \<open>Operations\<close>

text \<open>Registration: the password policy is a validation error and is checked
  before the table is read (spec section 7); then the normalised email must be new.\<close>

definition register ::
  "hasher \<Rightarrow> string \<Rightarrow> string \<Rightarrow> string \<Rightarrow> string \<Rightarrow> string \<Rightarrow> time \<Rightarrow> cred_store
   \<Rightarrow> (user_id \<times> cred_store) result" where
  "register H sl em pw fname lname now s =
     (if length pw < min_password_len then Inl WeakCredential
      else if find_user_by_email s em \<noteq> None then Inl DuplicateEmail
      else let i = length (users s);
               u = \<lparr>uid = i, email = normalize_email em, salt = sl, pw_hash = H sl pw,
                    first_name = fname, last_name = lname, bio = [], avatar = None,
                    updated_at = now\<rparr>
           in Inr (i, s\<lparr>users := users s @ [u]\<rparr>))"

definition verify :: "hasher \<Rightarrow> string \<Rightarrow> string \<Rightarrow> cred_store \<Rightarrow> user_id result" where
  "verify H em pw s =
     (case find_user_by_email s em of
        None \<Rightarrow> Inl NotFound
      | Some u \<Rightarrow> if ct_equal (H (salt u) pw) (pw_hash u) then Inr (uid u)
                  else Inl InvalidCredential)"

text \<open>A profile update names the fields it supplies; the others are kept.\<close>

record profile_fields =
  set_first_name :: "string option"
  set_last_name :: "string option"
  set_bio :: "string option"
  set_avatar :: "string option"

definition apply_profile :: "profile_fields \<Rightarrow> time \<Rightarrow> user \<Rightarrow> user" where
  "apply_profile f now u =
     u\<lparr>first_name := case_option (first_name u) id (set_first_name f),
       last_name := case_option (last_name u) id (set_last_name f),
       bio := case_option (bio u) id (set_bio f),
       avatar := (case set_avatar f of None \<Rightarrow> avatar u | Some a \<Rightarrow> Some a),
       updated_at := now\<rparr>"

definition update_profile ::
  "user_id \<Rightarrow> profile_fields \<Rightarrow> time \<Rightarrow> cred_store \<Rightarrow> cred_store result" where
  "update_profile i f now s =
     (if \<not> user_exists s i then Inl NotFound
      else Inr (s\<lparr>users := (users s)[i := apply_profile f now (users s ! i)]\<rparr>))"

section \<open>Invariant\<close>

text \<open>Identifiers are positions, normalised emails are unique, every stored email
  is normalised and no password hash is empty.\<close>

definition cred_inv :: "cred_store \<Rightarrow> bool" where
  "cred_inv s =
     ((\<forall>i < length (users s). uid (users s ! i) = i)
      \<and> distinct (map email (users s))
      \<and> (\<forall>u \<in> set (users s). normalize_email (email u) = email u \<and> pw_hash u \<noteq> []))"

section \<open>Lemmas\<close>

subsection \<open>Normalisation\<close>

lemma normalize_email_idem [simp]: "normalize_email (normalize_email e) = normalize_email e"
  by (simp add: normalize_email_def comp_def)

subsection \<open>The comparison\<close>

lemma ct_scan_diff:
  "fst (ct_scan xs ys d n) =
     (d \<or> take (min (length xs) (length ys)) xs \<noteq> take (min (length xs) (length ys)) ys)"
  by (induction xs ys d n rule: ct_scan.induct) auto

lemma ct_scan_count: "snd (ct_scan xs ys d n) = n + min (length xs) (length ys)"
  by (induction xs ys d n rule: ct_scan.induct) auto

lemma ct_equal_iff [simp]: "ct_equal xs ys = (xs = ys)"
  by (auto simp: ct_equal_def ct_scan_diff)

subsection \<open>Lookup by email\<close>

lemma find_user_by_email_Some:
  "find_user_by_email s e = Some u \<Longrightarrow> u \<in> set (users s) \<and> email u = normalize_email e"
  by (auto simp: find_user_by_email_def dest: find_Some_in_set)

lemma find_user_by_email_None:
  "(find_user_by_email s e = None) = (normalize_email e \<notin> set (map email (users s)))"
  by (force simp: find_user_by_email_def find_None_iff)

lemma cred_inv_find_nth:
  assumes "cred_inv s" and "find_user_by_email s e = Some u"
  shows "uid u < length (users s) \<and> users s ! uid u = u"
proof -
  from assms(2) have "u \<in> set (users s)" by (simp add: find_user_by_email_Some)
  then obtain i where i: "i < length (users s)" "users s ! i = u" by (auto simp: in_set_conv_nth)
  with assms(1) have "uid u = i" by (auto simp: cred_inv_def)
  with i show ?thesis by simp
qed

subsection \<open>Registration\<close>

lemma register_Inr:
  "register H sl em pw fname lname now s = Inr (i, s') \<longleftrightarrow>
     min_password_len \<le> length pw \<and> find_user_by_email s em = None \<and> i = length (users s) \<and>
     s' = s\<lparr>users := users s @ [\<lparr>uid = i, email = normalize_email em, salt = sl,
              pw_hash = H sl pw, first_name = fname, last_name = lname, bio = [],
              avatar = None, updated_at = now\<rparr>]\<rparr>"
  by (auto simp: register_def Let_def)

lemma register_user_exists:
  "register H sl em pw fname lname now s = Inr (i, s') \<Longrightarrow>
     user_exists s' i \<and> (\<forall>j. user_exists s j \<longrightarrow> user_exists s' j)"
  by (auto simp: register_Inr user_exists_def)

lemma register_find_new:
  "register H sl em pw fname lname now s = Inr (i, s') \<Longrightarrow>
     normalize_email em' = normalize_email em \<Longrightarrow>
     find_user_by_email s' em' = Some (users s' ! i)"
  by (auto simp: register_Inr find_user_by_email_def find_append_single)

lemma register_cred_inv:
  assumes "cred_inv s" and "\<forall>a b. H a b \<noteq> []"
    and "register H sl em pw fname lname now s = Inr (i, s')"
  shows "cred_inv s'"
proof -
  from assms(3) have new: "normalize_email em \<notin> set (map email (users s))"
    by (simp add: register_Inr find_user_by_email_None)
  from assms(1,2,3) new show ?thesis
    by (auto simp: cred_inv_def register_Inr nth_append)
qed

lemma verify_Inr_find:
  "verify H em pw s = Inr i \<Longrightarrow>
     \<exists>u. find_user_by_email s em = Some u \<and> uid u = i \<and> H (salt u) pw = pw_hash u"
  by (auto simp: verify_def split: option.splits if_splits)

lemma verify_Inr_user_exists:
  assumes "cred_inv s" and "verify H em pw s = Inr i"
  shows "user_exists s i"
  using verify_Inr_find [OF assms(2)] cred_inv_find_nth [OF assms(1)]
  by (auto simp: user_exists_def)

lemma update_profile_Inr:
  "update_profile i f now s = Inr s' \<longleftrightarrow>
     i < length (users s) \<and> s' = s\<lparr>users := (users s)[i := apply_profile f now (users s ! i)]\<rparr>"
  by (auto simp: update_profile_def user_exists_def)

lemma update_profile_cred_inv:
  assumes "cred_inv s" and "update_profile i f now s = Inr s'"
  shows "cred_inv s'"
proof -
  from assms(2) have i: "i < length (users s)"
    and s': "s' = s\<lparr>users := (users s)[i := apply_profile f now (users s ! i)]\<rparr>"
    by (auto simp: update_profile_Inr)
  have m: "map email (users s') = map email (users s)"
    using i s' by (simp add: map_update apply_profile_def) (metis list_update_id nth_map)
  have "set (users s') \<subseteq> insert (apply_profile f now (users s ! i)) (set (users s))"
    using s' by (auto dest: set_update_subset_insert [THEN subsetD])
  moreover have "users s ! i \<in> set (users s)" using i by simp
  ultimately show "cred_inv s'"
    using assms(1) m i s' by (auto simp: cred_inv_def nth_list_update apply_profile_def)
qed

section \<open>Properties\<close>

text \<open>A second registration with the same normalised email, whatever its
  letter case and however strong its password, fails with \<open>DuplicateEmail\<close>
  (spec section 8, first property).\<close>

theorem register_duplicate_email:
  assumes "register H sl em pw fname lname now s = Inr (i, s')"
    and "normalize_email em2 = normalize_email em"
    and "min_password_len \<le> length pw2"
  shows "register H sl2 em2 pw2 fname2 lname2 now2 s' = Inl DuplicateEmail"
  using register_find_new [OF assms(1,2)] assms(3) by (simp add: register_def)

lemma register_duplicate_email_witness:
  "register (\<lambda>x y. x @ y) ''s1'' ''alice@x.com'' ''pw123456'' ''Alice'' ''A'' 0 empty_cred_store
     = Inr (0, \<lparr>users = [\<lparr>uid = 0, email = ''alice@x.com'', salt = ''s1'',
       pw_hash = ''s1pw123456'', first_name = ''Alice'', last_name = ''A'', bio = [],
       avatar = None, updated_at = 0\<rparr>]\<rparr>) \<and>
   normalize_email ''ALICE@x.com'' = normalize_email ''alice@x.com'' \<and>
   min_password_len \<le> length ''other-password'' \<and>
   register (\<lambda>x y. x @ y) ''s2'' ''ALICE@x.com'' ''other-password'' ''Al'' ''B'' 5
     \<lparr>users = [\<lparr>uid = 0, email = ''alice@x.com'', salt = ''s1'',
       pw_hash = ''s1pw123456'', first_name = ''Alice'', last_name = ''A'', bio = [],
       avatar = None, updated_at = 0\<rparr>]\<rparr> = Inl DuplicateEmail"
proof -
  have r: "register (\<lambda>x y. x @ y) ''s1'' ''alice@x.com'' ''pw123456'' ''Alice'' ''A'' 0 empty_cred_store
     = Inr (0, \<lparr>users = [\<lparr>uid = 0, email = ''alice@x.com'', salt = ''s1'',
       pw_hash = ''s1pw123456'', first_name = ''Alice'', last_name = ''A'', bio = [],
       avatar = None, updated_at = 0\<rparr>]\<rparr>)" by code_simp
  have n: "normalize_email ''ALICE@x.com'' = normalize_email ''alice@x.com''" by code_simp
  have l: "min_password_len \<le> length ''other-password''" by (simp add: min_password_len_def)
  show ?thesis using register_duplicate_email [OF r n l] r n l by simp
qed

text \<open>Registration followed by verification with the same email (in any
  letter case) and password yields the new identifier: the register/verify round
  trip on which login rests.\<close>

theorem register_verify_roundtrip:
  assumes "register H sl em pw fname lname now s = Inr (i, s')"
    and "normalize_email em' = normalize_email em"
  shows "verify H em' pw s' = Inr i"
proof -
  from assms have "find_user_by_email s' em' = Some (users s' ! i)"
    by (rule register_find_new)
  moreover from assms(1) have "users s' ! i = \<lparr>uid = i, email = normalize_email em, salt = sl,
      pw_hash = H sl pw, first_name = fname, last_name = lname, bio = [], avatar = None,
      updated_at = now\<rparr>"
    by (auto simp: register_Inr)
  ultimately show ?thesis by (simp add: verify_def)
qed

lemma register_verify_roundtrip_witness:
  "verify (\<lambda>x y. x @ y) ''Alice@X.com'' ''pw123456''
     \<lparr>users = [\<lparr>uid = 0, email = ''alice@x.com'', salt = ''s1'',
       pw_hash = ''s1pw123456'', first_name = ''Alice'', last_name = ''A'', bio = [],
       avatar = None, updated_at = 0\<rparr>]\<rparr> = Inr 0"
proof -
  have r: "register (\<lambda>x y. x @ y) ''s1'' ''alice@x.com'' ''pw123456'' ''Alice'' ''A'' 0 empty_cred_store
     = Inr (0, \<lparr>users = [\<lparr>uid = 0, email = ''alice@x.com'', salt = ''s1'',
       pw_hash = ''s1pw123456'', first_name = ''Alice'', last_name = ''A'', bio = [],
       avatar = None, updated_at = 0\<rparr>]\<rparr>)" by code_simp
  have n: "normalize_email ''Alice@X.com'' = normalize_email ''alice@x.com''" by code_simp
  show ?thesis using register_verify_roundtrip [OF r n] .
qed

text \<open>A successful verification on a well-formed store names an existing
  user whose normalised email is the one given and whose stored hash is the hash
  of the given password under that user's salt.\<close>

theorem verify_sound:
  assumes "cred_inv s" and "verify H em pw s = Inr i"
  shows "user_exists s i \<and> email (users s ! i) = normalize_email em \<and>
         pw_hash (users s ! i) = H (salt (users s ! i)) pw"
proof -
  from verify_Inr_find [OF assms(2)] obtain u where f: "find_user_by_email s em = Some u"
    and h: "H (salt u) pw = pw_hash u" and i: "uid u = i"
    by blast
  from cred_inv_find_nth [OF assms(1) f] i have "i < length (users s)" "users s ! i = u" by auto
  with f h show ?thesis by (auto simp: user_exists_def dest: find_user_by_email_Some)
qed

lemma verify_sound_witness:
  "user_exists \<lparr>users = [\<lparr>uid = 0, email = ''alice@x.com'', salt = ''s1'',
       pw_hash = ''s1pw123456'', first_name = ''Alice'', last_name = ''A'', bio = [],
       avatar = None, updated_at = 0\<rparr>]\<rparr> 0"
proof -
  let ?s = "\<lparr>users = [\<lparr>uid = 0, email = ''alice@x.com'', salt = ''s1'',
       pw_hash = ''s1pw123456'', first_name = ''Alice'', last_name = ''A'', bio = [],
       avatar = None, updated_at = 0\<rparr>]\<rparr>"
  have i: "cred_inv ?s" by code_simp
  have v: "verify (\<lambda>x y. x @ y) ''alice@x.com'' ''pw123456'' ?s = Inr 0" by code_simp
  show ?thesis using verify_sound [OF i v] by simp
qed

text \<open>The hash comparison is string equality and its loop runs exactly as
  many iterations as the shorter operand is long, whatever the contents: the
  comparison time does not reveal where the first difference is (spec 4.1).\<close>

theorem ct_equal_correct:
  "ct_equal xs ys = (xs = ys) \<and> snd (ct_scan xs ys False 0) = min (length xs) (length ys)"
  by (simp add: ct_scan_count)

text \<open>A profile update touches only the addressed user, only the supplied
  fields and the update time; email and password hash are kept.\<close>

theorem update_profile_frame:
  assumes "update_profile i f now s = Inr s'"
  shows "length (users s') = length (users s) \<and>
    (\<forall>j. j \<noteq> i \<longrightarrow> users s' ! j = users s ! j) \<and>
    email (users s' ! i) = email (users s ! i) \<and> pw_hash (users s' ! i) = pw_hash (users s ! i) \<and>
    first_name (users s' ! i) = (case set_first_name f of None \<Rightarrow> first_name (users s ! i) | Some x \<Rightarrow> x) \<and>
    last_name (users s' ! i) = (case set_last_name f of None \<Rightarrow> last_name (users s ! i) | Some x \<Rightarrow> x) \<and>
    updated_at (users s' ! i) = now"
  using assms by (auto simp: update_profile_Inr apply_profile_def split: option.splits)

lemma update_profile_frame_witness:
  "first_name (users \<lparr>users = [\<lparr>uid = 0, email = ''alice@x.com'', salt = ''s1'',
       pw_hash = ''s1pw123456'', first_name = ''Al'', last_name = ''A'', bio = [],
       avatar = None, updated_at = 7\<rparr>]\<rparr> ! 0) = ''Al''"
proof -
  let ?s = "\<lparr>users = [\<lparr>uid = 0, email = ''alice@x.com'', salt = ''s1'',
       pw_hash = ''s1pw123456'', first_name = ''Alice'', last_name = ''A'', bio = [],
       avatar = None, updated_at = 0\<rparr>]\<rparr>"
  let ?f = "\<lparr>set_first_name = Some ''Al'', set_last_name = None, set_bio = None, set_avatar = None\<rparr>"
  have u: "update_profile 0 ?f 7 ?s = Inr \<lparr>users = [\<lparr>uid = 0, email = ''alice@x.com'', salt = ''s1'',
       pw_hash = ''s1pw123456'', first_name = ''Al'', last_name = ''A'', bio = [],
       avatar = None, updated_at = 7\<rparr>]\<rparr>"
    by code_simp
  show ?thesis using update_profile_frame [OF u] by simp
qed

end
