(* ===== verification/Authenticator.thy ===== *)
theory Authenticator
  imports CredentialStore
begin

text \<open>
  The Authenticator of spec section 4.2 (modelled from the spec, its code is not
  under \<open>src/\<close>): a session table from opaque tokens to the user they are bound
  to and their expiry, kept beside the Credential Store it delegates to.  Tokens
  are minted from a counter, so a new token is never in use; the table is an
  association list (\<open>AList\<close>) so that every operation and the invariant evaluate.
  \<open>authenticate\<close> returns no state: resolution is read-only by its type.
\<close>

record session =
  sess_user :: user_id
  expires_at :: time

record auth_state =
  cred :: cred_store
  sessions :: "(token \<times> session) list"
  next_token :: token

text \<open>Session time-to-live: 24 hours, in seconds (spec 4.2).\<close>

definition session_ttl :: nat where
  "session_ttl = 86400"

definition empty_auth :: auth_state where
  "empty_auth = \<lparr>cred = empty_cred_store, sessions = [], next_token = 0\<rparr>"

definition auth_register ::
  "hasher \<Rightarrow> string \<Rightarrow> string \<Rightarrow> string \<Rightarrow> string \<Rightarrow> string \<Rightarrow> time \<Rightarrow> auth_state
   \<Rightarrow> (user_id \<times> auth_state) result" where
  "auth_register H sl em pw fname lname now a =
     (case register H sl em pw fname lname now (cred a) of
        Inl e \<Rightarrow> Inl e
      | Inr (u, c') \<Rightarrow> Inr (u, a\<lparr>cred := c'\<rparr>))"

definition login ::
  "hasher \<Rightarrow> string \<Rightarrow> string \<Rightarrow> time \<Rightarrow> auth_state
   \<Rightarrow> ((user_id \<times> token \<times> time) \<times> auth_state) result" where
  "login H em pw now a =
     (case verify H em pw (cred a) of
        Inl e \<Rightarrow> Inl e
      | Inr u \<Rightarrow>
          let t = next_token a; ex = now + session_ttl
          in Inr ((u, t, ex),
                  a\<lparr>sessions := AList.update t \<lparr>sess_user = u, expires_at = ex\<rparr> (sessions a),
                    next_token := Suc t\<rparr>))"

text \<open>A session is expired once the clock is past its expiry.\<close>

definition authenticate :: "token \<Rightarrow> time \<Rightarrow> auth_state \<Rightarrow> user_id result" where
  "authenticate t now a =
     (case map_of (sessions a) t of
        None \<Rightarrow> Inl InvalidToken
      | Some s \<Rightarrow> if expires_at s < now then Inl SessionExpired else Inr (sess_user s))"

definition logout :: "token \<Rightarrow> auth_state \<Rightarrow> auth_state" where
  "logout t a = a\<lparr>sessions := AList.delete t (sessions a)\<rparr>"

text \<open>Removal of expired entries (spec section 9).\<close>

definition expire_sessions :: "time \<Rightarrow> auth_state \<Rightarrow> auth_state" where
  "expire_sessions now a = a\<lparr>sessions := filter (\<lambda>(t, s). \<not> expires_at s < now) (sessions a)\<rparr>"

definition auth_inv :: "auth_state \<Rightarrow> bool" where
  "auth_inv a =
     (cred_inv (cred a) \<and> distinct (map fst (sessions a)) \<and>
      (\<forall>(t, s) \<in> set (sessions a). t < next_token a \<and> user_exists (cred a) (sess_user s)))"

section \<open>Lemmas\<close>

lemma login_Inr:
  "login H em pw now a = Inr ((u, t, ex), a') \<longleftrightarrow>
     verify H em pw (cred a) = Inr u \<and> t = next_token a \<and> ex = now + session_ttl \<and>
     a' = a\<lparr>sessions := AList.update t \<lparr>sess_user = u, expires_at = ex\<rparr> (sessions a),
            next_token := Suc t\<rparr>"
  by (auto simp: login_def Let_def split: sum.splits)

lemma login_Inl: "verify H em pw (cred a) = Inl e \<Longrightarrow> login H em pw now a = Inl e"
  by (simp add: login_def)

lemma map_of_sessions_fresh:
  assumes "auth_inv a" and "next_token a \<le> t"
  shows "map_of (sessions a) t = None"
proof (rule ccontr)
  assume "map_of (sessions a) t \<noteq> None"
  then obtain s where "(t, s) \<in> set (sessions a)" by (auto dest: map_of_SomeD)
  with assms show False by (auto simp: auth_inv_def)
qed

lemma authenticate_logout_other:
  "t' \<noteq> t \<Longrightarrow> authenticate t' now (logout t a) = authenticate t' now a"
  by (simp add: authenticate_def logout_def delete_conv')

lemma auth_register_Inr:
  "auth_register H sl em pw fname lname now a = Inr (u, a') \<longleftrightarrow>
     (\<exists>c'. register H sl em pw fname lname now (cred a) = Inr (u, c') \<and> a' = a\<lparr>cred := c'\<rparr>)"
  by (auto simp: auth_register_def split: sum.splits)

lemma login_auth_inv:
  assumes "auth_inv a" and "login H em pw now a = Inr ((u, t, ex), a')"
  shows "auth_inv a'"
proof -
  from assms(2) have v: "verify H em pw (cred a) = Inr u" and t: "t = next_token a"
    and a': "a' = a\<lparr>sessions := AList.update t \<lparr>sess_user = u, expires_at = ex\<rparr> (sessions a),
            next_token := Suc t\<rparr>"
    by (auto simp: login_Inr)
  from assms(1) v have "user_exists (cred a) u"
    by (auto simp: auth_inv_def intro: verify_Inr_user_exists)
  with assms(1) a' t show ?thesis
    by (auto simp: auth_inv_def distinct_update dest!: set_update_subset [THEN subsetD])
qed

lemma logout_auth_inv: "auth_inv a \<Longrightarrow> auth_inv (logout t a)"
  unfolding auth_inv_def logout_def
  using distinct_delete [of "sessions a" t] by (auto simp: AList.delete_eq)

lemma expire_auth_inv: "auth_inv a \<Longrightarrow> auth_inv (expire_sessions now a)"
  by (auto simp: auth_inv_def expire_sessions_def distinct_map_filter)

lemma auth_register_auth_inv:
  assumes "auth_inv a" and "\<forall>x y. H x y \<noteq> []"
    and "auth_register H sl em pw fname lname now a = Inr (u, a')"
  shows "auth_inv a'"
proof -
  from assms(3) obtain c' where r: "register H sl em pw fname lname now (cred a) = Inr (u, c')"
    and a': "a' = a\<lparr>cred := c'\<rparr>"
    by (auto simp: auth_register_Inr)
  from assms(1) have "cred_inv (cred a)" by (simp add: auth_inv_def)
  from register_cred_inv [OF this assms(2) r] have "cred_inv c'" .
  moreover from register_user_exists [OF r] have "\<forall>j. user_exists (cred a) j \<longrightarrow> user_exists c' j"
    by blast
  ultimately show ?thesis using assms(1) a' by (auto simp: auth_inv_def)
qed

lemma login_session_now:
  "login H em pw now a = Inr ((u, t, ex), a') \<Longrightarrow> authenticate t now a' = Inr u"
  by (auto simp: login_Inr authenticate_def update_conv' session_ttl_def)

lemma login_user_exists:
  "auth_inv a \<Longrightarrow> login H em pw now a = Inr ((u, t, ex), a') \<Longrightarrow> user_exists (cred a') u"
  by (auto simp: login_Inr auth_inv_def intro: verify_Inr_user_exists)

lemma verify_alice_witness:
  "verify (\<lambda>x y. x @ y) ''alice@x.com'' ''pw123456''
     \<lparr>users = [\<lparr>uid = 0, email = ''alice@x.com'', salt = ''s1'',
       pw_hash = ''s1pw123456'', first_name = ''Alice'', last_name = ''A'', bio = [],
       avatar = None, updated_at = 0\<rparr>]\<rparr> = Inr 0"
  by code_simp

section \<open>Properties\<close>

text \<open>After a successful login, authenticating the returned token yields the
  user that logged in for as long as the clock has not passed the returned expiry,
  and \<open>SessionExpired\<close> afterwards (spec section 8, second property; spec 4.2).\<close>

theorem login_authenticate:
  assumes "login H em pw now a = Inr ((u, t, ex), a')"
  shows "authenticate t now' a' = (if ex < now' then Inl SessionExpired else Inr u)"
  using assms by (auto simp: login_Inr authenticate_def update_conv')

lemma login_authenticate_witness:
  "authenticate 0 100 \<lparr>cred = \<lparr>users = [\<lparr>uid = 0, email = ''alice@x.com'', salt = ''s1'',
       pw_hash = ''s1pw123456'', first_name = ''Alice'', last_name = ''A'', bio = [],
       avatar = None, updated_at = 0\<rparr>]\<rparr>,
     sessions = [(0, \<lparr>sess_user = 0, expires_at = 86410\<rparr>)], next_token = 1\<rparr> = Inr 0"
proof -
  let ?c = "\<lparr>users = [\<lparr>uid = 0, email = ''alice@x.com'', salt = ''s1'',
       pw_hash = ''s1pw123456'', first_name = ''Alice'', last_name = ''A'', bio = [],
       avatar = None, updated_at = 0\<rparr>]\<rparr>"
  have l: "login (\<lambda>x y. x @ y) ''alice@x.com'' ''pw123456'' 10
      \<lparr>cred = ?c, sessions = [], next_token = 0\<rparr> =
    Inr ((0, 0, 86410), \<lparr>cred = ?c, sessions = [(0, \<lparr>sess_user = 0, expires_at = 86410\<rparr>)],
      next_token = 1\<rparr>)"
    using verify_alice_witness by (simp add: login_def session_ttl_def)
  show ?thesis using login_authenticate [OF l, of 100] by simp
qed

text \<open>Logout revokes the token at once, is idempotent, and leaves every
  other session as it was (spec 4.2).\<close>

theorem logout_revokes:
  "authenticate t now (logout t a) = Inl InvalidToken \<and>
   logout t (logout t a) = logout t a \<and>
   (\<forall>t'. t' \<noteq> t \<longrightarrow> authenticate t' now' (logout t a) = authenticate t' now' a)"
  by (simp add: authenticate_def logout_def delete_conv' delete_idem)

lemma logout_revokes_witness:
  "authenticate 1 5 (logout 0 \<lparr>cred = empty_cred_store,
      sessions = [(0, \<lparr>sess_user = 0, expires_at = 9\<rparr>), (1, \<lparr>sess_user = 1, expires_at = 9\<rparr>)],
      next_token = 2\<rparr>) = Inr 1"
proof -
  let ?a = "\<lparr>cred = empty_cred_store,
      sessions = [(0, \<lparr>sess_user = 0, expires_at = 9\<rparr>), (1, \<lparr>sess_user = 1, expires_at = 9\<rparr>)],
      next_token = 2\<rparr>"
  have "authenticate 1 5 (logout 0 ?a) = authenticate 1 5 ?a"
    using logout_revokes [of 0 _ ?a] by simp
  then show ?thesis by (simp add: authenticate_def)
qed

text \<open>On a well-formed table a login mints a token that was bound to no
  session and leaves every other session binding unchanged, and the table stays
  well formed.\<close>

theorem login_fresh_token:
  assumes "auth_inv a" and "login H em pw now a = Inr ((u, t, ex), a')"
  shows "map_of (sessions a) t = None \<and>
         (\<forall>t'. t' \<noteq> t \<longrightarrow> map_of (sessions a') t' = map_of (sessions a) t') \<and> auth_inv a'"
proof -
  from assms(2) have t: "t = next_token a" by (simp add: login_Inr)
  with map_of_sessions_fresh [OF assms(1)] have "map_of (sessions a) t = None" by simp
  moreover have "\<forall>t'. t' \<noteq> t \<longrightarrow> map_of (sessions a') t' = map_of (sessions a) t'"
    using assms(2) by (auto simp: login_Inr update_conv')
  ultimately show ?thesis using login_auth_inv [OF assms] by blast
qed

lemma login_fresh_token_witness:
  "map_of (sessions \<lparr>cred = \<lparr>users = [\<lparr>uid = 0, email = ''alice@x.com'', salt = ''s1'',
       pw_hash = ''s1pw123456'', first_name = ''Alice'', last_name = ''A'', bio = [],
       avatar = None, updated_at = 0\<rparr>]\<rparr>, sessions = [], next_token = 0\<rparr>) 0 = None"
proof -
  let ?a = "\<lparr>cred = \<lparr>users = [\<lparr>uid = 0, email = ''alice@x.com'', salt = ''s1'',
       pw_hash = ''s1pw123456'', first_name = ''Alice'', last_name = ''A'', bio = [],
       avatar = None, updated_at = 0\<rparr>]\<rparr>, sessions = [], next_token = 0\<rparr>"
  have i: "auth_inv ?a" by code_simp
  have l: "login (\<lambda>x y. x @ y) ''alice@x.com'' ''pw123456'' 10 ?a =
    Inr ((0, 0, 86410), ?a\<lparr>sessions := [(0, \<lparr>sess_user = 0, expires_at = 86410\<rparr>)],
      next_token := 1\<rparr>)"
    using verify_alice_witness by (simp add: login_def session_ttl_def)
  show ?thesis using login_fresh_token [OF i l] by simp
qed

end
