(* ===== verification/LoginPage.thy ===== *)
theory LoginPage
  imports PageCommon Authenticator
begin

text \<open>
  The Login page, \<open>src/project/src/pages/Login.jsx\<close>.  Its state is the two
  \<open>useState\<close> hooks (\<open>errMsg\<close>, \<open>isSubmitting\<close>) and the effects it has on the
  world: the requests it sends, the \<open>UserLogin\<close> actions it dispatches to the redux
  store and the location it navigates to.  \<open>onSubmit\<close> is an \<open>async\<close> function
  suspended at its \<open>await\<close>: \<open>login_submit\<close> is its part before the request is
  answered, \<open>login_on_response\<close> and \<open>login_on_error\<close> its two continuations (the
  \<open>try\<close> body and the \<open>catch\<close>), and \<open>lp_awaiting\<close> counts suspended calls.
  \<open>login_step\<close> is the page as a state machine: the user edits a field (which
  validates it, \<open>mode: "onChange"\<close>), submits the form (only when the submit button
  is rendered, and \<open>handleSubmit\<close> calls \<open>onSubmit\<close> only when the form's rules
  pass), and the network answers or fails a pending request.  The form's values at an
  event are its argument; \<open>lp_errors\<close> is react-hook-form's \<open>errors\<close> state.
\<close>

record login_form =
  lf_email :: string
  lf_password :: string

record login_page =
  lp_err_msg :: jsval
  lp_submitting :: bool
  lp_awaiting :: nat
  lp_requests :: "jsval list"
  lp_dispatched :: "jsval list"
  lp_location :: "string option"
  lp_errors :: rhf_errors

definition login_initial :: login_page where
  "login_initial = \<lparr>lp_err_msg = JStr [], lp_submitting = False, lp_awaiting = 0,
     lp_requests = [], lp_dispatched = [], lp_location = None, lp_errors = []\<rparr>"

text \<open>The form's rules (lines 82--84 and 97--99) and the errors they produce.\<close>

definition login_email_error :: "login_form \<Rightarrow> string option" where
  "login_email_error f = rhf_required ''Email Address is required!'' (lf_email f)"

definition login_password_error :: "login_form \<Rightarrow> string option" where
  "login_password_error f = rhf_required ''Password is required!'' (lf_password f)"

definition login_rules :: "login_form \<Rightarrow> (string \<times> string option) list" where
  "login_rules f = [(''email'', login_email_error f), (''password'', login_password_error f)]"

definition login_form_valid :: "login_form \<Rightarrow> bool" where
  "login_form_valid f = (login_email_error f = None \<and> login_password_error f = None)"

text \<open>The \<open>data\<close> object \<open>handleSubmit\<close> passes: the registered fields in order.\<close>

definition login_form_data :: "login_form \<Rightarrow> jsval" where
  "login_form_data f = JObj [(''email'', JStr (lf_email f)), (''password'', JStr (lf_password f))]"

text \<open>\<open>onSubmit\<close> up to its \<open>await\<close> (lines 30--37).\<close>

definition login_submit :: "login_form \<Rightarrow> login_page \<Rightarrow> login_page" where
  "login_submit f s =
     s\<lparr>lp_submitting := True, lp_err_msg := JStr [], lp_awaiting := Suc (lp_awaiting s),
       lp_requests := lp_requests s @
         [JObj [(''url'', JStr ''/auth/login''), (''data'', login_form_data f),
                (''method'', JStr ''POST'')]]\<rparr>"

text \<open>\<open>const newData = { token: res?.token, ...res?.user }\<close> (line 44).\<close>

definition login_new_data :: "jsval \<Rightarrow> jsval" where
  "login_new_data res = JObj (obj_spread [(''token'', js_get res ''token'')] (js_get res ''user''))"

text \<open>The \<open>try\<close> continuation (lines 39--48).\<close>

definition login_on_response :: "jsval \<Rightarrow> login_page \<Rightarrow> login_page" where
  "login_on_response res s =
     (if js_get res ''status'' = JStr ''failed'' then s\<lparr>lp_err_msg := res\<rparr>
      else s\<lparr>lp_err_msg := JStr [], lp_dispatched := lp_dispatched s @ [login_new_data res],
             lp_location := Some ''/''\<rparr>)
     \<lparr>lp_submitting := False, lp_awaiting := lp_awaiting s - 1\<rparr>"

text \<open>The \<open>catch\<close> continuation (lines 49--52): the error is only logged.\<close>

definition login_on_error :: "login_page \<Rightarrow> login_page" where
  "login_on_error s = s\<lparr>lp_submitting := False, lp_awaiting := lp_awaiting s - 1\<rparr>"

text \<open>\<open>handleSubmit(onSubmit)\<close>: every rule is checked and the errors state
  replaced; \<open>onSubmit\<close> runs only when no rule fails.\<close>

definition login_handle_submit :: "login_form \<Rightarrow> login_page \<Rightarrow> login_page" where
  "login_handle_submit f s =
     (let s' = s\<lparr>lp_errors := rhf_errors (login_rules f)\<rparr>
      in if login_form_valid f then login_submit f s' else s')"

text \<open>A change of field \<open>k\<close>, after which the form holds \<open>f\<close>: in
  \<open>onChange\<close> mode react-hook-form validates that field and records or clears its
  error.\<close>

definition login_change :: "string \<Rightarrow> login_form \<Rightarrow> login_page \<Rightarrow> login_page" where
  "login_change k f s =
     (case map_of (login_rules f) k of
        None \<Rightarrow> s
      | Some r \<Rightarrow> s\<lparr>lp_errors := rhf_validate_field k r (lp_errors s)\<rparr>)"

text \<open>The rendered page (lines 55--178), without styling.\<close>

definition login_view :: "login_page \<Rightarrow> view_node list" where
  "login_view s =
     [VText ''NBOOK'', VText ''Log in to your account'', VText ''Welcome back,'',
      VInput ''email'' ''Email Address'' (shown_error (map_of (lp_errors s) ''email'')),
      VInput ''password'' ''Password'' (shown_error (map_of (lp_errors s) ''password'')),
      VLink ''/reset-password'' ''Forgot Password ?'']
     @ status_alert (lp_err_msg s)
     @ [submit_control (lp_submitting s) ''Login'',
        VText (''Don'' @ [CHR 0x27] @ ''t have an account?''), VLink ''/register'' ''Create Account'',
        VImage ''Bg Image'', VText ''Share'', VText ''Connect'', VText ''Interact'',
        VText ''Connect with friedns & have share for fun'',
        VText ''Share memories with friends and the world.'']"

text \<open>The page as a state machine.  The user can submit only through the rendered
  submit button: while a request is pending the button is replaced by the loading
  indicator and the form, with two text fields and no submit button, has no
  implicit submission (the model assumes React has re-rendered before the next
  event).  Fields can be edited at any time.\<close>

inductive login_step :: "login_page \<Rightarrow> login_page \<Rightarrow> bool" where
  submit: "\<not> lp_submitting s \<Longrightarrow> login_step s (login_handle_submit f s)"
| change: "login_step s (login_change k f s)"
| response: "0 < lp_awaiting s \<Longrightarrow> login_step s (login_on_response res s)"
| failure: "0 < lp_awaiting s \<Longrightarrow> login_step s (login_on_error s)"

inductive login_reach :: "login_page \<Rightarrow> bool" where
  init: "login_reach login_initial"
| step: "login_reach s \<Longrightarrow> login_step s t \<Longrightarrow> login_reach t"

definition login_inv :: "login_page \<Rightarrow> bool" where
  "login_inv s = (lp_awaiting s \<le> 1 \<and> lp_submitting s = (lp_awaiting s = 1))"

text \<open>The server's reply to \<open>POST /auth/login\<close> as the page receives it through
  \<open>apiRequest\<close> (spec section 6; the route handler is not under \<open>src/\<close>): a
  failure is \<open>{status: "failed", message}\<close>, a success carries the token and the
  user's public fields (never the password hash, spec section 3).\<close>

fun api_error_message :: "api_error \<Rightarrow> string" where
  "api_error_message DuplicateEmail = ''Email Address already exists''"
| "api_error_message WeakCredential = ''Password is too short''"
| "api_error_message NotFound = ''User not found''"
| "api_error_message InvalidCredential = ''Invalid email or password''"
| "api_error_message InvalidToken = ''Authentication failed''"
| "api_error_message SessionExpired = ''Session expired''"
| "api_error_message SelfRequest = ''Cannot send a request to yourself''"
| "api_error_message UnknownUser = ''User not found''"
| "api_error_message AlreadyRequested = ''Friend request already sent''"
| "api_error_message NoSuchRequest = ''No such friend request''"
| "api_error_message NoSuchRelation = ''Not friends''"
| "api_error_message Forbidden = ''Not allowed''"

definition failed_reply :: "api_error \<Rightarrow> jsval" where
  "failed_reply e = JObj [(''status'', JStr ''failed''), (''message'', JStr (api_error_message e))]"

definition user_json :: "user \<Rightarrow> jsval" where
  "user_json u = JObj [(''_id'', JNum (int (uid u))), (''firstName'', JStr (first_name u)),
     (''lastName'', JStr (last_name u)), (''email'', JStr (email u))]"

definition login_reply :: "((user_id \<times> token \<times> time) \<times> auth_state) result \<Rightarrow> jsval" where
  "login_reply r =
     (case r of
        Inl e \<Rightarrow> failed_reply e
      | Inr ((u, t, ex), a') \<Rightarrow>
          JObj [(''success'', JStr ''success''), (''message'', JStr ''Login successfully''),
                (''user'', user_json (users (cred a') ! u)), (''token'', JNum (int t))])"

section \<open>Lemmas\<close>

lemma login_step_inv: "login_step s t \<Longrightarrow> login_inv s \<Longrightarrow> login_inv t"
  by (induction rule: login_step.induct)
     (auto simp: login_inv_def login_handle_submit_def login_submit_def login_on_response_def
        login_on_error_def login_change_def Let_def split: option.splits)

lemma login_reach_inv: "login_reach s \<Longrightarrow> login_inv s"
proof (induction rule: login_reach.induct)
  case init
  then show ?case by (simp add: login_inv_def login_initial_def)
next
  case (step s t)
  then show ?case by (blast intro: login_step_inv)
qed

lemma login_view_button:
  "(VButton ''Login'' \<in> set (login_view s)) = (\<not> lp_submitting s)"
  by (auto simp: login_view_def submit_control_def status_alert_def jsx_and_def)

lemma login_on_response_not_failed:
  "js_get res ''status'' \<noteq> JStr ''failed'' \<Longrightarrow>
     login_on_response res s =
       s\<lparr>lp_err_msg := JStr [], lp_dispatched := lp_dispatched s @ [login_new_data res],
         lp_location := Some ''/'', lp_submitting := False, lp_awaiting := lp_awaiting s - 1\<rparr>"
  by (simp add: login_on_response_def)

lemma js_get_login_new_data:
  "js_get (login_new_data res) k =
     (case map_of (rev (js_own_props (js_get res ''user''))) k of
        Some v \<Rightarrow> v
      | None \<Rightarrow> if k = ''token'' then js_get res ''token'' else JUndef)"
  by (simp add: login_new_data_def map_add_def split: option.splits)

lemma js_get_failed_reply [simp]:
  "js_get (failed_reply e) ''status'' = JStr ''failed''"
  "js_get (failed_reply e) ''message'' = JStr (api_error_message e)"
  by (simp_all add: failed_reply_def)

lemma api_error_message_nonempty [simp]: "api_error_message e \<noteq> []"
  by (cases e) simp_all

lemma login_reply_token:
  "login H em pw now a = Inr ((u, t, ex), a') \<Longrightarrow>
     js_get (login_new_data (login_reply (login H em pw now a))) ''token'' = JNum (int t)"
  by (simp add: login_reply_def login_new_data_def user_json_def map_add_def)

section \<open>Properties\<close>

text \<open>C5: In every reachable state of the Login page at most one login request is
  pending, the page shows the loading indicator exactly while one is, and the Login
  button is rendered exactly when none is: the form cannot be submitted twice.\<close>

theorem login_single_request_in_flight:
  assumes "login_reach s"
  shows "lp_awaiting s \<le> 1 \<and> lp_submitting s = (lp_awaiting s = 1) \<and>
         (VButton ''Login'' \<in> set (login_view s)) = (lp_awaiting s = 0)"
  using login_reach_inv [OF assms] login_view_button [of s] by (auto simp: login_inv_def)

lemma login_single_request_in_flight_witness:
  "lp_awaiting (login_submit \<lparr>lf_email = ''alice@x.com'', lf_password = ''pw123456''\<rparr> login_initial) \<le> 1"
proof -
  let ?f = "\<lparr>lf_email = ''alice@x.com'', lf_password = ''pw123456''\<rparr>"
  have "login_step login_initial (login_handle_submit ?f login_initial)"
    by (rule login_step.submit) (simp add: login_initial_def)
  then have r: "login_reach (login_handle_submit ?f login_initial)"
    by (rule login_reach.step [OF login_reach.init])
  have "login_handle_submit ?f login_initial = login_submit ?f login_initial"
    by (simp add: login_handle_submit_def login_form_valid_def login_email_error_def
        login_password_error_def rhf_required_def login_rules_def rhf_errors_def login_initial_def)
  with login_single_request_in_flight [OF r] show ?thesis by simp
qed

text \<open>C6: Submitting the form sends exactly one request, \<open>POST /auth/login\<close> with
  the email and password, when both fields are non-empty, and sends nothing
  otherwise (\<open>handleSubmit\<close> runs the \<open>required\<close> rules first).\<close>

theorem login_submit_sends_iff_valid:
  "lp_requests (login_handle_submit f s) =
     lp_requests s @
       (if lf_email f \<noteq> [] \<and> lf_password f \<noteq> []
        then [JObj [(''url'', JStr ''/auth/login''),
                    (''data'', JObj [(''email'', JStr (lf_email f)), (''password'', JStr (lf_password f))]),
                    (''method'', JStr ''POST'')]]
        else [])"
  by (simp add: login_handle_submit_def login_submit_def login_form_valid_def login_form_data_def
      login_email_error_def login_password_error_def rhf_required_def Let_def)

text \<open>C7: A reply marked \<open>status: "failed"\<close> is shown as a red alert with its
  message, nothing is dispatched, the page stays and the Login button returns.\<close>

theorem login_failed_reply_alert:
  assumes "js_get res ''status'' = JStr ''failed''" and "js_truthy (js_get res ''message'')"
  shows "status_alert (lp_err_msg (login_on_response res s)) = [VAlert alert_red (js_get res ''message'')] \<and>
         lp_dispatched (login_on_response res s) = lp_dispatched s \<and>
         lp_location (login_on_response res s) = lp_location s \<and>
         \<not> lp_submitting (login_on_response res s)"
  using assms by (simp add: login_on_response_def status_alert_failed)

lemma login_failed_reply_alert_witness:
  "status_alert (lp_err_msg (login_on_response (failed_reply InvalidCredential) login_initial)) =
     [VAlert alert_red (JStr ''Invalid email or password'')]"
  using login_failed_reply_alert [of "failed_reply InvalidCredential" login_initial] by simp

text \<open>C8: Any reply not marked \<open>status: "failed"\<close> is taken as a successful
  login: the page dispatches \<open>{token: res?.token, ...res?.user}\<close>, in which a
  \<open>token\<close> property of the user object overrides the reply's token, clears the alert
  and navigates to \<open>/\<close>.\<close>

theorem login_reply_accepted:
  assumes "js_get res ''status'' \<noteq> JStr ''failed''"
  shows "lp_dispatched (login_on_response res s) = lp_dispatched s @ [login_new_data res] \<and>
         lp_location (login_on_response res s) = Some ''/'' \<and>
         status_alert (lp_err_msg (login_on_response res s)) = [] \<and>
         js_get (login_new_data res) ''token'' =
           (case map_of (rev (js_own_props (js_get res ''user''))) ''token'' of
              Some v \<Rightarrow> v | None \<Rightarrow> js_get res ''token'')"
  using assms by (simp add: login_on_response_not_failed js_get_login_new_data)

lemma login_reply_accepted_witness:
  "lp_dispatched (login_on_response JUndef login_initial) = [JObj [(''token'', JUndef)]] \<and>
   lp_location (login_on_response JUndef login_initial) = Some ''/''"
proof -
  have "js_get JUndef ''status'' \<noteq> JStr ''failed''" by simp
  from login_reply_accepted [OF this, of login_initial] show ?thesis
    by (simp add: login_initial_def login_new_data_def obj_spread_def obj_set_def)
qed

text \<open>C9: End to end with the Authenticator: when the backend login succeeds and
  its reply reaches the page, the page dispatches the minted token and the user's
  identifier, navigates home, and that token authenticates as that user until the
  session's expiry (spec section 8, second property, through the client).\<close>

theorem login_page_token_authenticates:
  assumes "login H em pw now a = Inr ((u, t, ex), a')"
  shows "js_get (login_new_data (login_reply (login H em pw now a))) ''token'' = JNum (int t) \<and>
         lp_location (login_on_response (login_reply (login H em pw now a)) s) = Some ''/'' \<and>
         lp_dispatched (login_on_response (login_reply (login H em pw now a)) s) =
           lp_dispatched s @ [login_new_data (login_reply (login H em pw now a))] \<and>
         (\<forall>now'. now' \<le> ex \<longrightarrow> authenticate t now' a' = Inr u)"
  using assms login_authenticate [OF assms]
  by (simp add: login_reply_def login_on_response_def login_new_data_def user_json_def
      map_add_def)

lemma login_page_token_authenticates_witness:
  "authenticate 0 100 \<lparr>cred = \<lparr>users = [\<lparr>uid = 0, email = ''alice@x.com'', salt = ''s1'',
       pw_hash = ''s1pw123456'', first_name = ''Alice'', last_name = ''A'', bio = [],
       avatar = None, updated_at = 0\<rparr>]\<rparr>,
     sessions = [(0, \<lparr>sess_user = 0, expires_at = 86410\<rparr>)], next_token = 1\<rparr> = Inr 0"
proof -
  let ?c = "\<lparr>users = [\<lparr>uid = 0, email = ''alice@x.com'', salt = ''s1'',
       pw_hash = ''s1pw123456'', first_name = ''Alice'', last_name = ''A'', bio = [],
       avatar = None, updated_at = 0\<rparr>]\<rparr>"
  have l: "login (\<lambda>x y. x @ y) ''alice@x.com'' ''pw123456'' 10
      \<lparr>cred = ?c, sessions = [], next_token = 0\<rparr> =
    Inr ((0, 0, 86410), \<lparr>cred = ?c, sessions = [(0, \<lparr>sess_user = 0, expires_at = 86410\<rparr>)],
      next_token = 1\<rparr>)"
    using verify_alice_witness by (simp add: login_def session_ttl_def)
  show ?thesis using login_page_token_authenticates [OF l, of login_initial] by simp
qed

end
