(* ===== verification/RegisterPage.thy ===== *)
theory RegisterPage
  imports LoginPage
begin

text \<open>
  The Register page, \<open>src/project/src/pages/Register.jsx\<close>.  Its state is the
  \<open>errMsg\<close> and \<open>isSubmitting\<close> hooks, the requests it sent and the interval
  timers it started.  As in the Login page, \<open>onSubmit\<close> is split at its
  \<open>await\<close>; unlike it, it does not clear \<open>errMsg\<close> before the request, and on
  success it shows the reply as the alert and starts
  \<open>setInterval(() => window.location.replace("/login"), 5000)\<close>, which is never
  cleared; the first tick replaces the document, which ends the page and its timers.
  Time is in milliseconds; the continuations take the current time.  \<open>rp_errors\<close>
  is react-hook-form's \<open>errors\<close> state, as in the Login page.
\<close>

record reg_form =
  rf_first_name :: string
  rf_last_name :: string
  rf_email :: string
  rf_password :: string
  rf_cpassword :: string

record register_page =
  rp_err_msg :: jsval
  rp_submitting :: bool
  rp_awaiting :: nat
  rp_requests :: "jsval list"
  rp_intervals :: "time list"
  rp_errors :: rhf_errors

definition register_initial :: register_page where
  "register_initial = \<lparr>rp_err_msg = JStr [], rp_submitting = False, rp_awaiting = 0,
     rp_requests = [], rp_intervals = [], rp_errors = []\<rparr>"

text \<open>The form's rules, lines 79--135.\<close>

definition reg_first_name_error :: "reg_form \<Rightarrow> string option" where
  "reg_first_name_error f = rhf_required ''First Name is required!'' (rf_first_name f)"

definition reg_last_name_error :: "reg_form \<Rightarrow> string option" where
  "reg_last_name_error f = rhf_required ''Last Name do no match'' (rf_last_name f)"

definition reg_email_error :: "reg_form \<Rightarrow> string option" where
  "reg_email_error f = rhf_required ''Email Address is required!'' (rf_email f)"

definition reg_password_error :: "reg_form \<Rightarrow> string option" where
  "reg_password_error f = rhf_required ''Password is required!'' (rf_password f)"

text \<open>The \<open>validate\<close> rule of \<open>cPassword\<close>: \<open>password != value\<close> on two strings
  is string inequality; returning a string is a failure with that message, returning
  \<open>undefined\<close> a pass.\<close>

definition reg_cpassword_error :: "reg_form \<Rightarrow> string option" where
  "reg_cpassword_error f =
     (if rf_password f \<noteq> rf_cpassword f then Some ''Passwords do no match'' else None)"

definition reg_rules :: "reg_form \<Rightarrow> (string \<times> string option) list" where
  "reg_rules f =
     [(''firstName'', reg_first_name_error f), (''lastName'', reg_last_name_error f),
      (''email'', reg_email_error f), (''password'', reg_password_error f),
      (''cPassword'', reg_cpassword_error f)]"

definition reg_form_valid :: "reg_form \<Rightarrow> bool" where
  "reg_form_valid f =
     (reg_first_name_error f = None \<and> reg_last_name_error f = None \<and> reg_email_error f = None
      \<and> reg_password_error f = None \<and> reg_cpassword_error f = None)"

definition reg_form_data :: "reg_form \<Rightarrow> jsval" where
  "reg_form_data f =
     JObj [(''firstName'', JStr (rf_first_name f)), (''lastName'', JStr (rf_last_name f)),
           (''email'', JStr (rf_email f)), (''password'', JStr (rf_password f)),
           (''cPassword'', JStr (rf_cpassword f))]"

text \<open>\<open>onSubmit\<close> up to its \<open>await\<close> (lines 27--34): \<open>errMsg\<close> is left as it is.\<close>

definition register_submit :: "reg_form \<Rightarrow> register_page \<Rightarrow> register_page" where
  "register_submit f s =
     s\<lparr>rp_submitting := True, rp_awaiting := Suc (rp_awaiting s),
       rp_requests := rp_requests s @
         [JObj [(''url'', JStr ''/auth/register''), (''data'', reg_form_data f),
                (''method'', JStr ''POST'')]]\<rparr>"

text \<open>The \<open>try\<close> continuation (lines 36--44), at time \<open>now\<close>.\<close>

definition register_on_response :: "time \<Rightarrow> jsval \<Rightarrow> register_page \<Rightarrow> register_page" where
  "register_on_response now res s =
     (if js_get res ''status'' = JStr ''failed'' then s\<lparr>rp_err_msg := res\<rparr>
      else s\<lparr>rp_err_msg := res, rp_intervals := rp_intervals s @ [now]\<rparr>)
     \<lparr>rp_submitting := False, rp_awaiting := rp_awaiting s - 1\<rparr>"

text \<open>The \<open>catch\<close> continuation (lines 45--48).\<close>

definition register_on_error :: "register_page \<Rightarrow> register_page" where
  "register_on_error s = s\<lparr>rp_submitting := False, rp_awaiting := rp_awaiting s - 1\<rparr>"

definition register_handle_submit :: "reg_form \<Rightarrow> register_page \<Rightarrow> register_page" where
  "register_handle_submit f s =
     (let s' = s\<lparr>rp_errors := rhf_errors (reg_rules f)\<rparr>
      in if reg_form_valid f then register_submit f s' else s')"

text \<open>A change of field \<open>k\<close>, after which the form holds \<open>f\<close>: that field alone
  is validated (changing the password does not revalidate the confirmation, whose
  rule reads the password through \<open>getValues\<close>).\<close>

definition register_change :: "string \<Rightarrow> reg_form \<Rightarrow> register_page \<Rightarrow> register_page" where
  "register_change k f s =
     (case map_of (reg_rules f) k of
        None \<Rightarrow> s
      | Some r \<Rightarrow> s\<lparr>rp_errors := rhf_validate_field k r (rp_errors s)\<rparr>)"

text \<open>The redirects at time \<open>t\<close>: the earliest interval fires first, 5000 ms after
  it was started, and \<open>window.location.replace\<close> loads \<open>/login\<close> in place of the
  page, so no interval fires again.\<close>

definition register_redirects_at :: "register_page \<Rightarrow> time \<Rightarrow> string list" where
  "register_redirects_at s t =
     (if rp_intervals s \<noteq> [] \<and> t = Min (set (rp_intervals s)) + 5000 then [''/login''] else [])"

text \<open>The rendered page (lines 51--211), without styling.  The confirm-password
  error is shown only when its type is \<open>validate\<close>, the only rule it has, so every
  recorded error of that field is shown.\<close>

definition register_view :: "register_page \<Rightarrow> view_node list" where
  "register_view s =
     [VText ''ShareFun'', VText ''Create your account'',
      VInput ''firstName'' ''First Name'' (shown_error (map_of (rp_errors s) ''firstName'')),
      VInput ''lastName'' ''Last Name'' (shown_error (map_of (rp_errors s) ''lastName'')),
      VInput ''email'' ''Email Address'' (shown_error (map_of (rp_errors s) ''email'')),
      VInput ''password'' ''Password'' (shown_error (map_of (rp_errors s) ''password'')),
      VInput ''cPassword'' ''Confirm Password'' (shown_error (map_of (rp_errors s) ''cPassword''))]
     @ status_alert (rp_err_msg s)
     @ [submit_control (rp_submitting s) ''Create Account'',
        VText ''Already has an account?'', VLink ''/login'' ''Login'',
        VImage ''Bg Image'', VText ''Share'', VText ''Connect'', VText ''Interact'',
        VText ''Connect with friedns & have share for fun'',
        VText ''Share memories with friends and the world.'']"

inductive register_step :: "register_page \<Rightarrow> register_page \<Rightarrow> bool" where
  submit: "\<not> rp_submitting s \<Longrightarrow> register_step s (register_handle_submit f s)"
| change: "register_step s (register_change k f s)"
| response: "0 < rp_awaiting s \<Longrightarrow> register_step s (register_on_response now res s)"
| failure: "0 < rp_awaiting s \<Longrightarrow> register_step s (register_on_error s)"

inductive register_reach :: "register_page \<Rightarrow> bool" where
  init: "register_reach register_initial"
| step: "register_reach s \<Longrightarrow> register_step s t \<Longrightarrow> register_reach t"

text \<open>The server's reply to \<open>POST /auth/register\<close> (spec 4.1 and 6).\<close>

definition register_reply :: "(user_id \<times> cred_store) result \<Rightarrow> jsval" where
  "register_reply r =
     (case r of
        Inl e \<Rightarrow> failed_reply e
      | Inr (u, s') \<Rightarrow> JObj [(''success'', JStr ''success''),
                            (''message'', JStr ''Account created successfully'')])"

definition register_inv :: "register_page \<Rightarrow> bool" where
  "register_inv s = (rp_awaiting s \<le> 1 \<and> rp_submitting s = (rp_awaiting s = 1))"

section \<open>Lemmas\<close>

lemma register_step_inv: "register_step s t \<Longrightarrow> register_inv s \<Longrightarrow> register_inv t"
  by (induction rule: register_step.induct)
     (auto simp: register_inv_def register_handle_submit_def register_submit_def
        register_on_response_def register_on_error_def register_change_def Let_def split: option.splits)

lemma register_reach_inv: "register_reach s \<Longrightarrow> register_inv s"
proof (induction rule: register_reach.induct)
  case init
  then show ?case by (simp add: register_inv_def register_initial_def)
next
  case (step s t)
  then show ?case by (blast intro: register_step_inv)
qed

lemma register_reply_Inl [simp]: "register_reply (Inl e) = failed_reply e"
  by (simp add: register_reply_def)

lemma register_on_response_failed:
  "js_get res ''status'' = JStr ''failed'' \<Longrightarrow>
     register_on_response now res s =
       s\<lparr>rp_err_msg := res, rp_submitting := False, rp_awaiting := rp_awaiting s - 1\<rparr>"
  by (simp add: register_on_response_def)


section \<open>Properties\<close>

text \<open>C10: Submitting the registration form sends \<open>POST /auth/register\<close> exactly
  when the four fields are non-empty and the confirmation equals the password; the
  data sent holds all five registered fields, the confirmation included.\<close>

theorem register_submit_sends_iff_valid:
  "rp_requests (register_handle_submit f s) =
     rp_requests s @
       (if rf_first_name f \<noteq> [] \<and> rf_last_name f \<noteq> [] \<and> rf_email f \<noteq> [] \<and> rf_password f \<noteq> []
           \<and> rf_password f = rf_cpassword f
        then [JObj [(''url'', JStr ''/auth/register''),
                    (''data'', JObj [(''firstName'', JStr (rf_first_name f)),
                        (''lastName'', JStr (rf_last_name f)), (''email'', JStr (rf_email f)),
                        (''password'', JStr (rf_password f)), (''cPassword'', JStr (rf_cpassword f))]),
                    (''method'', JStr ''POST'')]]
        else [])"
  by (simp add: register_handle_submit_def register_submit_def reg_form_valid_def reg_form_data_def
      reg_first_name_error_def reg_last_name_error_def reg_email_error_def reg_password_error_def
      reg_cpassword_error_def rhf_required_def Let_def)

text \<open>C11: An empty last name is reported under the Last Name field with the message
  \<open>Last Name do no match\<close> (line 91), a confirmation-mismatch text where the other
  fields say \<open>... is required!\<close>.  The page opens with no field error; a submit with
  an empty last name sends nothing and shows this message under Last Name, and so
  does emptying the field (\<open>mode: "onChange"\<close>).\<close>

theorem register_last_name_message:
  "(\<forall>n l e. VInput n l e \<in> set (register_view register_initial) \<longrightarrow> e = []) \<and>
   (rf_last_name f = [] \<longrightarrow>
      rp_requests (register_handle_submit f s) = rp_requests s \<and>
      VInput ''lastName'' ''Last Name'' ''Last Name do no match'' \<in> set (register_view (register_handle_submit f s)) \<and>
      VInput ''lastName'' ''Last Name'' ''Last Name do no match'' \<in> set (register_view (register_change ''lastName'' f s)))"
proof -
  have "\<forall>n l e. VInput n l e \<in> set (register_view register_initial) \<longrightarrow> e = []"
    by (simp add: register_view_def register_initial_def shown_error_def submit_control_def)
  moreover have "rf_last_name f = [] \<Longrightarrow>
      rp_requests (register_handle_submit f s) = rp_requests s \<and>
      VInput ''lastName'' ''Last Name'' ''Last Name do no match'' \<in> set (register_view (register_handle_submit f s)) \<and>
      VInput ''lastName'' ''Last Name'' ''Last Name do no match'' \<in> set (register_view (register_change ''lastName'' f s))"
    by (simp add: register_handle_submit_def Let_def reg_form_valid_def reg_last_name_error_def
        rhf_required_def register_view_def shown_error_def map_of_rhf_errors reg_rules_def
        register_change_def register_submit_def)
  ultimately show ?thesis by blast
qed

lemma register_last_name_message_witness:
  "VInput ''lastName'' ''Last Name'' ''Last Name do no match'' \<in>
     set (register_view (register_handle_submit \<lparr>rf_first_name = ''Alice'', rf_last_name = [],
       rf_email = ''alice@x.com'', rf_password = ''pw123456'', rf_cpassword = ''pw123456''\<rparr> register_initial))"
  using register_last_name_message [of "\<lparr>rf_first_name = ''Alice'', rf_last_name = [],
       rf_email = ''alice@x.com'', rf_password = ''pw123456'', rf_cpassword = ''pw123456''\<rparr>"
      register_initial] by simp

text \<open>C12: The Register page never clears its alert when it submits: the alert of
  the previous attempt stays on screen while the new request is pending, and stays
  for good when the request then fails in transport (the \<open>catch\<close> only logs).\<close>

theorem register_stale_alert:
  "rp_err_msg (register_handle_submit f s) = rp_err_msg s \<and>
   rp_err_msg (register_on_error (register_handle_submit f s)) = rp_err_msg s"
  by (simp add: register_handle_submit_def register_submit_def register_on_error_def Let_def)

text \<open>C13: A reply not marked failed is shown as the alert (green when it carries a
  message) and starts the redirect timer: from a page with no timer, the page is
  replaced by \<open>/login\<close> exactly 5000 ms after the reply, and at no other time (the
  interval is never cleared, but its first tick ends the page).\<close>

theorem register_success_redirect:
  assumes "js_get res ''status'' \<noteq> JStr ''failed''" and "js_truthy (js_get res ''message'')"
    and "rp_intervals s = []"
  shows "status_alert (rp_err_msg (register_on_response t0 res s)) =
           [VAlert alert_green (js_get res ''message'')] \<and>
         (\<forall>t. register_redirects_at (register_on_response t0 res s) t =
                (if t = t0 + 5000 then [''/login''] else []))"
  using assms
  by (simp add: register_on_response_def register_redirects_at_def status_alert_def jsx_and_def)

lemma register_success_redirect_witness:
  "register_redirects_at (register_on_response 1000
     (register_reply (Inr (0, empty_cred_store))) register_initial) 6000 = [''/login'']"
proof -
  let ?res = "register_reply (Inr (0, empty_cred_store))"
  have a: "js_get ?res ''status'' \<noteq> JStr ''failed''" by (simp add: register_reply_def)
  have b: "js_truthy (js_get ?res ''message'')" by (simp add: register_reply_def)
  have c: "rp_intervals register_initial = []" by (simp add: register_initial_def)
  from register_success_redirect [OF a b c] show ?thesis by simp
qed

text \<open>C14: End to end with the Credential Store: once a form's email is
  registered, submitting another form whose email normalises to the same address
  (with a password the store accepts) ends with the red alert
  \<open>Email Address already exists\<close> and starts no redirect.\<close>

theorem register_page_duplicate_refused:
  assumes "register H sl (rf_email fa) (rf_password fa) (rf_first_name fa) (rf_last_name fa) now cs
             = Inr (i, cs')"
    and "normalize_email (rf_email fb) = normalize_email (rf_email fa)"
    and "min_password_len \<le> length (rf_password fb)"
  shows "status_alert (rp_err_msg (register_on_response t
           (register_reply (register H slb (rf_email fb) (rf_password fb) (rf_first_name fb)
              (rf_last_name fb) nowb cs')) s)) =
           [VAlert alert_red (JStr ''Email Address already exists'')] \<and>
         rp_intervals (register_on_response t
           (register_reply (register H slb (rf_email fb) (rf_password fb) (rf_first_name fb)
              (rf_last_name fb) nowb cs')) s) = rp_intervals s"
proof -
  have "register H slb (rf_email fb) (rf_password fb) (rf_first_name fb) (rf_last_name fb) nowb cs'
          = Inl DuplicateEmail"
    using register_find_new [OF assms(1,2)] assms(3) by (simp add: register_def)
  then show ?thesis
    by (simp add: register_on_response_failed status_alert_failed)
qed

lemma register_page_duplicate_refused_witness:
  "status_alert (rp_err_msg (register_on_response 9
     (register_reply (register (\<lambda>x y. x @ y) ''s2'' ''ALICE@x.com'' ''other-password'' ''Al'' ''B'' 5
       \<lparr>users = [\<lparr>uid = 0, email = ''alice@x.com'', salt = ''s1'',
         pw_hash = ''s1pw123456'', first_name = ''Alice'', last_name = ''A'', bio = [],
         avatar = None, updated_at = 0\<rparr>]\<rparr>)) register_initial)) =
     [VAlert alert_red (JStr ''Email Address already exists'')]"
proof -
  let ?fa = "\<lparr>rf_first_name = ''Alice'', rf_last_name = ''A'', rf_email = ''alice@x.com'',
       rf_password = ''pw123456'', rf_cpassword = ''pw123456''\<rparr>"
  let ?fb = "\<lparr>rf_first_name = ''Al'', rf_last_name = ''B'', rf_email = ''ALICE@x.com'',
       rf_password = ''other-password'', rf_cpassword = ''other-password''\<rparr>"
  have r: "register (\<lambda>x y. x @ y) ''s1'' (rf_email ?fa) (rf_password ?fa) (rf_first_name ?fa)
       (rf_last_name ?fa) 0 empty_cred_store
     = Inr (0, \<lparr>users = [\<lparr>uid = 0, email = ''alice@x.com'', salt = ''s1'',
       pw_hash = ''s1pw123456'', first_name = ''Alice'', last_name = ''A'', bio = [],
       avatar = None, updated_at = 0\<rparr>]\<rparr>)" by code_simp
  have n: "normalize_email (rf_email ?fb) = normalize_email (rf_email ?fa)" by code_simp
  have l: "min_password_len \<le> length (rf_password ?fb)" by (simp add: min_password_len_def)
  from register_page_duplicate_refused [where slb = "''s2''" and nowb = 5 and t = 9
      and s = register_initial, OF r n l]
  show ?thesis by simp
qed

end
