(* ===== verification/AuthFlow.thy ===== *)
theory AuthFlow
  imports RegisterPage
begin

text \<open>
  The auth routes against the Register and Login pages.  The routes
  \<open>POST /auth/register\<close> and \<open>POST /auth/login\<close> are not under \<open>src/\<close> (spec section
  6 describes them: fields \<open>email\<close>, \<open>password\<close>, \<open>firstName\<close>, \<open>lastName\<close>; the
  reply encodings are \<open>register_reply\<close> and \<open>login_reply\<close>).  \<open>auth_route\<close> answers
  one request object as the pages build it (\<open>{url, data, method}\<close>) and returns the
  new Authenticator state; the salt of a registration and the clock are arguments.
\<close>

fun js_str :: "jsval \<Rightarrow> string" where
  "js_str (JStr s) = s"
| "js_str _ = []"

definition auth_route :: "hasher \<Rightarrow> string \<Rightarrow> time \<Rightarrow> auth_state \<Rightarrow> jsval \<Rightarrow> jsval \<times> auth_state" where
  "auth_route H sl now a rq =
     (let d = js_get rq ''data''; fld = (\<lambda>k. js_str (js_get d k))
      in if js_get rq ''url'' = JStr ''/auth/register'' then
           (case auth_register H sl (fld ''email'') (fld ''password'') (fld ''firstName'') (fld ''lastName'') now a of
              Inl e \<Rightarrow> (failed_reply e, a)
            | Inr (u, a') \<Rightarrow> (register_reply (Inr (u, cred a')), a'))
         else if js_get rq ''url'' = JStr ''/auth/login'' then
           (case login H (fld ''email'') (fld ''password'') now a of
              Inl e \<Rightarrow> (failed_reply e, a)
            | Inr r \<Rightarrow> (login_reply (Inr r), snd r))
         else (failed_reply NotFound, a))"

section \<open>Lemmas\<close>

lemma auth_route_register:
  "auth_route H sl now a (JObj [(''url'', JStr ''/auth/register''), (''data'', reg_form_data f),
                                (''method'', JStr ''POST'')]) =
     (case auth_register H sl (rf_email f) (rf_password f) (rf_first_name f) (rf_last_name f) now a of
        Inl e \<Rightarrow> (failed_reply e, a)
      | Inr (u, a') \<Rightarrow> (register_reply (Inr (u, cred a')), a'))"
  by (simp add: auth_route_def reg_form_data_def)

lemma auth_route_login:
  "auth_route H sl now a (JObj [(''url'', JStr ''/auth/login''), (''data'', login_form_data g),
                                (''method'', JStr ''POST'')]) =
     (case login H (lf_email g) (lf_password g) now a of
        Inl e \<Rightarrow> (failed_reply e, a)
      | Inr r \<Rightarrow> (login_reply (Inr r), snd r))"
  by (simp add: auth_route_def login_form_data_def)

lemma register_handle_submit_request:
  "reg_form_valid f \<Longrightarrow>
     last (rp_requests (register_handle_submit f s)) =
       JObj [(''url'', JStr ''/auth/register''), (''data'', reg_form_data f), (''method'', JStr ''POST'')]"
  by (simp add: register_handle_submit_def register_submit_def)

lemma login_handle_submit_request:
  "login_form_valid g \<Longrightarrow>
     last (lp_requests (login_handle_submit g l)) =
       JObj [(''url'', JStr ''/auth/login''), (''data'', login_form_data g), (''method'', JStr ''POST'')]"
  by (simp add: login_handle_submit_def login_submit_def Let_def)

section \<open>Properties\<close>

text \<open>C26: A user who registers on the Register page can sign in on the Login page.
  When the Register form is valid, its password long enough for the policy and its
  email new, the registration request is accepted: the page shows the green alert
  "Account created successfully" and starts its redirect.  A valid Login form with the
  same email up to case and the same password then signs in: the Login page navigates
  home and dispatches a token that authenticates as the new user.\<close>

theorem register_then_login:
  assumes "reg_form_valid f" and "min_password_len \<le> length (rf_password f)"
    and "find_user_by_email (cred a) (rf_email f) = None"
    and "login_form_valid g" and "normalize_email (lf_email g) = normalize_email (rf_email f)"
    and "lf_password g = rf_password f"
  shows "let r1 = auth_route H sl now a (last (rp_requests (register_handle_submit f s)));
             rp = register_on_response now (fst r1) (register_handle_submit f s);
             r2 = auth_route H sl now (snd r1) (last (lp_requests (login_handle_submit g l)));
             lp = login_on_response (fst r2) (login_handle_submit g l)
         in status_alert (rp_err_msg rp) = [VAlert alert_green (JStr ''Account created successfully'')] \<and>
            rp_intervals rp = rp_intervals s @ [now] \<and>
            lp_location lp = Some ''/'' \<and>
            (\<exists>t. js_get (last (lp_dispatched lp)) ''token'' = JNum (int t) \<and>
                 authenticate t now (snd r2) = Inr (length (users (cred a))))"
proof -
  let ?u = "length (users (cred a))"
  obtain c' where reg: "register H sl (rf_email f) (rf_password f) (rf_first_name f) (rf_last_name f) now (cred a)
      = Inr (?u, c')"
    using assms(2,3) by (simp add: register_def Let_def)
  then have areg: "auth_register H sl (rf_email f) (rf_password f) (rf_first_name f) (rf_last_name f) now a
      = Inr (?u, a\<lparr>cred := c'\<rparr>)"
    by (simp add: auth_register_def)
  have v: "verify H (lf_email g) (lf_password g) c' = Inr ?u"
    using register_verify_roundtrip [OF reg assms(5)] assms(6) by simp
  obtain t ex a2 where lg: "login H (lf_email g) (lf_password g) now (a\<lparr>cred := c'\<rparr>) = Inr ((?u, t, ex), a2)"
    using v by (simp add: login_def Let_def)
  have tok: "js_get (login_new_data (login_reply (Inr ((?u, t, ex), a2)))) ''token'' = JNum (int t)"
    using login_reply_token [OF lg] lg by simp
  have au: "authenticate t now a2 = Inr ?u" by (rule login_session_now [OF lg])
  show ?thesis
    using assms(1,4) areg lg tok au
    by (simp add: Let_def register_handle_submit_request login_handle_submit_request auth_route_register
        auth_route_login register_reply_def register_on_response_def status_alert_def jsx_and_def
        login_on_response_def login_reply_def register_handle_submit_def register_submit_def)
qed

lemma register_then_login_witness:
  "let f = \<lparr>rf_first_name = ''Alice'', rf_last_name = ''A'', rf_email = ''alice@x.com'',
            rf_password = ''pw123456'', rf_cpassword = ''pw123456''\<rparr>;
       g = \<lparr>lf_email = ''Alice@X.com'', lf_password = ''pw123456''\<rparr>;
       r1 = auth_route (\<lambda>x y. x @ y) ''s1'' 0 empty_auth (last (rp_requests (register_handle_submit f register_initial)));
       rp = register_on_response 0 (fst r1) (register_handle_submit f register_initial);
       r2 = auth_route (\<lambda>x y. x @ y) ''s1'' 0 (snd r1) (last (lp_requests (login_handle_submit g login_initial)));
       lp = login_on_response (fst r2) (login_handle_submit g login_initial)
   in status_alert (rp_err_msg rp) = [VAlert alert_green (JStr ''Account created successfully'')] \<and>
      lp_location lp = Some ''/'' \<and>
      (\<exists>t. js_get (last (lp_dispatched lp)) ''token'' = JNum (int t) \<and> authenticate t 0 (snd r2) = Inr 0)"
proof -
  let ?f = "\<lparr>rf_first_name = ''Alice'', rf_last_name = ''A'', rf_email = ''alice@x.com'',
            rf_password = ''pw123456'', rf_cpassword = ''pw123456''\<rparr>"
  let ?g = "\<lparr>lf_email = ''Alice@X.com'', lf_password = ''pw123456''\<rparr>"
  have n: "normalize_email (lf_email ?g) = normalize_email (rf_email ?f)" by code_simp
  have "reg_form_valid ?f"
    by (simp add: reg_form_valid_def reg_first_name_error_def reg_last_name_error_def reg_email_error_def
        reg_password_error_def reg_cpassword_error_def rhf_required_def)
  moreover have "min_password_len \<le> length (rf_password ?f)" by (simp add: min_password_len_def)
  moreover have "find_user_by_email (cred empty_auth) (rf_email ?f) = None"
    by (simp add: find_user_by_email_def empty_auth_def empty_cred_store_def)
  moreover have "login_form_valid ?g"
    by (simp add: login_form_valid_def login_email_error_def login_password_error_def rhf_required_def)
  moreover have "lf_password ?g = rf_password ?f" by simp
  ultimately show ?thesis
    using register_then_login [of ?f empty_auth ?g "\<lambda>x y. x @ y" "''s1''" 0 register_initial login_initial] n
    by (simp add: Let_def empty_auth_def empty_cred_store_def)
qed

end
