(* ===== verification/SocialGraph.thy ===== *)
theory SocialGraph
  imports CredentialStore
begin

text \<open>
  The Social Graph of spec section 4.3 (modelled from the spec; its code is not
  under \<open>src/\<close>).  A relation is stored once per unordered pair, under the key
  \<open>(min a b, max a b)\<close> (the canonical pair of spec section 9), with its status and
  its requester.  The table is an association list so that the operations and the
  invariant evaluate.  Identity existence is checked against the Credential Store.
\<close>

datatype rel_status = Pending | Accepted

record relation =
  rstatus :: rel_status
  requester :: user_id

record graph =
  rels :: "((user_id \<times> user_id) \<times> relation) list"

definition empty_graph :: graph where
  "empty_graph = \<lparr>rels = []\<rparr>"

definition pair_key :: "user_id \<Rightarrow> user_id \<Rightarrow> user_id \<times> user_id" where
  "pair_key a b = (min a b, max a b)"

definition send_request :: "cred_store \<Rightarrow> user_id \<Rightarrow> user_id \<Rightarrow> graph \<Rightarrow> graph result" where
  "send_request cs a b g =
     (if a = b then Inl SelfRequest
      else if \<not> user_exists cs a \<or> \<not> user_exists cs b then Inl UnknownUser
      else if map_of (rels g) (pair_key a b) \<noteq> None then Inl AlreadyRequested
      else Inr (g\<lparr>rels := AList.update (pair_key a b) \<lparr>rstatus = Pending, requester = a\<rparr> (rels g)\<rparr>))"

text \<open>Only the recipient answers: the pending relation of the pair must have the
  other user as its requester.\<close>

definition respond :: "user_id \<Rightarrow> user_id \<Rightarrow> bool \<Rightarrow> graph \<Rightarrow> graph result" where
  "respond recipient req accept g =
     (case map_of (rels g) (pair_key recipient req) of
        Some r \<Rightarrow>
          if rstatus r = Pending \<and> requester r = req \<and> recipient \<noteq> req
          then Inr (if accept
                    then g\<lparr>rels := AList.update (pair_key recipient req) (r\<lparr>rstatus := Accepted\<rparr>) (rels g)\<rparr>
                    else g\<lparr>rels := AList.delete (pair_key recipient req) (rels g)\<rparr>)
          else Inl NoSuchRequest
      | None \<Rightarrow> Inl NoSuchRequest)"

definition unfriend :: "user_id \<Rightarrow> user_id \<Rightarrow> graph \<Rightarrow> graph result" where
  "unfriend u v g =
     (case map_of (rels g) (pair_key u v) of
        Some r \<Rightarrow> if rstatus r = Accepted then Inr (g\<lparr>rels := AList.delete (pair_key u v) (rels g)\<rparr>)
                  else Inl NoSuchRelation
      | None \<Rightarrow> Inl NoSuchRelation)"

definition are_friends :: "user_id \<Rightarrow> user_id \<Rightarrow> graph \<Rightarrow> bool" where
  "are_friends a b g =
     (case map_of (rels g) (pair_key a b) of Some r \<Rightarrow> rstatus r = Accepted | None \<Rightarrow> False)"

text \<open>The friends of \<open>u\<close>, in the order their relations were created.\<close>

definition list_friends :: "user_id \<Rightarrow> graph \<Rightarrow> user_id list" where
  "list_friends u g =
     map (\<lambda>((a, b), r). if a = u then b else a)
       (filter (\<lambda>((a, b), r). (a = u \<or> b = u) \<and> rstatus r = Accepted) (rels g))"

definition graph_inv :: "cred_store \<Rightarrow> graph \<Rightarrow> bool" where
  "graph_inv cs g =
     (distinct (map fst (rels g)) \<and>
      (\<forall>((a, b), r) \<in> set (rels g).
         a < b \<and> user_exists cs a \<and> user_exists cs b \<and> (requester r = a \<or> requester r = b)))"

section \<open>Lemmas\<close>

lemma pair_key_sym: "pair_key a b = pair_key b a"
  by (simp add: pair_key_def min.commute max.commute)

lemma are_friends_sym: "are_friends a b g = are_friends b a g"
  by (simp add: are_friends_def pair_key_sym)

lemma send_request_Inr:
  "send_request cs a b g = Inr g' \<longleftrightarrow>
     a \<noteq> b \<and> user_exists cs a \<and> user_exists cs b \<and> map_of (rels g) (pair_key a b) = None \<and>
     g' = g\<lparr>rels := AList.update (pair_key a b) \<lparr>rstatus = Pending, requester = a\<rparr> (rels g)\<rparr>"
  by (auto simp: send_request_def)

lemma respond_Inr:
  "respond c q acc g = Inr g' \<longleftrightarrow>
     (\<exists>r. map_of (rels g) (pair_key c q) = Some r \<and> rstatus r = Pending \<and> requester r = q \<and> c \<noteq> q \<and>
        g' = (if acc then g\<lparr>rels := AList.update (pair_key c q) (r\<lparr>rstatus := Accepted\<rparr>) (rels g)\<rparr>
              else g\<lparr>rels := AList.delete (pair_key c q) (rels g)\<rparr>))"
  by (auto simp: respond_def split: option.splits)

lemma graph_inv_update:
  assumes "graph_inv cs g" and "pair_key a b = (x, y)" and "a \<noteq> b"
    and "user_exists cs a" and "user_exists cs b" and "requester r = a \<or> requester r = b"
  shows "graph_inv cs (g\<lparr>rels := AList.update (pair_key a b) r (rels g)\<rparr>)"
proof -
  from assms(2,3) have "x < y" by (auto simp: pair_key_def min_def max_def split: if_splits)
  with assms have "x < y \<and> user_exists cs x \<and> user_exists cs y \<and> (requester r = x \<or> requester r = y)"
    by (auto simp: pair_key_def min_def max_def split: if_splits)
  with assms(1,2) show ?thesis
    by (auto simp: graph_inv_def distinct_update dest!: set_update_subset [THEN subsetD])
qed

lemma graph_inv_delete: "graph_inv cs g \<Longrightarrow> graph_inv cs (g\<lparr>rels := AList.delete k (rels g)\<rparr>)"
  unfolding graph_inv_def using distinct_delete [of "rels g" k]
  by (auto dest: set_delete_subset [THEN subsetD])

lemma send_request_graph_inv:
  assumes "graph_inv cs g" and "send_request cs a b g = Inr g'"
  shows "graph_inv cs g'"
proof -
  from assms(2) have "a \<noteq> b" "user_exists cs a" "user_exists cs b"
    and g': "g' = g\<lparr>rels := AList.update (pair_key a b) \<lparr>rstatus = Pending, requester = a\<rparr> (rels g)\<rparr>"
    by (simp_all add: send_request_Inr)
  with assms(1) show ?thesis
    using graph_inv_update [of cs g a b "min a b" "max a b" "\<lparr>rstatus = Pending, requester = a\<rparr>"]
    by (simp add: pair_key_def)
qed

lemma respond_graph_inv:
  assumes "graph_inv cs g" and "respond c q acc g = Inr g'"
  shows "graph_inv cs g'"
proof -
  from assms(2) obtain r where m: "map_of (rels g) (pair_key c q) = Some r" and "requester r = q"
    and cq: "c \<noteq> q"
    and g': "g' = (if acc then g\<lparr>rels := AList.update (pair_key c q) (r\<lparr>rstatus := Accepted\<rparr>) (rels g)\<rparr>
              else g\<lparr>rels := AList.delete (pair_key c q) (rels g)\<rparr>)"
    by (auto simp: respond_Inr)
  from m have "(pair_key c q, r) \<in> set (rels g)" by (rule map_of_SomeD)
  with assms(1) have "user_exists cs c \<and> user_exists cs q \<and> (requester r = c \<or> requester r = q)"
    by (auto simp: graph_inv_def pair_key_def min_def max_def split: if_splits)
  then show ?thesis
    using assms(1) cq g' graph_inv_delete
      graph_inv_update [of cs g c q "min c q" "max c q" "r\<lparr>rstatus := Accepted\<rparr>"]
    by (auto simp: pair_key_def)
qed

lemma unfriend_graph_inv: "graph_inv cs g \<Longrightarrow> unfriend u v g = Inr g' \<Longrightarrow> graph_inv cs g'"
  by (auto simp: unfriend_def graph_inv_delete split: option.splits if_splits)

lemma graph_inv_mono:
  "graph_inv cs g \<Longrightarrow> (\<forall>j. user_exists cs j \<longrightarrow> user_exists cs' j) \<Longrightarrow> graph_inv cs' g"
  by (fastforce simp: graph_inv_def)

lemma list_friends_are_friends:
  assumes "graph_inv cs g"
  shows "set (list_friends u g) = {v. are_friends u v g}"
proof
  show "set (list_friends u g) \<subseteq> {v. are_friends u v g}"
  proof
    fix v assume "v \<in> set (list_friends u g)"
    then obtain a b r where in_g: "((a, b), r) \<in> set (rels g)" and "a = u \<or> b = u"
      and acc: "rstatus r = Accepted" and v: "v = (if a = u then b else a)"
      by (auto simp: list_friends_def)
    moreover from assms in_g have "a < b" by (auto simp: graph_inv_def)
    ultimately have "pair_key u v = (a, b)" by (auto simp: pair_key_def)
    moreover from assms in_g have "map_of (rels g) (a, b) = Some r"
      by (auto simp: graph_inv_def intro: map_of_is_SomeI)
    ultimately show "v \<in> {v. are_friends u v g}" using acc by (simp add: are_friends_def)
  qed
next
  show "{v. are_friends u v g} \<subseteq> set (list_friends u g)"
  proof
    fix v assume "v \<in> {v. are_friends u v g}"
    then obtain r where m: "map_of (rels g) (pair_key u v) = Some r" and acc: "rstatus r = Accepted"
      by (auto simp: are_friends_def split: option.splits)
    then have in_g: "(pair_key u v, r) \<in> set (rels g)" by (simp add: map_of_SomeD)
    with assms have "u \<noteq> v" by (auto simp: graph_inv_def pair_key_def)
    with in_g acc show "v \<in> set (list_friends u g)"
      by (force simp: list_friends_def pair_key_def min_def max_def split: if_splits)
  qed
qed

lemma send_accept_friends:
  assumes "send_request cs a b g = Inr g1" and "respond b a True g1 = Inr g2"
  shows "are_friends a b g2 \<and> are_friends b a g2"
  using assms by (auto simp: send_request_Inr respond_Inr are_friends_def update_conv' pair_key_sym)

lemma send_then_respond_succeeds:
  assumes "send_request cs a b g = Inr g1"
  shows "\<exists>g2. respond b a acc g1 = Inr g2"
  using assms by (auto simp: send_request_Inr respond_def update_conv' pair_key_sym)

lemma send_request_opposite_refused:
  assumes "send_request cs a b g = Inr g1"
  shows "send_request cs b a g1 = Inl AlreadyRequested"
proof -
  from assms have "a \<noteq> b" "user_exists cs a" "user_exists cs b"
    and g1: "g1 = g\<lparr>rels := AList.update (pair_key a b) \<lparr>rstatus = Pending, requester = a\<rparr> (rels g)\<rparr>"
    by (simp_all add: send_request_Inr)
  then show ?thesis by (simp add: send_request_def update_conv' pair_key_sym)
qed

end
