(* ===== verification/PostStore.thy ===== *)
theory PostStore
  imports CredentialStore "HOL-Library.Product_Lexorder"
begin

text \<open>
  The Post Store of spec section 4.4 (modelled from the spec; its code is not under
  \<open>src/\<close>).  Posts are kept in creation order with identifiers from a counter;
  the liker set is a list without duplicates, in the order the likes came, so that
  like and unlike are executable and their set semantics is a lemma.  Timestamps
  come from the clock as an argument.  Listings are newest first: descending by
  creation time, ties broken by identifier (spec 4.5).
\<close>

record post =
  pid :: post_id
  author :: user_id
  content :: string
  attachment :: "string option"
  created :: time
  likers :: "user_id list"

record post_store =
  posts :: "post list"
  next_pid :: post_id

definition empty_post_store :: post_store where
  "empty_post_store = \<lparr>posts = [], next_pid = 0\<rparr>"

definition create_post ::
  "cred_store \<Rightarrow> user_id \<Rightarrow> string \<Rightarrow> string option \<Rightarrow> time \<Rightarrow> post_store
   \<Rightarrow> (post_id \<times> post_store) result" where
  "create_post cs a txt att now ps =
     (if \<not> user_exists cs a then Inl UnknownUser
      else let i = next_pid ps
           in Inr (i, ps\<lparr>posts := posts ps @ [\<lparr>pid = i, author = a, content = txt, attachment = att,
                                                created = now, likers = []\<rparr>],
                         next_pid := Suc i\<rparr>))"

definition find_post :: "post_store \<Rightarrow> post_id \<Rightarrow> post option" where
  "find_post ps i = find (\<lambda>p. pid p = i) (posts ps)"

definition get_post :: "post_id \<Rightarrow> post_store \<Rightarrow> post result" where
  "get_post i ps = (case find_post ps i of None \<Rightarrow> Inl NotFound | Some p \<Rightarrow> Inr p)"

definition delete_post :: "post_id \<Rightarrow> user_id \<Rightarrow> post_store \<Rightarrow> post_store result" where
  "delete_post i req ps =
     (case find_post ps i of
        None \<Rightarrow> Inl NotFound
      | Some p \<Rightarrow> if author p \<noteq> req then Inl Forbidden
                  else Inr (ps\<lparr>posts := filter (\<lambda>q. pid q \<noteq> i) (posts ps)\<rparr>))"

definition update_likers :: "post_id \<Rightarrow> (user_id list \<Rightarrow> user_id list) \<Rightarrow> post_store \<Rightarrow> post_store" where
  "update_likers i f ps =
     ps\<lparr>posts := map (\<lambda>q. if pid q = i then q\<lparr>likers := f (likers q)\<rparr> else q) (posts ps)\<rparr>"

definition add_liker :: "user_id \<Rightarrow> user_id list \<Rightarrow> user_id list" where
  "add_liker u ls = (if u \<in> set ls then ls else ls @ [u])"

definition like_post :: "post_id \<Rightarrow> user_id \<Rightarrow> post_store \<Rightarrow> post_store result" where
  "like_post i u ps =
     (case find_post ps i of None \<Rightarrow> Inl NotFound | Some p \<Rightarrow> Inr (update_likers i (add_liker u) ps))"

definition unlike_post :: "post_id \<Rightarrow> user_id \<Rightarrow> post_store \<Rightarrow> post_store result" where
  "unlike_post i u ps =
     (case find_post ps i of None \<Rightarrow> Inl NotFound | Some p \<Rightarrow> Inr (update_likers i (removeAll u) ps))"

definition newest_first :: "post list \<Rightarrow> post list" where
  "newest_first qs = rev (sort_key (\<lambda>p. (created p, pid p)) qs)"

definition list_by_author :: "user_id \<Rightarrow> post_store \<Rightarrow> post list" where
  "list_by_author a ps = newest_first (filter (\<lambda>p. author p = a) (posts ps))"

definition post_inv :: "cred_store \<Rightarrow> post_store \<Rightarrow> bool" where
  "post_inv cs ps =
     (distinct (map pid (posts ps)) \<and>
      (\<forall>p \<in> set (posts ps). pid p < next_pid ps \<and> user_exists cs (author p) \<and> distinct (likers p)))"

section \<open>Lemmas\<close>

lemma find_post_Some: "find_post ps i = Some p \<Longrightarrow> p \<in> set (posts ps) \<and> pid p = i"
  by (auto simp: find_post_def dest: find_Some_in_set)

lemma find_post_None: "(find_post ps i = None) = (i \<notin> pid ` set (posts ps))"
  by (auto simp: find_post_def find_None_iff)

lemma find_pid_map:
  "\<forall>q. pid (g q) = pid q \<Longrightarrow>
     find (\<lambda>p. pid p = j) (map g xs) = map_option g (find (\<lambda>p. pid p = j) xs)"
  by (induction xs) auto

lemma find_post_update_likers [simp]:
  "find_post (update_likers i f ps) j =
     map_option (\<lambda>q. if pid q = i then q\<lparr>likers := f (likers q)\<rparr> else q) (find_post ps j)"
  by (simp add: find_post_def update_likers_def find_pid_map)

lemma map_pid_update_likers [simp]: "map pid (posts (update_likers i f ps)) = map pid (posts ps)"
  by (induction "posts ps" arbitrary: ps) (auto simp: update_likers_def)

lemma update_likers_comp:
  "update_likers i f (update_likers i g ps) = update_likers i (f \<circ> g) ps"
  by (simp add: update_likers_def comp_def)

lemma add_liker_idem [simp]: "add_liker u (add_liker u ls) = add_liker u ls"
  by (simp add: add_liker_def)

lemma set_add_liker [simp]: "set (add_liker u ls) = insert u (set ls)"
  by (auto simp: add_liker_def)

lemma distinct_add_liker [simp]: "distinct (add_liker u ls) = distinct ls"
  by (simp add: add_liker_def)

lemma removeAll_add_liker: "u \<notin> set ls \<Longrightarrow> removeAll u (add_liker u ls) = ls"
  by (simp add: add_liker_def)

lemma like_post_Inr:
  "like_post i u ps = Inr ps' \<longleftrightarrow> find_post ps i \<noteq> None \<and> ps' = update_likers i (add_liker u) ps"
  by (auto simp: like_post_def split: option.splits)

lemma delete_post_Inr:
  "delete_post i req ps = Inr ps' \<longleftrightarrow>
     (\<exists>p. find_post ps i = Some p \<and> author p = req \<and> ps' = ps\<lparr>posts := filter (\<lambda>q. pid q \<noteq> i) (posts ps)\<rparr>)"
  by (auto simp: delete_post_def split: option.splits)

lemma set_newest_first [simp]: "set (newest_first qs) = set qs"
  by (simp add: newest_first_def)

lemma sorted_newest_first: "sorted (rev (map (\<lambda>p. (created p, pid p)) (newest_first qs)))"
  by (simp add: newest_first_def rev_map [symmetric])

lemma distinct_newest_first [simp]: "distinct (newest_first qs) = distinct qs"
  by (simp add: newest_first_def)

lemma set_list_by_author: "set (list_by_author a ps) = {p \<in> set (posts ps). author p = a}"
  by (auto simp: list_by_author_def)

lemma post_inv_update_likers:
  "post_inv cs ps \<Longrightarrow> (\<forall>ls. distinct ls \<longrightarrow> distinct (f ls)) \<Longrightarrow> post_inv cs (update_likers i f ps)"
proof -
  assume inv: "post_inv cs ps" and f: "\<forall>ls. distinct ls \<longrightarrow> distinct (f ls)"
  have "distinct (map pid (posts (update_likers i f ps)))"
    using inv by (simp add: post_inv_def)
  moreover have "next_pid (update_likers i f ps) = next_pid ps" by (simp add: update_likers_def)
  ultimately show ?thesis using inv f by (auto simp: post_inv_def update_likers_def)
qed

lemma post_inv_like: "post_inv cs ps \<Longrightarrow> like_post i u ps = Inr ps' \<Longrightarrow> post_inv cs ps'"
  by (auto simp: like_post_Inr intro: post_inv_update_likers)

lemma post_inv_unlike: "post_inv cs ps \<Longrightarrow> unlike_post i u ps = Inr ps' \<Longrightarrow> post_inv cs ps'"
  by (auto simp: unlike_post_def distinct_removeAll intro: post_inv_update_likers split: option.splits)

lemma post_inv_delete: "post_inv cs ps \<Longrightarrow> delete_post i req ps = Inr ps' \<Longrightarrow> post_inv cs ps'"
  by (auto simp: delete_post_Inr post_inv_def distinct_map_filter)

lemma post_inv_create:
  assumes "post_inv cs ps" and "create_post cs a txt att now ps = Inr (i, ps')"
  shows "post_inv cs ps'"
proof -
  from assms(2) have "user_exists cs a" and i: "i = next_pid ps"
    and ps': "ps' = ps\<lparr>posts := posts ps @ [\<lparr>pid = i, author = a, content = txt, attachment = att,
                                                created = now, likers = []\<rparr>], next_pid := Suc i\<rparr>"
    by (auto simp: create_post_def Let_def split: if_splits)
  moreover from assms(1) i have "i \<notin> set (map pid (posts ps))" by (auto simp: post_inv_def)
  ultimately show ?thesis using assms(1) by (auto simp: post_inv_def)
qed

lemma post_inv_mono:
  "post_inv cs ps \<Longrightarrow> (\<forall>j. user_exists cs j \<longrightarrow> user_exists cs' j) \<Longrightarrow> post_inv cs' ps"
  by (auto simp: post_inv_def)

lemma like_post_idem:
  "like_post i u ps = Inr ps' \<Longrightarrow> like_post i u ps' = Inr ps'"
  by (auto simp: like_post_Inr update_likers_comp comp_def)

lemma delete_post_forbidden:
  "find_post ps i = Some p \<Longrightarrow> x \<noteq> author p \<Longrightarrow> delete_post i x ps = Inl Forbidden"
  by (simp add: delete_post_def)

lemma delete_post_removes:
  "delete_post i req ps = Inr ps' \<Longrightarrow> i \<notin> pid ` set (posts ps')"
  by (auto simp: delete_post_Inr)

end
