(* ===== verification/FeedComposer.thy ===== *)
theory FeedComposer
  imports Authenticator SocialGraph PostStore
begin

text \<open>
  The Feed Composer of spec section 4.5 (modelled from the spec; its code is not
  under \<open>src/\<close>).  The feed is composed at read time from the current graph and
  post store (nothing is materialised), newest first; liking through the feed is
  gated on being the author or a friend of the author; deleting through the feed is
  the Post Store's ownership-checked delete.  \<open>get_feed_tok\<close> resolves the
  request's token through the Authenticator first.
\<close>

definition feed_visible :: "user_id \<Rightarrow> graph \<Rightarrow> post \<Rightarrow> bool" where
  "feed_visible r g p = (author p = r \<or> are_friends r (author p) g)"

definition get_feed :: "user_id \<Rightarrow> graph \<Rightarrow> post_store \<Rightarrow> post list" where
  "get_feed r g ps = newest_first (filter (feed_visible r g) (posts ps))"

definition get_feed_tok :: "token \<Rightarrow> time \<Rightarrow> auth_state \<Rightarrow> graph \<Rightarrow> post_store \<Rightarrow> post list result" where
  "get_feed_tok t now a g ps =
     (case authenticate t now a of Inl e \<Rightarrow> Inl e | Inr r \<Rightarrow> Inr (get_feed r g ps))"

definition like_on_feed :: "post_id \<Rightarrow> user_id \<Rightarrow> graph \<Rightarrow> post_store \<Rightarrow> post_store result" where
  "like_on_feed i u g ps =
     (case find_post ps i of
        None \<Rightarrow> Inl NotFound
      | Some p \<Rightarrow> if feed_visible u g p then like_post i u ps else Inl Forbidden)"

definition unlike_on_feed :: "post_id \<Rightarrow> user_id \<Rightarrow> graph \<Rightarrow> post_store \<Rightarrow> post_store result" where
  "unlike_on_feed i u g ps =
     (case find_post ps i of
        None \<Rightarrow> Inl NotFound
      | Some p \<Rightarrow> if feed_visible u g p then unlike_post i u ps else Inl Forbidden)"

definition delete_from_feed :: "post_id \<Rightarrow> user_id \<Rightarrow> post_store \<Rightarrow> post_store result" where
  "delete_from_feed i u ps = delete_post i u ps"

section \<open>Lemmas\<close>

lemma set_get_feed:
  assumes "graph_inv cs g"
  shows "set (get_feed r g ps) =
           {p \<in> set (posts ps). author p = r \<or> author p \<in> set (list_friends r g)}"
  using list_friends_are_friends [OF assms, of r] by (auto simp: get_feed_def feed_visible_def)

lemma like_on_feed_Inr:
  "like_on_feed i u g ps = Inr ps' \<longleftrightarrow>
     (\<exists>p. find_post ps i = Some p \<and> feed_visible u g p \<and> ps' = update_likers i (add_liker u) ps)"
  by (auto simp: like_on_feed_def like_post_def split: option.splits)

lemma like_on_feed_idem:
  "like_on_feed i u g ps = Inr ps' \<Longrightarrow> like_on_feed i u g ps' = Inr ps'"
  by (auto simp: like_on_feed_Inr update_likers_comp comp_def feed_visible_def)

lemma likers_after_like:
  assumes "like_on_feed i u g ps = Inr ps'" and "post_inv cs ps"
  shows "\<exists>p. find_post ps' i = Some p \<and> u \<in> set (likers p) \<and> distinct (likers p)"
proof -
  from assms(1) obtain p where f: "find_post ps i = Some p" and ps': "ps' = update_likers i (add_liker u) ps"
    by (auto simp: like_on_feed_Inr)
  from find_post_Some [OF f] assms(2) have "distinct (likers p)" and "pid p = i"
    by (auto simp: post_inv_def)
  with f ps' show ?thesis by simp
qed

end
