(* ===== verification/Backend.thy ===== *)
theory Backend
  imports FeedComposer
begin

text \<open>
  The backend as one state: the Authenticator (with the Credential Store inside),
  the Social Graph, the Post Store and the clock (spec sections 4--6, modelled from
  the spec; none of this code is under \<open>src/\<close>).  The operations other clients
  can run against it are a datatype \<open>backend_op\<close> with one step function
  \<open>backend_step\<close>, so that a client model (the Profile page in \<open>ProfileSystem\<close>) can
  interleave its own requests with everything the rest of the world does.  The hash
  function \<open>H\<close> is a parameter throughout; \<open>be_inv\<close> conjoins the invariants of
  the components, and \<open>backend_step_inv\<close> shows every operation keeps it.
\<close>

record backend =
  be_auth :: auth_state
  be_graph :: graph
  be_posts :: post_store
  be_now :: time

definition empty_backend :: backend where
  "empty_backend = \<lparr>be_auth = empty_auth, be_graph = empty_graph, be_posts = empty_post_store, be_now = 0\<rparr>"

abbreviation be_cred :: "backend \<Rightarrow> cred_store" where
  "be_cred b \<equiv> cred (be_auth b)"

datatype backend_op =
    OpRegister string string string string string  \<comment> \<open>salt, email, password, first, last name\<close>
  | OpLogin string string
  | OpLogout token
  | OpSend user_id user_id
  | OpRespond user_id user_id bool
  | OpUnfriend user_id user_id
  | OpCreate user_id string "string option"
  | OpLike post_id user_id
  | OpUnlike post_id user_id
  | OpDelete post_id user_id
  | OpTick nat

fun backend_step :: "hasher \<Rightarrow> backend_op \<Rightarrow> backend \<Rightarrow> backend result" where
  "backend_step H (OpRegister sl em pw fn ln) b =
     (case auth_register H sl em pw fn ln (be_now b) (be_auth b) of
        Inl e \<Rightarrow> Inl e | Inr (_, a') \<Rightarrow> Inr (b\<lparr>be_auth := a'\<rparr>))"
| "backend_step H (OpLogin em pw) b =
     (case login H em pw (be_now b) (be_auth b) of
        Inl e \<Rightarrow> Inl e | Inr (_, a') \<Rightarrow> Inr (b\<lparr>be_auth := a'\<rparr>))"
| "backend_step H (OpLogout t) b = Inr (b\<lparr>be_auth := logout t (be_auth b)\<rparr>)"
| "backend_step H (OpSend x y) b =
     map_sum id (\<lambda>g'. b\<lparr>be_graph := g'\<rparr>) (send_request (be_cred b) x y (be_graph b))"
| "backend_step H (OpRespond x y acc) b =
     map_sum id (\<lambda>g'. b\<lparr>be_graph := g'\<rparr>) (respond x y acc (be_graph b))"
| "backend_step H (OpUnfriend x y) b =
     map_sum id (\<lambda>g'. b\<lparr>be_graph := g'\<rparr>) (unfriend x y (be_graph b))"
| "backend_step H (OpCreate x txt att) b =
     (case create_post (be_cred b) x txt att (be_now b) (be_posts b) of
        Inl e \<Rightarrow> Inl e | Inr (_, ps') \<Rightarrow> Inr (b\<lparr>be_posts := ps'\<rparr>))"
| "backend_step H (OpLike i x) b =
     map_sum id (\<lambda>ps'. b\<lparr>be_posts := ps'\<rparr>) (like_on_feed i x (be_graph b) (be_posts b))"
| "backend_step H (OpUnlike i x) b =
     map_sum id (\<lambda>ps'. b\<lparr>be_posts := ps'\<rparr>) (unlike_on_feed i x (be_graph b) (be_posts b))"
| "backend_step H (OpDelete i x) b =
     map_sum id (\<lambda>ps'. b\<lparr>be_posts := ps'\<rparr>) (delete_from_feed i x (be_posts b))"
| "backend_step H (OpTick d) b = Inr (b\<lparr>be_now := be_now b + d\<rparr>)"

text \<open>A sequence of operations, stopping at the first refusal.\<close>

fun run_ops :: "hasher \<Rightarrow> backend_op list \<Rightarrow> backend \<Rightarrow> backend result" where
  "run_ops H [] b = Inr b"
| "run_ops H (op # ops) b = (case backend_step H op b of Inl e \<Rightarrow> Inl e | Inr b' \<Rightarrow> run_ops H ops b')"

definition be_inv :: "backend \<Rightarrow> bool" where
  "be_inv b = (auth_inv (be_auth b) \<and> graph_inv (be_cred b) (be_graph b) \<and> post_inv (be_cred b) (be_posts b))"

section \<open>Lemmas\<close>

lemma map_sum_Inr_iff [simp]: "map_sum f g x = Inr y \<longleftrightarrow> (\<exists>z. x = Inr z \<and> y = g z)"
  by (cases x) auto

lemma be_inv_empty: "be_inv empty_backend"
  by (simp add: be_inv_def empty_backend_def empty_auth_def empty_graph_def empty_post_store_def
      empty_cred_store_def auth_inv_def graph_inv_def post_inv_def cred_inv_def)

lemma like_on_feed_post_inv: "post_inv cs ps \<Longrightarrow> like_on_feed i u g ps = Inr ps' \<Longrightarrow> post_inv cs ps'"
  by (auto simp: like_on_feed_def intro: post_inv_like split: option.splits if_splits)

lemma unlike_on_feed_post_inv: "post_inv cs ps \<Longrightarrow> unlike_on_feed i u g ps = Inr ps' \<Longrightarrow> post_inv cs ps'"
  by (auto simp: unlike_on_feed_def intro: post_inv_unlike split: option.splits if_splits)

lemma register_step_be_inv:
  assumes "be_inv b" and "\<forall>x y. H x y \<noteq> []"
    and "auth_register H sl em pw fn ln now (be_auth b) = Inr (u, a')"
  shows "be_inv (b\<lparr>be_auth := a'\<rparr>)"
proof -
  from assms(3) obtain c' where r: "register H sl em pw fn ln now (be_cred b) = Inr (u, c')"
    and a': "a' = (be_auth b)\<lparr>cred := c'\<rparr>"
    by (auto simp: auth_register_Inr)
  have mono: "\<forall>j. user_exists (be_cred b) j \<longrightarrow> user_exists c' j"
    using register_user_exists [OF r] by blast
  from assms(1,2,3) have "auth_inv a'" by (auto simp: be_inv_def intro: auth_register_auth_inv)
  with assms(1) mono a' show ?thesis
    by (auto simp: be_inv_def intro: graph_inv_mono post_inv_mono)
qed

lemma login_step_be_inv:
  "be_inv b \<Longrightarrow> login H em pw now (be_auth b) = Inr (r, a') \<Longrightarrow> be_inv (b\<lparr>be_auth := a'\<rparr>)"
  by (cases r) (auto simp: be_inv_def login_Inr dest: login_auth_inv)

lemma backend_step_inv:
  assumes "\<forall>x y. H x y \<noteq> []" and "be_inv b" and "backend_step H op b = Inr b'"
  shows "be_inv b'"
  using assms
proof (cases op)
  case (OpRegister sl em pw fn ln)
  with assms show ?thesis by (auto intro: register_step_be_inv split: sum.splits)
next
  case (OpLogin em pw)
  with assms show ?thesis by (auto intro: login_step_be_inv split: sum.splits)
next
  case (OpLogout t)
  with assms show ?thesis by (auto simp: be_inv_def logout_def intro: logout_auth_inv [unfolded logout_def])
qed (auto simp: be_inv_def delete_from_feed_def intro: send_request_graph_inv respond_graph_inv
       unfriend_graph_inv like_on_feed_post_inv unlike_on_feed_post_inv post_inv_delete
       post_inv_create split: sum.splits prod.splits)

lemma run_ops_inv:
  "\<forall>x y. H x y \<noteq> [] \<Longrightarrow> be_inv b \<Longrightarrow> run_ops H ops b = Inr b' \<Longrightarrow> be_inv b'"
  by (induction ops arbitrary: b) (auto intro: backend_step_inv split: sum.splits)

lemma run_ops_append:
  "run_ops H (xs @ ys) b = (case run_ops H xs b of Inl e \<Rightarrow> Inl e | Inr b' \<Rightarrow> run_ops H ys b')"
  by (induction xs arbitrary: b) (auto split: sum.splits)

text \<open>The first five steps of the scenario of spec section 8: Alice and Bob register
  (Bob with an email in mixed case), Alice sends Bob a friend request, Bob accepts it,
  Bob posts.\<close>

lemma scenario_setup:
  "run_ops (\<lambda>x y. x @ y)
     [OpRegister ''s1'' ''alice@x.com'' ''pw123456'' ''Alice'' ''A'',
      OpRegister ''s2'' ''Bob@X.com'' ''pw123456'' ''Bob'' ''B'',
      OpSend 0 1, OpRespond 1 0 True, OpCreate 1 ''hello'' None] empty_backend =
   Inr \<lparr>be_auth = \<lparr>cred = \<lparr>users =
        [\<lparr>uid = 0, email = ''alice@x.com'', salt = ''s1'', pw_hash = ''s1pw123456'',
           first_name = ''Alice'', last_name = ''A'', bio = [], avatar = None, updated_at = 0\<rparr>,
         \<lparr>uid = 1, email = ''bob@x.com'', salt = ''s2'', pw_hash = ''s2pw123456'',
           first_name = ''Bob'', last_name = ''B'', bio = [], avatar = None, updated_at = 0\<rparr>]\<rparr>,
        sessions = [], next_token = 0\<rparr>,
      be_graph = \<lparr>rels = [((0, 1), \<lparr>rstatus = Accepted, requester = 0\<rparr>)]\<rparr>,
      be_posts = \<lparr>posts = [\<lparr>pid = 0, author = 1, content = ''hello'', attachment = None,
                            created = 0, likers = []\<rparr>], next_pid = 1\<rparr>,
      be_now = 0\<rparr>"
  by code_simp

end
