(* ===== verification/ProfilePage.thy ===== *)
theory ProfilePage
  imports PageCommon
begin

text \<open>
  The Profile page, \<open>src/project/src/pages/Profile.jsx\<close>.  Its state is the route
  parameter \<open>id\<close>, the signed-in user's token, the \<open>userInfo\<close> and \<open>loading\<close>
  hooks, the \<open>posts\<close> slice of the redux store (which \<open>fetchPosts\<close> overwrites),
  and the asynchronous calls in flight.  Every handler starts a request and
  suspends at its \<open>await\<close>; the pending calls are kept in the order they were made,
  and the network may answer any of them first (\<open>Respond i\<close> answers the
  \<open>i\<close>-th).  A call's continuation is what the handler does after its \<open>await\<close>;
  the continuations of \<open>handleDelete\<close> and \<open>handleLikePost\<close> call \<open>getPosts\<close>,
  which fetches the URI of the render in which the handler was created.
  The helpers \<open>fetchPosts\<close>, \<open>deletePost\<close>, \<open>likePost\<close>, \<open>getUserInfo\<close> live in
  \<open>utils/\<close>, not under \<open>src/\<close>: each is one request whose reply the continuation
  receives (\<open>fetchPosts\<close> stores its reply in the posts slice).
\<close>

datatype profile_call =
    CallUserInfo jsval         \<comment> \<open>\<open>getUserInfo(user?.token, id)\<close>\<close>
  | CallPosts string           \<comment> \<open>\<open>fetchPosts(user.token, dispatch, uri)\<close>\<close>
  | CallDelete jsval string    \<comment> \<open>\<open>deletePost(id, user.token)\<close>, then \<open>getPosts\<close> of that URI\<close>
  | CallLike string string     \<comment> \<open>\<open>likePost({uri, token})\<close>, then \<open>getPosts\<close> of that URI\<close>

record profile_page =
  pf_route_id :: jsval
  pf_token :: jsval
  pf_user_info :: jsval
  pf_posts :: jsval
  pf_loading :: bool
  pf_pending :: "profile_call list"
  pf_sent :: "profile_call list"

datatype profile_event =
    Navigate jsval
  | ClickDelete jsval
  | ClickLike string
  | Respond nat jsval

text \<open>\<open>const uri = "/posts/get-user-post/" + id\<close> (line 21).\<close>

definition profile_uri :: "jsval \<Rightarrow> string" where
  "profile_uri rid = ''/posts/get-user-post/'' @ js_to_string rid"

definition profile_call_start :: "profile_call \<Rightarrow> profile_page \<Rightarrow> profile_page" where
  "profile_call_start c s = s\<lparr>pf_pending := pf_pending s @ [c], pf_sent := pf_sent s @ [c]\<rparr>"

text \<open>The effect of lines 44--48: \<open>setLoading(true); getUser(); getPosts();\<close>.\<close>

definition profile_effect :: "profile_page \<Rightarrow> profile_page" where
  "profile_effect s =
     profile_call_start (CallPosts (profile_uri (pf_route_id s)))
       (profile_call_start (CallUserInfo (pf_route_id s)) (s\<lparr>pf_loading := True\<rparr>))"

text \<open>First render: \<open>userInfo\<close> is \<open>null\<close>, \<open>loading\<close> is \<open>false\<close>, the posts slice
  holds whatever the store had; then the effect runs.\<close>

definition profile_mount :: "jsval \<Rightarrow> jsval \<Rightarrow> jsval \<Rightarrow> profile_page" where
  "profile_mount rid tok posts0 =
     profile_effect \<lparr>pf_route_id = rid, pf_token = tok, pf_user_info = JNull, pf_posts = posts0,
       pf_loading = False, pf_pending = [], pf_sent = []\<rparr>"

text \<open>A new route parameter re-renders the page; the effect runs again only when
  \<open>id\<close> changed (its dependency list is \<open>[id]\<close>).\<close>

definition profile_navigate :: "jsval \<Rightarrow> profile_page \<Rightarrow> profile_page" where
  "profile_navigate rid s =
     (if rid = pf_route_id s then s else profile_effect (s\<lparr>pf_route_id := rid\<rparr>))"

text \<open>\<open>handleDelete\<close> (lines 28--31) and \<open>handleLikePost\<close> (lines 33--37), up to
  their first \<open>await\<close>.\<close>

definition handle_delete :: "jsval \<Rightarrow> profile_page \<Rightarrow> profile_page" where
  "handle_delete pid s = profile_call_start (CallDelete pid (profile_uri (pf_route_id s))) s"

definition handle_like_post :: "string \<Rightarrow> profile_page \<Rightarrow> profile_page" where
  "handle_like_post like_uri s = profile_call_start (CallLike like_uri (profile_uri (pf_route_id s))) s"

text \<open>The continuation of an answered call: \<open>getUser\<close> stores the reply
  (line 41), \<open>getPosts\<close> stores the posts and clears \<open>loading\<close> (lines 24--25),
  \<open>handleDelete\<close> and \<open>handleLikePost\<close> call \<open>getPosts\<close> (lines 30, 36).\<close>

fun profile_continue :: "profile_call \<Rightarrow> jsval \<Rightarrow> profile_page \<Rightarrow> profile_page" where
  "profile_continue (CallUserInfo _) res s = s\<lparr>pf_user_info := res\<rparr>"
| "profile_continue (CallPosts _) res s = s\<lparr>pf_posts := res, pf_loading := False\<rparr>"
| "profile_continue (CallDelete _ u) res s = profile_call_start (CallPosts u) s"
| "profile_continue (CallLike _ u) res s = profile_call_start (CallPosts u) s"

definition remove_nth :: "nat \<Rightarrow> 'a list \<Rightarrow> 'a list" where
  "remove_nth i xs = take i xs @ drop (Suc i) xs"

definition profile_respond :: "nat \<Rightarrow> jsval \<Rightarrow> profile_page \<Rightarrow> profile_page" where
  "profile_respond i res s =
     (if i < length (pf_pending s)
      then profile_continue (pf_pending s ! i) res (s\<lparr>pf_pending := remove_nth i (pf_pending s)\<rparr>)
      else s)"

fun profile_step :: "profile_page \<Rightarrow> profile_event \<Rightarrow> profile_page" where
  "profile_step s (Navigate rid) = profile_navigate rid s"
| "profile_step s (ClickDelete pid) = handle_delete pid s"
| "profile_step s (ClickLike u) = handle_like_post u s"
| "profile_step s (Respond i res) = profile_respond i res s"

definition profile_run :: "profile_page \<Rightarrow> profile_event list \<Rightarrow> profile_page" where
  "profile_run s es = fold (\<lambda>e s. profile_step s e) es s"

text \<open>The centre column (lines 69--85): \<open>loading ? <Loading/> : posts?.length > 0 ?
  posts?.map(...) : "No Post Available"\<close>.  Mapping over a value that has a positive
  length but is not an array (a string) throws; the render is then \<open>None\<close>.\<close>

definition js_positive_length :: "jsval \<Rightarrow> bool" where
  "js_positive_length v = (case js_get v ''length'' of JNum n \<Rightarrow> 0 < n | _ \<Rightarrow> False)"

fun js_array_elems :: "jsval \<Rightarrow> jsval list option" where
  "js_array_elems (JArr xs) = Some xs"
| "js_array_elems _ = None"

definition profile_center :: "profile_page \<Rightarrow> view_node list option" where
  "profile_center s =
     (if pf_loading s then Some [VLoading]
      else if js_positive_length (pf_posts s)
      then map_option (map VPostCard) (js_array_elems (pf_posts s))
      else Some [VText ''No Post Available''])"

text \<open>The whole page (lines 50--94), without styling or responsive visibility:
  top bar, left column, centre column, the text \<open>-\<close> that line 87 renders before
  the right column, and the right column.\<close>

definition profile_view :: "profile_page \<Rightarrow> view_node list option" where
  "profile_view s =
     map_option (\<lambda>c. [VTopBar, VProfileCard (pf_user_info s),
                       VFriendsCard (js_get (pf_user_info s) ''friends''),
                       VProfileCard (pf_user_info s)] @ c @
                     [VText ''-'', VFriendsCard (js_get (pf_user_info s) ''friends'')])
       (profile_center s)"

text \<open>Delivery in order: the network answers the oldest pending call first, each
  with the reply a fixed server \<open>srv\<close> gives to that call.\<close>

inductive profile_fifo :: "(profile_call \<Rightarrow> jsval) \<Rightarrow> profile_page \<Rightarrow> bool" for srv where
  mount: "profile_fifo srv (profile_mount rid tok posts0)"
| navigate: "profile_fifo srv s \<Longrightarrow> profile_fifo srv (profile_navigate rid s)"
| delete: "profile_fifo srv s \<Longrightarrow> profile_fifo srv (handle_delete pid s)"
| like: "profile_fifo srv s \<Longrightarrow> profile_fifo srv (handle_like_post u s)"
| deliver: "profile_fifo srv s \<Longrightarrow> pf_pending s \<noteq> [] \<Longrightarrow>
     profile_fifo srv (profile_respond 0 (srv (hd (pf_pending s))) s)"

text \<open>The route parameters of the pending \<open>getUserInfo\<close> calls, oldest first.\<close>

fun info_ids :: "profile_call list \<Rightarrow> jsval list" where
  "info_ids [] = []"
| "info_ids (CallUserInfo r # cs) = r # info_ids cs"
| "info_ids (_ # cs) = info_ids cs"

definition profile_info_inv :: "(profile_call \<Rightarrow> jsval) \<Rightarrow> profile_page \<Rightarrow> bool" where
  "profile_info_inv srv s =
     ((info_ids (pf_pending s) \<noteq> [] \<longrightarrow> last (info_ids (pf_pending s)) = pf_route_id s) \<and>
      (info_ids (pf_pending s) = [] \<longrightarrow> pf_user_info s = srv (CallUserInfo (pf_route_id s))))"

text \<open>Delivery in any order: the network may answer any pending call, each with the
  reply a fixed server \<open>srv\<close> gives to that call.\<close>

inductive profile_reach :: "(profile_call \<Rightarrow> jsval) \<Rightarrow> profile_page \<Rightarrow> bool" for srv where
  mount: "profile_reach srv (profile_mount rid tok posts0)"
| navigate: "profile_reach srv s \<Longrightarrow> profile_reach srv (profile_navigate rid s)"
| delete: "profile_reach srv s \<Longrightarrow> profile_reach srv (handle_delete pid s)"
| like: "profile_reach srv s \<Longrightarrow> profile_reach srv (handle_like_post u s)"
| deliver: "profile_reach srv s \<Longrightarrow> i < length (pf_pending s) \<Longrightarrow>
     profile_reach srv (profile_respond i (srv (pf_pending s ! i)) s)"

text \<open>Answering the oldest pending call, at most \<open>n\<close> times.\<close>

fun profile_deliver_fifo :: "(profile_call \<Rightarrow> jsval) \<Rightarrow> nat \<Rightarrow> profile_page \<Rightarrow> profile_page" where
  "profile_deliver_fifo srv 0 s = s"
| "profile_deliver_fifo srv (Suc n) s =
     (case pf_pending s of [] \<Rightarrow> s | c # _ \<Rightarrow> profile_deliver_fifo srv n (profile_respond 0 (srv c) s))"

text \<open>The work left in the pending calls: a delete or a like still has its refetch
  to start.\<close>

fun call_weight :: "profile_call \<Rightarrow> nat" where
  "call_weight (CallDelete _ _) = 2"
| "call_weight (CallLike _ _) = 2"
| "call_weight _ = 1"

definition pending_weight :: "profile_page \<Rightarrow> nat" where
  "pending_weight s = sum_list (map call_weight (pf_pending s))"

section \<open>Lemmas\<close>

lemma info_ids_append [simp]: "info_ids (xs @ ys) = info_ids xs @ info_ids ys"
  by (induction xs rule: info_ids.induct) auto

lemma profile_call_start_fields [simp]:
  "pf_route_id (profile_call_start c s) = pf_route_id s"
  "pf_user_info (profile_call_start c s) = pf_user_info s"
  "pf_posts (profile_call_start c s) = pf_posts s"
  "pf_loading (profile_call_start c s) = pf_loading s"
  "pf_pending (profile_call_start c s) = pf_pending s @ [c]"
  by (simp_all add: profile_call_start_def)

lemma profile_respond_head:
  "pf_pending s = c # cs \<Longrightarrow>
     profile_respond 0 res s = profile_continue c res (s\<lparr>pf_pending := cs\<rparr>)"
  by (simp add: profile_respond_def remove_nth_def)

lemma profile_continue_fields:
  "pf_route_id (profile_continue c res s) = pf_route_id s"
  "info_ids (pf_pending (profile_continue c res s)) = info_ids (pf_pending s)"
  "(\<forall>r. c \<noteq> CallUserInfo r) \<Longrightarrow> pf_user_info (profile_continue c res s) = pf_user_info s"
  by (cases c; simp)+

lemma profile_info_inv_effect:
  "profile_info_inv srv (profile_effect s)"
  by (simp add: profile_info_inv_def profile_effect_def)

lemma profile_info_inv_deliver:
  assumes "profile_info_inv srv s" and "pf_pending s = c # cs"
  shows "profile_info_inv srv (profile_respond 0 (srv c) s)"
proof (cases "\<exists>r. c = CallUserInfo r")
  case True
  then obtain r where c: "c = CallUserInfo r" by blast
  show ?thesis
  proof (cases "info_ids cs = []")
    case True
    with assms c have "r = pf_route_id s" by (simp add: profile_info_inv_def)
    with assms(2) c True show ?thesis by (simp add: profile_respond_head profile_info_inv_def)
  next
    case False
    with assms c show ?thesis by (simp add: profile_respond_head profile_info_inv_def)
  qed
next
  case False
  then have "info_ids (c # cs) = info_ids cs" by (cases c) auto
  with assms False show ?thesis
    by (simp add: profile_respond_head profile_info_inv_def profile_continue_fields)
qed

lemma profile_fifo_info_inv: "profile_fifo srv s \<Longrightarrow> profile_info_inv srv s"
proof (induction rule: profile_fifo.induct)
  case (mount rid tok posts0)
  then show ?case by (simp add: profile_mount_def profile_info_inv_effect)
next
  case (navigate s rid)
  then show ?case
    by (auto simp: profile_navigate_def intro: profile_info_inv_effect)
next
  case (delete s pid)
  then show ?case by (simp add: handle_delete_def profile_info_inv_def)
next
  case (like s u)
  then show ?case by (simp add: handle_like_post_def profile_info_inv_def)
next
  case (deliver s)
  then obtain c cs where "pf_pending s = c # cs" by (cases "pf_pending s") auto
  with deliver show ?case using profile_info_inv_deliver by simp
qed

lemmas profile_run_simps = profile_run_def profile_mount_def profile_effect_def
  profile_call_start_def profile_navigate_def profile_respond_def remove_nth_def profile_uri_def
  handle_delete_def handle_like_post_def

lemma sum_list_remove_nth:
  assumes "i < length xs"
  shows "sum_list (map (f :: _ \<Rightarrow> nat) (remove_nth i xs)) + f (xs ! i) = sum_list (map f xs)"
proof -
  have "sum_list (map f xs) = sum_list (map f (take i xs @ xs ! i # drop (Suc i) xs))"
    using id_take_nth_drop [OF assms] by metis
  then show ?thesis by (simp add: remove_nth_def ac_simps)
qed

lemma nth_in_remove_nth:
  assumes "i < length xs" and "j < length xs" and "i \<noteq> j"
  shows "xs ! i \<in> set (remove_nth j xs)"
proof (cases "i < j")
  case True
  then have "take j xs ! i = xs ! i" and "i < length (take j xs)" using assms by simp_all
  then show ?thesis by (metis nth_mem remove_nth_def Un_iff set_append)
next
  case False
  with assms(3) have "j < i" by simp
  then have "drop (Suc j) xs ! (i - Suc j) = xs ! i" and "i - Suc j < length (drop (Suc j) xs)"
    using assms(1) by simp_all
  then show ?thesis by (metis nth_mem remove_nth_def Un_iff set_append)
qed

lemma profile_respond_pending:
  "i < length (pf_pending s) \<Longrightarrow>
     pf_pending (profile_respond i res s) =
       remove_nth i (pf_pending s) @
         (case pf_pending s ! i of CallDelete _ u \<Rightarrow> [CallPosts u] | CallLike _ u \<Rightarrow> [CallPosts u] | _ \<Rightarrow> [])"
  by (cases "pf_pending s ! i") (simp_all add: profile_respond_def)

lemma profile_respond_route [simp]: "pf_route_id (profile_respond i res s) = pf_route_id s"
  by (simp add: profile_respond_def profile_continue_fields)

lemma profile_respond_weight:
  assumes "i < length (pf_pending s)"
  shows "pending_weight (profile_respond i res s) < pending_weight s"
  using sum_list_remove_nth [OF assms, of call_weight] assms
  by (cases "pf_pending s ! i") (simp_all add: pending_weight_def profile_respond_pending)

text \<open>From any state reachable with replies in any order, the network can answer
  every pending call but a chosen one (and the refetches those answers start), leaving
  that call alone pending; the route does not change.\<close>

lemma profile_drain_to:
  assumes "profile_reach srv s" and "c \<in> set (pf_pending s)"
  shows "\<exists>s'. profile_reach srv s' \<and> pf_pending s' = [c] \<and> pf_route_id s' = pf_route_id s"
  using assms
proof (induction s rule: measure_induct_rule [where f = pending_weight])
  case (less s)
  show ?case
  proof (cases "pf_pending s = [c]")
    case True
    with less.prems show ?thesis by blast
  next
    case False
    from less.prems(2) obtain k where k: "k < length (pf_pending s)" "pf_pending s ! k = c"
      by (auto simp: in_set_conv_nth)
    have two: "2 \<le> length (pf_pending s)"
    proof (rule ccontr)
      assume "\<not> 2 \<le> length (pf_pending s)"
      then have "length (pf_pending s) = 1" using k(1) by linarith
      then obtain a where "pf_pending s = [a]" by (auto simp: length_Suc_conv)
      with k have "pf_pending s = [c]" by simp
      with False show False by simp
    qed
    define j where "j = (if k = 0 then 1 else 0 :: nat)"
    have j: "j < length (pf_pending s)" "k \<noteq> j" using two by (auto simp: j_def)
    let ?s1 = "profile_respond j (srv (pf_pending s ! j)) s"
    have r1: "profile_reach srv ?s1" using less.prems(1) j(1) by (rule profile_reach.deliver)
    have c1: "c \<in> set (pf_pending ?s1)"
      using nth_in_remove_nth [OF k(1) j] k(2) j(1) by (simp add: profile_respond_pending)
    have w: "pending_weight ?s1 < pending_weight s" using j(1) by (rule profile_respond_weight)
    from less.IH [OF w r1 c1] show ?thesis by auto
  qed
qed

lemma profile_fifo_deliver_fifo: "profile_fifo srv s \<Longrightarrow> profile_fifo srv (profile_deliver_fifo srv n s)"
proof (induction n arbitrary: s)
  case 0
  then show ?case by simp
next
  case (Suc n)
  show ?case
  proof (cases "pf_pending s")
    case Nil
    with Suc.prems show ?thesis by simp
  next
    case (Cons c cs)
    with profile_fifo.deliver [OF Suc.prems] have "profile_fifo srv (profile_respond 0 (srv c) s)" by simp
    with Cons Suc.IH show ?thesis by simp
  qed
qed

section \<open>Properties\<close>

text \<open>C15: The page can show one user's profile under another user's route.  From
  any state reachable with replies in any order, whenever a \<open>getUserInfo\<close> call for
  a route id \<open>r\<close> is pending, the network can answer the other calls first and this one
  last: the page then settles, nothing pending, at its current route with \<open>r\<close>'s user
  shown.  After a navigation from \<open>a\<close> to \<open>b\<close>, \<open>a\<close>'s call is such a call, and
  no reply is checked against the current \<open>id\<close>.\<close>

theorem profile_stale_response_race:
  assumes "profile_reach srv s" and "CallUserInfo r \<in> set (pf_pending s)"
  shows "\<exists>s'. profile_reach srv s' \<and> pf_pending s' = [] \<and> pf_route_id s' = pf_route_id s \<and>
              pf_user_info s' = srv (CallUserInfo r)"
proof -
  from profile_drain_to [OF assms] obtain s1 where r1: "profile_reach srv s1"
    and p1: "pf_pending s1 = [CallUserInfo r]" and rt: "pf_route_id s1 = pf_route_id s"
    by blast
  let ?s' = "profile_respond 0 (srv (pf_pending s1 ! 0)) s1"
  have "profile_reach srv ?s'" using r1 by (rule profile_reach.deliver) (simp add: p1)
  moreover have "pf_pending ?s' = [] \<and> pf_user_info ?s' = srv (CallUserInfo r)"
    by (simp add: p1 profile_respond_def remove_nth_def)
  ultimately show ?thesis using rt by auto
qed

lemma profile_stale_response_race_witness:
  "\<exists>s'. profile_reach (\<lambda>c. case c of CallUserInfo r \<Rightarrow> JStr (''info of '' @ js_to_string r) | _ \<Rightarrow> JArr []) s' \<and>
     pf_pending s' = [] \<and> pf_route_id s' = JStr ''b'' \<and> pf_user_info s' = JStr ''info of a''"
proof -
  let ?srv = "\<lambda>c. case c of CallUserInfo r \<Rightarrow> JStr (''info of '' @ js_to_string r) | _ \<Rightarrow> JArr []"
  let ?s = "profile_navigate (JStr ''b'') (profile_mount (JStr ''a'') (JStr ''tok'') (JArr []))"
  have "profile_reach ?srv ?s" by (rule profile_reach.navigate [OF profile_reach.mount])
  moreover have "CallUserInfo (JStr ''a'') \<in> set (pf_pending ?s)" by (simp add: profile_run_simps)
  ultimately have "\<exists>s'. profile_reach ?srv s' \<and> pf_pending s' = [] \<and> pf_route_id s' = pf_route_id ?s \<and>
      pf_user_info s' = ?srv (CallUserInfo (JStr ''a''))"
    by (rule profile_stale_response_race)
  then show ?thesis by (simp add: profile_run_simps)
qed

text \<open>C16: When the network answers the pending calls in the order they were made,
  the user shown is always the current route's once no \<open>getUserInfo\<close> call is
  pending, whatever navigations, deletes and likes happened: the race of C15
  needs replies out of order.\<close>

theorem profile_fifo_user_info_current:
  assumes "profile_fifo srv s" and "info_ids (pf_pending s) = []"
  shows "pf_user_info s = srv (CallUserInfo (pf_route_id s))"
  using profile_fifo_info_inv [OF assms(1)] assms(2) by (simp add: profile_info_inv_def)

lemma profile_fifo_user_info_current_witness:
  "pf_user_info (profile_respond 0 (JStr ''info of a'')
     (profile_mount (JStr ''a'') (JStr ''tok'') (JArr []))) = JStr ''info of a''"
proof -
  let ?srv = "\<lambda>c. case c of CallUserInfo r \<Rightarrow> JStr (''info of '' @ js_to_string r) | _ \<Rightarrow> JArr []"
  let ?s0 = "profile_mount (JStr ''a'') (JStr ''tok'') (JArr [])"
  have m: "profile_fifo ?srv ?s0" by (rule profile_fifo.mount)
  have ne: "pf_pending ?s0 \<noteq> []" by (simp add: profile_run_simps)
  have h: "?srv (hd (pf_pending ?s0)) = JStr ''info of a''" by (simp add: profile_run_simps)
  from profile_fifo.deliver [OF m ne] h have f: "profile_fifo ?srv (profile_respond 0 (JStr ''info of a'') ?s0)"
    by simp
  have e: "info_ids (pf_pending (profile_respond 0 (JStr ''info of a'') ?s0)) = []"
    by (simp add: profile_run_simps)
  from profile_fifo_user_info_current [OF f e] show ?thesis by (simp add: profile_run_simps)
qed

text \<open>C17: Even with replies in order, a delete started on one profile refetches that
  profile's posts after the user has moved on: the refetch URI is the one of the
  render in which \<open>handleDelete\<close> was created.  From any settled page reachable with
  in-order replies, at route \<open>x\<close>, a delete followed by a navigation to another route
  \<open>y\<close> settles, still with in-order replies, on \<open>y\<close>'s user and \<open>x\<close>'s posts.\<close>

theorem profile_delete_refetch_stale:
  assumes "profile_fifo srv s" and "pf_pending s = []" and "pf_route_id s = JStr x" and "y \<noteq> x"
  shows "let s' = profile_deliver_fifo srv 4 (profile_navigate (JStr y) (handle_delete v s)) in
           profile_fifo srv s' \<and> pf_pending s' = [] \<and> \<not> pf_loading s' \<and> pf_route_id s' = JStr y \<and>
           pf_user_info s' = srv (CallUserInfo (JStr y)) \<and>
           pf_posts s' = srv (CallPosts (profile_uri (JStr x))) \<and>
           profile_uri (JStr x) \<noteq> profile_uri (JStr y)"
proof -
  have "profile_fifo srv (profile_navigate (JStr y) (handle_delete v s))"
    by (rule profile_fifo.navigate [OF profile_fifo.delete [OF assms(1)]])
  then have "profile_fifo srv (profile_deliver_fifo srv 4 (profile_navigate (JStr y) (handle_delete v s)))"
    by (rule profile_fifo_deliver_fifo)
  moreover have "profile_uri (JStr x) \<noteq> profile_uri (JStr y)"
    using assms(4) by (simp add: profile_uri_def)
  ultimately show ?thesis
    using assms(2-4) by (simp add: Let_def eval_nat_numeral profile_run_simps)
qed

lemma profile_delete_refetch_stale_witness:
  "pf_posts (profile_deliver_fifo (\<lambda>c. case c of CallPosts u \<Rightarrow> JStr u | _ \<Rightarrow> JNull) 4
     (profile_navigate (JStr ''b'') (handle_delete (JNum 7)
        (profile_deliver_fifo (\<lambda>c. case c of CallPosts u \<Rightarrow> JStr u | _ \<Rightarrow> JNull) 2
           (profile_mount (JStr ''a'') (JStr ''tok'') (JArr [])))))) = JStr ''/posts/get-user-post/a''"
proof -
  let ?srv = "\<lambda>c. case c of CallPosts u \<Rightarrow> JStr u | _ \<Rightarrow> JNull"
  let ?s = "profile_deliver_fifo ?srv 2 (profile_mount (JStr ''a'') (JStr ''tok'') (JArr []))"
  have "profile_fifo ?srv ?s" by (rule profile_fifo_deliver_fifo [OF profile_fifo.mount])
  moreover have "pf_pending ?s = []" by (simp add: eval_nat_numeral profile_run_simps)
  moreover have "pf_route_id ?s = JStr ''a''" by (simp add: eval_nat_numeral profile_run_simps)
  moreover have "''b'' \<noteq> ''a''" by simp
  ultimately have "let s' = profile_deliver_fifo ?srv 4 (profile_navigate (JStr ''b'') (handle_delete (JNum 7) ?s)) in
           profile_fifo ?srv s' \<and> pf_pending s' = [] \<and> \<not> pf_loading s' \<and> pf_route_id s' = JStr ''b'' \<and>
           pf_user_info s' = ?srv (CallUserInfo (JStr ''b'')) \<and>
           pf_posts s' = ?srv (CallPosts (profile_uri (JStr ''a''))) \<and>
           profile_uri (JStr ''a'') \<noteq> profile_uri (JStr ''b'')"
    by (rule profile_delete_refetch_stale)
  then show ?thesis by (simp add: Let_def profile_uri_def)
qed

end
