(* ===== verification/ProfileSystem.thy ===== *)
theory ProfileSystem
  imports Backend ProfilePage LoginPage
begin

text \<open>
  The Profile page against the backend.  The four calls of \<open>Profile.jsx\<close> go through
  helpers of \<open>utils/\<close> and routes of the server that are not under \<open>src/\<close>; they are
  modelled from the spec (section 6: the token travels with the request, replies are
  JSON objects, a failure is \<open>{status: "failed", message}\<close>).  \<open>serve\<close> is the
  server's answer to one call, with the backend state it leaves: every call is first
  authenticated with the page's token; \<open>getUserInfo\<close> answers the user of the route
  id with the friend list of the Social Graph, \<open>fetchPosts\<close> the posts of the user
  named in the URI (newest first, from the Post Store), \<open>deletePost\<close> and
  \<open>likePost\<close> run the Feed Composer's delete and like for the authenticated user.
  Identifiers travel as decimal strings, parsed by \<open>parse_nat\<close>.

  \<open>sys_reach\<close> is the closed system: the page's handlers, the delivery of any
  pending call (replies in any order), and any operation of other clients on the
  backend, interleaved.  \<open>sys_deliver\<close> answers the oldest pending call, a given
  number of times.
\<close>

section \<open>Transport\<close>

definition is_digit :: "char \<Rightarrow> bool" where
  "is_digit c = (48 \<le> (of_char c :: nat) \<and> (of_char c :: nat) \<le> 57)"

definition parse_nat :: "string \<Rightarrow> nat option" where
  "parse_nat s =
     (if s \<noteq> [] \<and> list_all is_digit s
      then Some (foldl (\<lambda>n c. 10 * n + (of_char c - 48)) 0 s) else None)"

definition strip_prefix :: "string \<Rightarrow> string \<Rightarrow> string option" where
  "strip_prefix p s = (if take (length p) s = p then Some (drop (length p) s) else None)"

text \<open>A number in a request: a non-negative JSON number or a decimal string.\<close>

definition js_nat :: "jsval \<Rightarrow> nat option" where
  "js_nat v = (case v of JNum n \<Rightarrow> if 0 \<le> n then Some (nat n) else None | JStr s \<Rightarrow> parse_nat s | _ \<Rightarrow> None)"

definition uri_user :: "string \<Rightarrow> user_id option" where
  "uri_user u = Option.bind (strip_prefix ''/posts/get-user-post/'' u) parse_nat"

text \<open>The like URI a post card passes to \<open>handleLikePost\<close>, and its parse.\<close>

definition like_uri :: "post_id \<Rightarrow> string" where
  "like_uri i = ''/posts/like/'' @ digits10 i"

definition like_uri_post :: "string \<Rightarrow> post_id option" where
  "like_uri_post u = Option.bind (strip_prefix ''/posts/like/'' u) parse_nat"

section \<open>Replies\<close>

definition post_json :: "post \<Rightarrow> jsval" where
  "post_json p = JObj [(''_id'', JNum (int (pid p))), (''userId'', JNum (int (author p))),
                       (''content'', JStr (content p)), (''likes'', JArr (map (\<lambda>u. JNum (int u)) (likers p)))]"

definition profile_json :: "cred_store \<Rightarrow> graph \<Rightarrow> user_id \<Rightarrow> jsval" where
  "profile_json cs g u =
     JObj (js_own_props (user_json (users cs ! u)) @
           [(''friends'', JArr (map (\<lambda>v. user_json (users cs ! v)) (list_friends u g)))])"

definition ack_reply :: jsval where
  "ack_reply = JObj [(''success'', JStr ''success'')]"

definition with_session :: "jsval \<Rightarrow> backend \<Rightarrow> (user_id \<Rightarrow> jsval \<times> backend) \<Rightarrow> jsval \<times> backend" where
  "with_session tok b f =
     (case js_nat tok of
        None \<Rightarrow> (failed_reply InvalidToken, b)
      | Some t \<Rightarrow> (case authenticate t (be_now b) (be_auth b) of Inl e \<Rightarrow> (failed_reply e, b) | Inr r \<Rightarrow> f r))"

definition store_reply :: "backend \<Rightarrow> post_store result \<Rightarrow> jsval \<times> backend" where
  "store_reply b r = (case r of Inl e \<Rightarrow> (failed_reply e, b) | Inr ps' \<Rightarrow> (ack_reply, b\<lparr>be_posts := ps'\<rparr>))"

fun serve :: "jsval \<Rightarrow> backend \<Rightarrow> profile_call \<Rightarrow> jsval \<times> backend" where
  "serve tok b (CallUserInfo rid) = with_session tok b (\<lambda>r.
     (case js_nat rid of
        Some u \<Rightarrow> if user_exists (be_cred b) u then (profile_json (be_cred b) (be_graph b) u, b)
                  else (failed_reply NotFound, b)
      | None \<Rightarrow> (failed_reply NotFound, b)))"
| "serve tok b (CallPosts uri) = with_session tok b (\<lambda>r.
     (case uri_user uri of
        Some u \<Rightarrow> (JArr (map post_json (list_by_author u (be_posts b))), b)
      | None \<Rightarrow> (failed_reply NotFound, b)))"
| "serve tok b (CallDelete v uri) = with_session tok b (\<lambda>r.
     (case js_nat v of
        None \<Rightarrow> (failed_reply NotFound, b)
      | Some i \<Rightarrow> store_reply b (delete_from_feed i r (be_posts b))))"
| "serve tok b (CallLike lu uri) = with_session tok b (\<lambda>r.
     (case like_uri_post lu of
        None \<Rightarrow> (failed_reply NotFound, b)
      | Some i \<Rightarrow> store_reply b (like_on_feed i r (be_graph b) (be_posts b))))"

section \<open>The closed system\<close>

inductive sys_reach :: "hasher \<Rightarrow> jsval \<Rightarrow> backend \<times> profile_page \<Rightarrow> bool" for H tok where
  init: "sys_reach H tok (empty_backend, profile_mount rid tok posts0)"
| remount: "sys_reach H tok (b, s) \<Longrightarrow> sys_reach H tok (b, profile_mount rid tok posts0)"
| env: "sys_reach H tok (b, s) \<Longrightarrow> backend_step H op b = Inr b' \<Longrightarrow> sys_reach H tok (b', s)"
| navigate: "sys_reach H tok (b, s) \<Longrightarrow> sys_reach H tok (b, profile_navigate rid s)"
| delete: "sys_reach H tok (b, s) \<Longrightarrow> sys_reach H tok (b, handle_delete v s)"
| like: "sys_reach H tok (b, s) \<Longrightarrow> sys_reach H tok (b, handle_like_post u s)"
| deliver: "sys_reach H tok (b, s) \<Longrightarrow> i < length (pf_pending s) \<Longrightarrow>
     serve tok b (pf_pending s ! i) = (res, b') \<Longrightarrow> sys_reach H tok (b', profile_respond i res s)"

fun sys_deliver :: "jsval \<Rightarrow> nat \<Rightarrow> backend \<times> profile_page \<Rightarrow> backend \<times> profile_page" where
  "sys_deliver tok 0 bs = bs"
| "sys_deliver tok (Suc n) (b, s) =
     (case pf_pending s of
        [] \<Rightarrow> (b, s)
      | c # _ \<Rightarrow> (case serve tok b c of (res, b') \<Rightarrow> sys_deliver tok n (b', profile_respond 0 res s)))"

text \<open>The ids of the friends a profile shows: \<open>userInfo?.friends\<close>, each friend's \<open>_id\<close>.\<close>

definition shown_friend_ids :: "jsval \<Rightarrow> jsval list" where
  "shown_friend_ids v = (case js_get v ''friends'' of JArr xs \<Rightarrow> map (\<lambda>x. js_get x ''_id'') xs | _ \<Rightarrow> [])"

text \<open>A concrete backend for the witnesses: the scenario of spec section 8 after its
  friendship step and Bob's post (Alice is user 0, Bob user 1, both signed in with
  tokens 0 and 1), and Bob's profile page with nothing pending.\<close>

definition demo_backend :: backend where
  "demo_backend =
     \<lparr>be_auth = \<lparr>cred = \<lparr>users =
        [\<lparr>uid = 0, email = ''alice@x.com'', salt = ''s1'', pw_hash = ''s1pw123456'',
           first_name = ''Alice'', last_name = ''A'', bio = [], avatar = None, updated_at = 0\<rparr>,
         \<lparr>uid = 1, email = ''bob@x.com'', salt = ''s2'', pw_hash = ''s2pw123456'',
           first_name = ''Bob'', last_name = ''B'', bio = [], avatar = None, updated_at = 0\<rparr>]\<rparr>,
        sessions = [(0, \<lparr>sess_user = 0, expires_at = 100\<rparr>), (1, \<lparr>sess_user = 1, expires_at = 100\<rparr>)],
        next_token = 2\<rparr>,
      be_graph = \<lparr>rels = [((0, 1), \<lparr>rstatus = Accepted, requester = 0\<rparr>)]\<rparr>,
      be_posts = \<lparr>posts = [\<lparr>pid = 0, author = 1, content = ''hello'', attachment = None,
                            created = 0, likers = []\<rparr>], next_pid = 1\<rparr>,
      be_now = 0\<rparr>"

definition bob_profile :: profile_page where
  "bob_profile = \<lparr>pf_route_id = JStr ''1'', pf_token = JNum 1, pf_user_info = JNull, pf_posts = JArr [],
     pf_loading = False, pf_pending = [], pf_sent = []\<rparr>"

section \<open>Lemmas\<close>

lemma digits10_parse:
  "list_all is_digit (digits10 n) \<and> foldl (\<lambda>m c. 10 * m + (of_char c - 48)) 0 (digits10 n) = n"
proof (induction n rule: digits10.induct)
  case (1 n)
  show ?case
  proof (cases "n < 10")
    case True
    then show ?thesis by (simp add: digits10.simps [of n] is_digit_def)
  next
    case False
    then have "n mod 10 < 10" by simp
    with False "1.IH" show ?thesis by (simp add: digits10.simps [of n] is_digit_def)
  qed
qed

lemma parse_nat_digits10 [simp]: "parse_nat (digits10 n) = Some n"
  using digits10_parse [of n] digits10_hd_digit [of n] by (auto simp: parse_nat_def)

lemma strip_prefix_append [simp]: "strip_prefix p (p @ s) = Some s"
  by (simp add: strip_prefix_def)

lemma js_nat_int [simp]: "js_nat (JNum (int n)) = Some n"
  by (simp add: js_nat_def)

lemma js_nat_digits [simp]: "js_nat (JStr (digits10 n)) = Some n"
  by (simp add: js_nat_def)

lemma uri_user_profile_uri [simp]: "uri_user (profile_uri (JStr (digits10 u))) = Some u"
  by (simp only: uri_user_def profile_uri_def js_to_string.simps strip_prefix_append) simp

lemma like_uri_post_like_uri [simp]: "like_uri_post (like_uri i) = Some i"
  by (simp only: like_uri_post_def like_uri_def strip_prefix_append) simp

lemma with_session_Inr [simp]:
  "js_nat tok = Some t \<Longrightarrow> authenticate t (be_now b) (be_auth b) = Inr r \<Longrightarrow> with_session tok b f = f r"
  by (simp add: with_session_def)

lemma with_session_Inl [simp]:
  "js_nat tok = Some t \<Longrightarrow> authenticate t (be_now b) (be_auth b) = Inl e \<Longrightarrow>
     with_session tok b f = (failed_reply e, b)"
  by (simp add: with_session_def)

text \<open>A served call changes the backend only through the post store, by a delete or a
  like of the authenticated user.\<close>

lemma serve_effect:
  assumes "serve tok b c = (res, b')"
  shows "b' = b \<or>
         (\<exists>t r ps'. js_nat tok = Some t \<and> authenticate t (be_now b) (be_auth b) = Inr r \<and>
            b' = b\<lparr>be_posts := ps'\<rparr> \<and>
            ((\<exists>v uri i. c = CallDelete v uri \<and> js_nat v = Some i \<and> delete_from_feed i r (be_posts b) = Inr ps') \<or>
             (\<exists>lu uri i. c = CallLike lu uri \<and> like_uri_post lu = Some i \<and>
                like_on_feed i r (be_graph b) (be_posts b) = Inr ps')))"
  using assms
  by (cases c) (auto simp: with_session_def store_reply_def split: option.splits sum.splits if_splits)

lemma serve_be_inv: "be_inv b \<Longrightarrow> serve tok b c = (res, b') \<Longrightarrow> be_inv b'"
  by (drule serve_effect) (auto simp: be_inv_def delete_from_feed_def
      intro: post_inv_delete like_on_feed_post_inv)

lemma pids_update_likers [simp]: "pid ` set (posts (update_likers i f ps)) = pid ` set (posts ps)"
  by (metis map_pid_update_likers set_map)

lemma update_likers_add_liker_twice [simp]:
  "update_likers i (add_liker u) (update_likers i (add_liker u) ps) = update_likers i (add_liker u) ps"
  by (simp add: update_likers_comp comp_def)

lemma are_friends_user_exists:
  "graph_inv cs g \<Longrightarrow> are_friends a c g \<Longrightarrow> user_exists cs a \<and> user_exists cs c"
  by (auto simp: are_friends_def graph_inv_def pair_key_def min_def max_def
      split: option.splits if_splits dest!: map_of_SomeD)

lemma user_json_id:
  "cred_inv cs \<Longrightarrow> user_exists cs v \<Longrightarrow> js_get (user_json (users cs ! v)) ''_id'' = JNum (int v)"
  by (simp add: user_json_def cred_inv_def user_exists_def)

lemma shown_friend_ids_profile_json:
  assumes "cred_inv cs" and "graph_inv cs g"
  shows "shown_friend_ids (profile_json cs g a) = map (\<lambda>v. JNum (int v)) (list_friends a g)"
proof -
  have "\<forall>v \<in> set (list_friends a g). user_exists cs v"
    using list_friends_are_friends [OF assms(2)] are_friends_user_exists [OF assms(2)] by blast
  then show ?thesis using assms(1)
    by (simp add: shown_friend_ids_def profile_json_def user_json_def map_of_append cred_inv_def
        user_exists_def)
qed

lemma sys_reach_be_inv_aux:
  "sys_reach H tok bs \<Longrightarrow> \<forall>x y. H x y \<noteq> [] \<Longrightarrow> be_inv (fst bs)"
  by (induction rule: sys_reach.induct) (auto simp: be_inv_empty intro: backend_step_inv serve_be_inv)

lemma be_inv_demo: "be_inv demo_backend"
proof -
  have "normalize_email ''alice@x.com'' = ''alice@x.com'' \<and> normalize_email ''bob@x.com'' = ''bob@x.com''"
    by code_simp
  then show ?thesis by (simp add: demo_backend_def be_inv_def auth_inv_def cred_inv_def graph_inv_def post_inv_def
      user_exists_def nth_Cons')
qed

lemma failed_reply_no_friends [simp]: "shown_friend_ids (failed_reply e) = []"
  by (simp add: shown_friend_ids_def failed_reply_def)

lemma mount_user_info:
  assumes "js_nat tok = Some t" and "authenticate t (be_now b) (be_auth b) = Inr r"
  shows "pf_user_info (snd (sys_deliver tok 1 (b, profile_mount (JStr (digits10 a)) tok p0))) =
           (if user_exists (be_cred b) a then profile_json (be_cred b) (be_graph b) a
            else failed_reply NotFound)"
  using assms by (simp add: profile_mount_def profile_effect_def profile_call_start_def
      profile_respond_def remove_nth_def)

lemma friends_shown_iff:
  assumes "be_inv b" and "js_nat tok = Some t" and "authenticate t (be_now b) (be_auth b) = Inr r"
  shows "(JNum (int c) \<in> set (shown_friend_ids
            (pf_user_info (snd (sys_deliver tok 1 (b, profile_mount (JStr (digits10 a)) tok p0)))))) =
         are_friends a c (be_graph b)"
proof -
  from assms(1) have ci: "cred_inv (be_cred b)" and gi: "graph_inv (be_cred b) (be_graph b)"
    by (simp_all add: be_inv_def auth_inv_def)
  show ?thesis
  proof (cases "user_exists (be_cred b) a")
    case True
    then show ?thesis using mount_user_info [OF assms(2,3)]
      by (auto simp: shown_friend_ids_profile_json [OF ci gi] list_friends_are_friends [OF gi])
  next
    case False
    then show ?thesis using mount_user_info [OF assms(2,3)] are_friends_user_exists [OF gi] by auto
  qed
qed

lemma digits10_small: "digits10 0 = ''0''" "digits10 (Suc 0) = ''1''"
  by code_simp+

section \<open>Properties\<close>

text \<open>C18: Whatever the Profile page does and whatever other clients do in between, every backend state the closed system reaches keeps the invariants of the Authenticator, the Social Graph and the Post Store, provided the hash never yields the empty string.\<close>

theorem sys_reach_be_inv:
  assumes "\<forall>x y. H x y \<noteq> []" and "sys_reach H tok (b, s)"
  shows "be_inv b"
  using sys_reach_be_inv_aux [OF assms(2,1)] by simp

lemma sys_reach_be_inv_witness:
  "be_inv (fst (empty_backend, profile_mount (JStr ''0'') (JNum 0) (JArr [])))"
proof -
  have "sys_reach (\<lambda>x y. ''h'' @ x @ y) (JNum 0) (empty_backend, profile_mount (JStr ''0'') (JNum 0) (JArr []))"
    by (rule sys_reach.init)
  then show ?thesis using sys_reach_be_inv [of "\<lambda>x y. ''h'' @ x @ y"] by simp
qed

text \<open>C19: A call of the Profile page removes a post from the store only if the page's token authenticates the author of that post: \<open>handleDelete\<close> cannot delete another user's post, and no other call removes posts.\<close>

theorem serve_removes_only_own:
  assumes "serve tok b c = (res, b')" and "i \<in> pid ` set (posts (be_posts b))"
    and "i \<notin> pid ` set (posts (be_posts b'))"
  shows "\<exists>t p. js_nat tok = Some t \<and> find_post (be_posts b) i = Some p \<and>
           authenticate t (be_now b) (be_auth b) = Inr (author p)"
proof -
  from assms(2,3) have "be_posts b' \<noteq> be_posts b" by auto
  with serve_effect [OF assms(1)] obtain t r v uri j where
    "js_nat tok = Some t" and "authenticate t (be_now b) (be_auth b) = Inr r"
    and del: "delete_from_feed j r (be_posts b) = Inr (be_posts b')"
    using assms(2,3) by (auto simp: like_on_feed_Inr)
  moreover from del obtain p where "find_post (be_posts b) j = Some p" and "author p = r"
    and "posts (be_posts b') = filter (\<lambda>q. pid q \<noteq> j) (posts (be_posts b))"
    by (auto simp: delete_from_feed_def delete_post_Inr)
  moreover with assms(2,3) have "j = i" by force
  ultimately show ?thesis by blast
qed

lemma serve_removes_only_own_witness:
  "\<exists>t p. js_nat (JNum 1) = Some t \<and> find_post (be_posts demo_backend) 0 = Some p \<and>
     authenticate t (be_now demo_backend) (be_auth demo_backend) = Inr (author p)"
proof -
  let ?r = "serve (JNum 1) demo_backend (CallDelete (JNum 0) ''/posts/get-user-post/1'')"
  have "?r = (fst ?r, snd ?r)" by simp
  moreover have "0 \<in> pid ` set (posts (be_posts demo_backend))" by (simp add: demo_backend_def)
  moreover have "0 \<notin> pid ` set (posts (be_posts (snd ?r)))"
    by (simp add: demo_backend_def js_nat_def authenticate_def store_reply_def delete_from_feed_def
        delete_post_def find_post_def)
  ultimately show ?thesis by (rule serve_removes_only_own)
qed

text \<open>C20: On the signed-in user's own profile, with replies in order, \<open>handleDelete\<close> of one of their posts deletes it from the store and, once its refetch is answered, the page shows exactly the store's posts of that user, newest first, without the deleted one, with nothing pending and not loading.\<close>

theorem profile_delete_own_post_gone:
  assumes "pf_pending s = []" and "pf_route_id s = JStr (digits10 u)"
    and "js_nat tok = Some t" and "authenticate t (be_now b) (be_auth b) = Inr u"
    and "find_post (be_posts b) i = Some p" and "author p = u"
  shows "let (b', s') = sys_deliver tok 2 (b, handle_delete (JNum (int i)) s) in
           delete_post i u (be_posts b) = Inr (be_posts b') \<and>
           pf_posts s' = JArr (map post_json (list_by_author u (be_posts b'))) \<and>
           (\<forall>q \<in> set (list_by_author u (be_posts b')). pid q \<noteq> i) \<and>
           pf_pending s' = [] \<and> \<not> pf_loading s'"
  using assms
  by (simp add: eval_nat_numeral handle_delete_def profile_call_start_def profile_respond_def
      remove_nth_def store_reply_def delete_from_feed_def delete_post_def list_by_author_def)

lemma profile_delete_own_post_gone_witness:
  "pf_posts (snd (sys_deliver (JNum 1) 2 (demo_backend, handle_delete (JNum 0) bob_profile))) = JArr [] \<and>
   posts (be_posts (fst (sys_deliver (JNum 1) 2 (demo_backend, handle_delete (JNum 0) bob_profile)))) = []"
proof -
  obtain b' s' where R: "sys_deliver (JNum 1) 2 (demo_backend, handle_delete (JNum 0) bob_profile) = (b', s')"
    by (cases "sys_deliver (JNum 1) 2 (demo_backend, handle_delete (JNum 0) bob_profile)")
  have "let (b', s') = sys_deliver (JNum 1) 2 (demo_backend, handle_delete (JNum (int 0)) bob_profile) in
           delete_post 0 1 (be_posts demo_backend) = Inr (be_posts b') \<and>
           pf_posts s' = JArr (map post_json (list_by_author 1 (be_posts b'))) \<and>
           (\<forall>q \<in> set (list_by_author 1 (be_posts b')). pid q \<noteq> 0) \<and>
           pf_pending s' = [] \<and> \<not> pf_loading s'"
    by (rule profile_delete_own_post_gone [where t = 1 and
          p = "\<lparr>pid = 0, author = 1, content = ''hello'', attachment = None, created = 0, likers = []\<rparr>"])
       (simp_all add: bob_profile_def demo_backend_def digits10_small js_nat_def authenticate_def find_post_def)
  then have d: "delete_post 0 1 (be_posts demo_backend) = Inr (be_posts b')"
    and p: "pf_posts s' = JArr (map post_json (list_by_author 1 (be_posts b')))"
    by (simp_all add: R)
  from d have "be_posts b' = \<lparr>posts = [], next_pid = 1\<rparr>"
    by (simp add: demo_backend_def delete_post_def find_post_def)
  with p R show ?thesis by (simp add: list_by_author_def newest_first_def)
qed

text \<open>C21: Clicking like twice on a post the user may like (their own or a friend's), with replies in order, leaves the store as one like does: the user is added to the likers once; the page ends showing the author's posts from that store.\<close>

theorem profile_like_twice_once:
  assumes "pf_pending s = []" and "pf_route_id s = JStr (digits10 (author p))"
    and "js_nat tok = Some t" and "authenticate t (be_now b) (be_auth b) = Inr u"
    and "find_post (be_posts b) i = Some p" and "feed_visible u (be_graph b) p"
  shows "let (b', s') = sys_deliver tok 4 (b, handle_like_post (like_uri i) (handle_like_post (like_uri i) s)) in
           be_posts b' = update_likers i (add_liker u) (be_posts b) \<and>
           pf_posts s' = JArr (map post_json (list_by_author (author p) (be_posts b'))) \<and>
           pf_pending s' = [] \<and> \<not> pf_loading s'"
  using assms
  by (simp add: eval_nat_numeral handle_like_post_def profile_call_start_def profile_respond_def
      remove_nth_def store_reply_def like_on_feed_def like_post_def feed_visible_def)

lemma profile_like_twice_once_witness:
  "be_posts (fst (sys_deliver (JNum 0) 4 (demo_backend,
      handle_like_post (like_uri 0) (handle_like_post (like_uri 0) bob_profile)))) =
   \<lparr>posts = [\<lparr>pid = 0, author = 1, content = ''hello'', attachment = None, created = 0, likers = [0]\<rparr>],
    next_pid = 1\<rparr>"
proof -
  let ?p = "\<lparr>pid = 0, author = 1, content = ''hello'', attachment = None, created = 0, likers = []\<rparr>"
  have "let (b', s') = sys_deliver (JNum 0) 4 (demo_backend,
            handle_like_post (like_uri 0) (handle_like_post (like_uri 0) bob_profile)) in
           be_posts b' = update_likers 0 (add_liker 0) (be_posts demo_backend) \<and>
           pf_posts s' = JArr (map post_json (list_by_author (author ?p) (be_posts b'))) \<and>
           pf_pending s' = [] \<and> \<not> pf_loading s'"
    by (rule profile_like_twice_once [where t = 0 and p = ?p])
       (simp_all add: bob_profile_def demo_backend_def digits10_small js_nat_def authenticate_def
        find_post_def feed_visible_def are_friends_def pair_key_def)
  then show ?thesis
    by (simp add: split_beta Let_def demo_backend_def update_likers_def add_liker_def)
qed

text \<open>C22: Friendship is shown symmetrically: once its \<open>getUserInfo\<close> reply arrives, the profile of \<open>a\<close> lists \<open>c\<close> among its friends exactly when \<open>a\<close> and \<open>c\<close> are friends in the Social Graph, and then the profile of \<open>c\<close> lists \<open>a\<close>.\<close>

theorem profile_friends_symmetric:
  assumes "be_inv b" and "js_nat tok = Some t" and "authenticate t (be_now b) (be_auth b) = Inr r"
  shows "(JNum (int c) \<in> set (shown_friend_ids
            (pf_user_info (snd (sys_deliver tok 1 (b, profile_mount (JStr (digits10 a)) tok p0)))))) =
           are_friends a c (be_graph b) \<and>
         (JNum (int a) \<in> set (shown_friend_ids
            (pf_user_info (snd (sys_deliver tok 1 (b, profile_mount (JStr (digits10 c)) tok p0)))))) =
           are_friends a c (be_graph b)"
  using friends_shown_iff [OF assms, of c a] friends_shown_iff [OF assms, of a c] are_friends_sym
  by blast

lemma profile_friends_symmetric_witness:
  "JNum 1 \<in> set (shown_friend_ids
      (pf_user_info (snd (sys_deliver (JNum 0) 1 (demo_backend, profile_mount (JStr ''0'') (JNum 0) (JArr []))))))"
proof -
  have "are_friends 0 1 (be_graph demo_backend)"
    by (simp add: demo_backend_def are_friends_def pair_key_def)
  moreover have "authenticate 0 (be_now demo_backend) (be_auth demo_backend) = Inr 0"
    by (simp add: demo_backend_def authenticate_def)
  moreover have "js_nat (JNum 0) = Some 0" by (simp add: js_nat_def)
  moreover have "digits10 0 = ''0''" by code_simp
  ultimately show ?thesis
    using profile_friends_symmetric [OF be_inv_demo, of "JNum 0" 0 0 1 0 "JArr []"] by simp
qed

text \<open>C23: With a token that does not authenticate, every call of the page is refused with a failed reply carrying the Authenticator's error, the backend is unchanged, the posts column shows "No Post Available" and no friend is shown.\<close>

theorem profile_session_refused:
  assumes "js_nat tok = Some t" and "authenticate t (be_now b) (be_auth b) = Inl e"
  shows "serve tok b c = (failed_reply e, b) \<and>
         profile_center (profile_continue (CallPosts uri) (failed_reply e) s) =
           Some [VText ''No Post Available''] \<and>
         shown_friend_ids (failed_reply e) = []"
  using assms by (cases c) (simp_all add: profile_center_def js_positive_length_def failed_reply_def shown_friend_ids_def)

lemma profile_session_refused_witness:
  "serve (JNum 5) demo_backend (CallPosts ''/posts/get-user-post/1'') = (failed_reply InvalidToken, demo_backend)"
proof -
  have "authenticate 5 (be_now demo_backend) (be_auth demo_backend) = Inl InvalidToken"
    by (simp add: demo_backend_def authenticate_def)
  moreover have "js_nat (JNum 5) = Some 5" by (simp add: js_nat_def)
  ultimately show ?thesis using profile_session_refused by blast
qed

end
