(* ===== verification/EndToEnd.thy ===== *)
theory EndToEnd
  imports ProfileSystem
begin

text \<open>
  Properties that follow a user across pages and the backend: signing in on the
  Login page and opening the Profile page with the token the Login page stored, and
  the scenario of spec section 8 driven through the backend's operations and viewed
  on the Profile page.
\<close>

section \<open>Lemmas\<close>

lemma deliver_mount:
  assumes "js_nat tok = Some t" and "authenticate t (be_now b) (be_auth b) = Inr r"
    and "user_exists (be_cred b) a"
  shows "fst (sys_deliver tok 2 (b, profile_mount (JStr (digits10 a)) tok p0)) = b \<and>
         pf_posts (snd (sys_deliver tok 2 (b, profile_mount (JStr (digits10 a)) tok p0))) =
           JArr (map post_json (list_by_author a (be_posts b))) \<and>
         pf_pending (snd (sys_deliver tok 2 (b, profile_mount (JStr (digits10 a)) tok p0))) = [] \<and>
         pf_route_id (snd (sys_deliver tok 2 (b, profile_mount (JStr (digits10 a)) tok p0))) = JStr (digits10 a)"
  using assms
  by (simp add: eval_nat_numeral profile_mount_def profile_effect_def profile_call_start_def
      profile_respond_def remove_nth_def)

lemma deliver_like:
  assumes "pf_pending s = []" and "pf_route_id s = JStr (digits10 a)"
    and "js_nat tok = Some t" and "authenticate t (be_now b) (be_auth b) = Inr u"
    and "like_on_feed i u (be_graph b) (be_posts b) = Inr ps'"
  shows "fst (sys_deliver tok 2 (b, handle_like_post (like_uri i) s)) = b\<lparr>be_posts := ps'\<rparr> \<and>
         pf_posts (snd (sys_deliver tok 2 (b, handle_like_post (like_uri i) s))) =
           JArr (map post_json (list_by_author a ps'))"
  using assms
  by (simp add: eval_nat_numeral handle_like_post_def profile_call_start_def profile_respond_def
      remove_nth_def store_reply_def)

lemma serve_like_call:
  assumes "js_nat tok = Some t" and "authenticate t (be_now b) (be_auth b) = Inr u"
    and "find_post (be_posts b) i = Some p" and "feed_visible u (be_graph b) p"
  shows "serve tok b (CallLike (like_uri i) uri) =
           (ack_reply, b\<lparr>be_posts := update_likers i (add_liker u) (be_posts b)\<rparr>)"
  using assms by (simp add: store_reply_def like_on_feed_def like_post_def)

lemma backend_like_step:
  assumes "find_post (be_posts b) i = Some p" and "feed_visible v (be_graph b) p"
  shows "backend_step H (OpLike i v) b = Inr (b\<lparr>be_posts := update_likers i (add_liker v) (be_posts b)\<rparr>)"
  using assms by (simp add: like_on_feed_def like_post_def)

section \<open>Properties\<close>

text \<open>C24: The token the Login page stores opens the user's own profile: after a
  successful backend login, a Profile page mounted on the user's id with the token the
  Login page dispatched (\<open>newData.token\<close>) receives, in order, the user's profile
  with their friends and the user's posts newest first, and settles with nothing
  pending and not loading; its requests change nothing in the backend.\<close>

theorem login_then_own_profile:
  assumes "auth_inv (be_auth b)" and "login H em pw (be_now b) (be_auth b) = Inr ((u, t, ex), a')"
  shows "let tok = js_get (login_new_data (login_reply (login H em pw (be_now b) (be_auth b)))) ''token'';
             (b', s) = sys_deliver tok 2 (b\<lparr>be_auth := a'\<rparr>, profile_mount (JStr (digits10 u)) tok p0)
         in b' = b\<lparr>be_auth := a'\<rparr> \<and>
            pf_user_info s = profile_json (cred a') (be_graph b) u \<and>
            pf_posts s = JArr (map post_json (list_by_author u (be_posts b))) \<and>
            pf_pending s = [] \<and> \<not> pf_loading s"
proof -
  have tok: "js_get (login_new_data (login_reply (login H em pw (be_now b) (be_auth b)))) ''token'' = JNum (int t)"
    using assms(2) by (rule login_reply_token)
  have au: "authenticate t (be_now b) a' = Inr u" using assms(2) by (rule login_session_now)
  have ex: "user_exists (cred a') u" using assms by (rule login_user_exists)
  show ?thesis
    using tok au ex
    by (simp add: eval_nat_numeral profile_mount_def profile_effect_def profile_call_start_def
        profile_respond_def remove_nth_def)
qed

lemma login_then_own_profile_witness:
  "let A = (be_auth demo_backend)\<lparr>sessions := AList.update 2 \<lparr>sess_user = 0, expires_at = 86400\<rparr>
                                      (sessions (be_auth demo_backend)), next_token := 3\<rparr>;
       (b', s) = sys_deliver (JNum 2) 2 (demo_backend\<lparr>be_auth := A\<rparr>, profile_mount (JStr ''0'') (JNum 2) (JArr []))
   in pf_user_info s = profile_json (cred A) (be_graph demo_backend) 0 \<and> pf_pending s = [] \<and>
      \<not> pf_loading s"
proof -
  have inv: "auth_inv (be_auth demo_backend)" using be_inv_demo by (simp add: be_inv_def)
  have v: "verify (\<lambda>x y. x @ y) ''alice@x.com'' ''pw123456'' (cred (be_auth demo_backend)) = Inr 0"
    by code_simp
  have l: "login (\<lambda>x y. x @ y) ''alice@x.com'' ''pw123456'' (be_now demo_backend) (be_auth demo_backend) =
     Inr ((0, 2, 86400), (be_auth demo_backend)\<lparr>sessions := AList.update 2 \<lparr>sess_user = 0, expires_at = 86400\<rparr>
                                      (sessions (be_auth demo_backend)), next_token := 3\<rparr>)"
    using v by (simp add: login_def session_ttl_def demo_backend_def)
  have "digits10 0 = ''0''" by code_simp
  with login_then_own_profile [OF inv l, of "JArr []"] show ?thesis
    by (simp add: l Let_def split_beta login_reply_def login_new_data_def user_json_def map_add_def)
qed

text \<open>C25: The scenario of spec section 8 through the Profile page: Alice and Bob
  register, become friends, Bob posts "hello", Alice signs in and opens Bob's profile,
  which shows the post; Alice likes it on the page, after which the page shows it with
  the liker set {Alice}, Alice's feed holds it with that liker set, and an unlike by
  Alice restores the empty liker set.\<close>

theorem spec_scenario_profile:
  "case run_ops (\<lambda>x y. x @ y)
     [OpRegister ''s1'' ''alice@x.com'' ''pw123456'' ''Alice'' ''A'',
      OpRegister ''s2'' ''Bob@X.com'' ''pw123456'' ''Bob'' ''B'',
      OpSend 0 1, OpRespond 1 0 True, OpCreate 1 ''hello'' None,
      OpLogin ''alice@x.com'' ''pw123456''] empty_backend of
     Inl e \<Rightarrow> False
   | Inr b \<Rightarrow>
       (let p = \<lparr>pid = 0, author = 1, content = ''hello'', attachment = None, created = 0, likers = []\<rparr>;
            bs1 = sys_deliver (JNum 0) 2 (b, profile_mount (JStr ''1'') (JNum 0) (JArr []));
            bs2 = sys_deliver (JNum 0) 2 (fst bs1, handle_like_post (like_uri 0) (snd bs1))
        in pf_posts (snd bs1) = JArr [post_json p] \<and>
           pf_posts (snd bs2) = JArr [post_json (p\<lparr>likers := [0]\<rparr>)] \<and>
           get_feed 0 (be_graph (fst bs2)) (be_posts (fst bs2)) = [p\<lparr>likers := [0]\<rparr>] \<and>
           map_sum id (\<lambda>b. get_feed 0 (be_graph b) (be_posts b))
             (backend_step (\<lambda>x y. x @ y) (OpUnlike 0 0) (fst bs2)) = Inr [p])"
proof -
  define B5 where "B5 = \<lparr>be_auth = \<lparr>cred = \<lparr>users =
        [\<lparr>uid = 0, email = ''alice@x.com'', salt = ''s1'', pw_hash = ''s1pw123456'',
           first_name = ''Alice'', last_name = ''A'', bio = [], avatar = None, updated_at = 0\<rparr>,
         \<lparr>uid = 1, email = ''bob@x.com'', salt = ''s2'', pw_hash = ''s2pw123456'',
           first_name = ''Bob'', last_name = ''B'', bio = [], avatar = None, updated_at = 0\<rparr>]\<rparr>,
        sessions = [], next_token = 0\<rparr>,
      be_graph = \<lparr>rels = [((0, 1), \<lparr>rstatus = Accepted, requester = 0\<rparr>)]\<rparr>,
      be_posts = \<lparr>posts = [\<lparr>pid = 0, author = 1, content = ''hello'', attachment = None,
                            created = 0, likers = []\<rparr>], next_pid = 1\<rparr>,
      be_now = 0\<rparr>"
  define B6 where "B6 = B5\<lparr>be_auth := (be_auth B5)\<lparr>sessions := [(0, \<lparr>sess_user = 0, expires_at = 86400\<rparr>)],
                                         next_token := 1\<rparr>\<rparr>"
  define p where "p = \<lparr>pid = 0, author = 1 :: nat, content = ''hello'', attachment = None,
                       created = 0 :: nat, likers = [] :: nat list\<rparr>"
  define ps' where "ps' = \<lparr>posts = [p\<lparr>likers := [0]\<rparr>], next_pid = 1 :: nat\<rparr>"
  have v: "verify (\<lambda>x y. x @ y) ''alice@x.com'' ''pw123456'' (be_cred B5) = Inr 0"
    unfolding B5_def by code_simp
  have run: "run_ops (\<lambda>x y. x @ y)
     [OpRegister ''s1'' ''alice@x.com'' ''pw123456'' ''Alice'' ''A'',
      OpRegister ''s2'' ''Bob@X.com'' ''pw123456'' ''Bob'' ''B'',
      OpSend 0 1, OpRespond 1 0 True, OpCreate 1 ''hello'' None,
      OpLogin ''alice@x.com'' ''pw123456''] empty_backend = Inr B6"
  proof -
    have "run_ops (\<lambda>x y. x @ y) [OpLogin ''alice@x.com'' ''pw123456''] B5 = Inr B6"
      using v by (simp add: login_def session_ttl_def B6_def B5_def)
    moreover have "run_ops (\<lambda>x y. x @ y)
     [OpRegister ''s1'' ''alice@x.com'' ''pw123456'' ''Alice'' ''A'',
      OpRegister ''s2'' ''Bob@X.com'' ''pw123456'' ''Bob'' ''B'',
      OpSend 0 1, OpRespond 1 0 True, OpCreate 1 ''hello'' None,
      OpLogin ''alice@x.com'' ''pw123456''] empty_backend =
      (case run_ops (\<lambda>x y. x @ y)
     [OpRegister ''s1'' ''alice@x.com'' ''pw123456'' ''Alice'' ''A'',
      OpRegister ''s2'' ''Bob@X.com'' ''pw123456'' ''Bob'' ''B'',
      OpSend 0 1, OpRespond 1 0 True, OpCreate 1 ''hello'' None] empty_backend of
         Inl e \<Rightarrow> Inl e | Inr b' \<Rightarrow> run_ops (\<lambda>x y. x @ y) [OpLogin ''alice@x.com'' ''pw123456''] b')"
      by (subst run_ops_append [symmetric]) (simp only: append.simps)
    ultimately show ?thesis by (simp only: scenario_setup [folded B5_def] sum.case)
  qed
  have d: "digits10 1 = ''1''" by code_simp
  have tok: "js_nat (JNum 0) = Some 0" by (simp add: js_nat_def)
  have au: "authenticate 0 (be_now B6) (be_auth B6) = Inr 0" by (simp add: authenticate_def B6_def B5_def)
  have ex: "user_exists (be_cred B6) 1" by (simp add: user_exists_def B6_def B5_def)
  have lba: "list_by_author 1 (be_posts B6) = [p]"
    by (simp add: list_by_author_def newest_first_def B6_def B5_def p_def)
  have lk: "like_on_feed 0 0 (be_graph B6) (be_posts B6) = Inr ps'"
    by (simp add: like_on_feed_def like_post_def find_post_def feed_visible_def are_friends_def pair_key_def
        update_likers_def add_liker_def B6_def B5_def ps'_def p_def)
  note m = deliver_mount [OF tok au ex, of "JArr []", unfolded d]
  note k = deliver_like [of "snd (sys_deliver (JNum 0) 2 (B6, profile_mount (JStr ''1'') (JNum 0) (JArr [])))" 1,
      unfolded d, OF _ _ tok _ lk]
  have lbb: "list_by_author 1 ps' = [p\<lparr>likers := [0]\<rparr>]"
    by (simp add: list_by_author_def newest_first_def ps'_def p_def)
  have fd: "get_feed 0 (be_graph B6) ps' = [p\<lparr>likers := [0]\<rparr>]"
    by (simp add: get_feed_def feed_visible_def are_friends_def pair_key_def newest_first_def B6_def B5_def
        ps'_def p_def)
  have ul: "map_sum id (\<lambda>b. get_feed 0 (be_graph b) (be_posts b))
             (backend_step (\<lambda>x y. x @ y) (OpUnlike 0 0) (B6\<lparr>be_posts := ps'\<rparr>)) = Inr [p]"
    by (simp add: unlike_on_feed_def unlike_post_def find_post_def feed_visible_def are_friends_def
        pair_key_def update_likers_def get_feed_def newest_first_def B6_def B5_def ps'_def p_def)
  show ?thesis
    unfolding run using m k lba lbb fd ul au by (simp add: Let_def p_def)
qed

text \<open>C27: Concurrent likes converge (spec section 5: two concurrent likes of the same
  post both end as liked).  A like started by \<open>handleLikePost\<close> on the Profile page
  and a like by another client of the same post, each allowed by the friendship gate,
  leave both users in the liker set whichever reaches the backend first, and the page's
  request is acknowledged in both orders.\<close>

theorem concurrent_likes_converge:
  assumes "js_nat tok = Some t" and "authenticate t (be_now b) (be_auth b) = Inr u"
    and "find_post (be_posts b) i = Some p"
    and "feed_visible u (be_graph b) p" and "feed_visible v (be_graph b) p"
  shows "let c = last (pf_pending (handle_like_post (like_uri i) s)) in
         (\<exists>b2. backend_step H (OpLike i v) (snd (serve tok b c)) = Inr b2 \<and>
             fst (serve tok b c) = ack_reply \<and>
             map_option (\<lambda>q. set (likers q)) (find_post (be_posts b2) i) =
               Some (insert u (insert v (set (likers p))))) \<and>
         (\<exists>b1. backend_step H (OpLike i v) b = Inr b1 \<and>
             fst (serve tok b1 c) = ack_reply \<and>
             map_option (\<lambda>q. set (likers q)) (find_post (be_posts (snd (serve tok b1 c))) i) =
               Some (insert u (insert v (set (likers p)))))"
proof -
  have c: "last (pf_pending (handle_like_post (like_uri i) s)) =
             CallLike (like_uri i) (profile_uri (pf_route_id s))"
    by (simp add: handle_like_post_def)
  have pi: "pid p = i" using find_post_Some [OF assms(3)] by simp
  let ?b1 = "b\<lparr>be_posts := update_likers i (add_liker v) (be_posts b)\<rparr>"
  have s1: "serve tok b (CallLike (like_uri i) (profile_uri (pf_route_id s))) =
              (ack_reply, b\<lparr>be_posts := update_likers i (add_liker u) (be_posts b)\<rparr>)"
    by (rule serve_like_call [OF assms(1,2,3,4)])
  have b1: "backend_step H (OpLike i v) b = Inr ?b1" by (rule backend_like_step [OF assms(3,5)])
  have f1: "find_post (be_posts ?b1) i = Some (p\<lparr>likers := add_liker v (likers p)\<rparr>)"
    using assms(3) pi by simp
  have s2: "serve tok ?b1 (CallLike (like_uri i) (profile_uri (pf_route_id s))) =
              (ack_reply, ?b1\<lparr>be_posts := update_likers i (add_liker u) (be_posts ?b1)\<rparr>)"
    using assms(1,2,4) f1
    by (intro serve_like_call [where p = "p\<lparr>likers := add_liker v (likers p)\<rparr>"])
       (simp_all add: feed_visible_def)
  have f2: "find_post (be_posts (b\<lparr>be_posts := update_likers i (add_liker u) (be_posts b)\<rparr>)) i =
              Some (p\<lparr>likers := add_liker u (likers p)\<rparr>)"
    using assms(3) pi by simp
  have b2: "backend_step H (OpLike i v) (b\<lparr>be_posts := update_likers i (add_liker u) (be_posts b)\<rparr>) =
      Inr (b\<lparr>be_posts := update_likers i (add_liker v) (update_likers i (add_liker u) (be_posts b))\<rparr>)"
  proof -
    have "feed_visible v (be_graph (b\<lparr>be_posts := update_likers i (add_liker u) (be_posts b)\<rparr>))
            (p\<lparr>likers := add_liker u (likers p)\<rparr>)"
      using assms(5) by (simp add: feed_visible_def)
    from backend_like_step [OF f2 this, of H] show ?thesis by simp
  qed
  show ?thesis
    unfolding Let_def c using assms(3) pi
    by (simp add: s1 s2 b1 b2 insert_commute del: serve.simps backend_step.simps)
qed

lemma concurrent_likes_converge_witness:
  "\<exists>b2. backend_step (\<lambda>x y. x @ y) (OpLike 0 1)
          (snd (serve (JNum 0) demo_backend (last (pf_pending (handle_like_post (like_uri 0) bob_profile))))) =
          Inr b2 \<and>
        map_option (\<lambda>q. set (likers q)) (find_post (be_posts b2) 0) = Some {0, 1}"
proof -
  let ?p = "\<lparr>pid = 0, author = 1 :: nat, content = ''hello'', attachment = None, created = 0 :: nat,
             likers = [] :: nat list\<rparr>"
  have "js_nat (JNum 0) = Some 0" by (simp add: js_nat_def)
  moreover have "authenticate 0 (be_now demo_backend) (be_auth demo_backend) = Inr 0"
    by (simp add: authenticate_def demo_backend_def)
  moreover have "find_post (be_posts demo_backend) 0 = Some ?p"
    by (simp add: find_post_def demo_backend_def)
  moreover have "feed_visible 0 (be_graph demo_backend) ?p"
    by (simp add: feed_visible_def are_friends_def pair_key_def demo_backend_def)
  moreover have "feed_visible 1 (be_graph demo_backend) ?p"
    by (simp add: feed_visible_def)
  ultimately have "let c = last (pf_pending (handle_like_post (like_uri 0) bob_profile)) in
         (\<exists>b2. backend_step (\<lambda>x y. x @ y) (OpLike 0 1) (snd (serve (JNum 0) demo_backend c)) = Inr b2 \<and>
             fst (serve (JNum 0) demo_backend c) = ack_reply \<and>
             map_option (\<lambda>q. set (likers q)) (find_post (be_posts b2) 0) =
               Some (insert 0 (insert 1 (set (likers ?p))))) \<and>
         (\<exists>b1. backend_step (\<lambda>x y. x @ y) (OpLike 0 1) demo_backend = Inr b1 \<and>
             fst (serve (JNum 0) b1 c) = ack_reply \<and>
             map_option (\<lambda>q. set (likers q)) (find_post (be_posts (snd (serve (JNum 0) b1 c))) 0) =
               Some (insert 0 (insert 1 (set (likers ?p)))))"
    by (rule concurrent_likes_converge)
  then show ?thesis by (simp only: Let_def) (auto simp del: serve.simps backend_step.simps)
qed

end
