(* ===== verification/Spec2Isabelle.thy ===== *)
theory Spec2Isabelle
  imports ServerBootstrap AuthFlow EndToEnd
begin

text \<open>
  \<^bold>\<open>A verification library for the nsocial2 repository.\<close>

  The repository is a social network: a React client (\<open>src/project/src\<close>) with
  login, registration and profile pages, and an Express server whose bootstrap is
  \<open>src/server/index.js\<close>.  The backend domain logic that the spec describes
  (Credential Store, Authenticator, Social Graph, Post Store, Feed Composer), the
  client helpers of \<open>utils/\<close> and the server routes are not among the repository's
  files under \<open>src/\<close>; they are modelled from the spec.  The pages and the server
  bootstrap are modelled from their source.

  \<^bold>\<open>Theories.\<close>
  \<^item> \<open>Prelude\<close>: identifier types, the error type \<open>api_error\<close> with the result
    type \<open>'a result = api_error + 'a\<close>, and the JavaScript values the client code
    manipulates (\<open>jsval\<close>: truthiness, \<open>||\<close>, \<open>&&\<close>, \<open>v?.k\<close>, object spread,
    string conversion), with the association-list lemmas the stores share.
  \<^item> \<open>CredentialStore\<close> (spec 4.1): the user table as a list indexed by
    identifier, \<open>register\<close>, \<open>verify\<close>, \<open>update_profile\<close>, email normalisation,
    the constant-time comparison \<open>ct_equal\<close>, the invariant \<open>cred_inv\<close>.  The
    salted hash is a parameter \<open>H\<close>; the minimum password length is 8 (the length of
    the spec's example password, since the spec leaves it open).
  \<^item> \<open>Authenticator\<close> (spec 4.2): sessions as an association list from tokens to
    user and expiry, tokens from a counter, a 24-hour time-to-live; \<open>login\<close>,
    \<open>authenticate\<close>, \<open>logout\<close>, \<open>expire_sessions\<close>, the invariant \<open>auth_inv\<close>.
  \<^item> \<open>SocialGraph\<close> (spec 4.3): one relation per unordered pair under the key
    \<open>(min a b, max a b)\<close>; \<open>send_request\<close>, \<open>respond\<close>, \<open>unfriend\<close>,
    \<open>are_friends\<close>, \<open>list_friends\<close>, the invariant \<open>graph_inv\<close>.
  \<^item> \<open>PostStore\<close> (spec 4.4) and \<open>FeedComposer\<close> (spec 4.5): posts with their
    liker lists; create, delete with its ownership check, idempotent like and unlike,
    newest-first listings; the feed of a user and the author-or-friend gate on likes.
  \<^item> \<open>Backend\<close>: the stores and the clock as one state, the operations of other
    clients as a datatype \<open>backend_op\<close> with the step function \<open>backend_step\<close>,
    and the conjoined invariant \<open>be_inv\<close> that every operation keeps.
  \<^item> \<open>ServerBootstrap\<close> (\<open>src/server/index.js\<close>): the middleware stack the file
    registers, each middleware with its library's behaviour: helmet 7's default
    headers (its Content-Security-Policy included), cors with its preflight answer,
    the four body parsers with body-parser's order of checks (\<open>body_check\<close>:
    charset 415, content coding 415, size limit 413, decoder 415, parse 400,
    parameter count 413) after type-is's media type match (\<open>media_type\<close>, trimmed
    and lower-cased), morgan, and Express's final handler, which answers 404 and
    errors with its own CSP, nosniff and content type; \<open>handle_request\<close>.
  \<^item> \<open>PageCommon\<close>: the rendered elements (\<open>view_node\<close>), react-hook-form's
    \<open>required\<close> rule and its errors state in \<open>mode: "onChange"\<close> (a change
    validates that field, \<open>handleSubmit\<close> replaces all errors: \<open>rhf_errors\<close>,
    \<open>rhf_validate_field\<close>), JSX's \<open>{a && node}\<close>, the status alert of both pages.
  \<^item> \<open>LoginPage\<close> (\<open>Login.jsx\<close>) and \<open>RegisterPage\<close> (\<open>Register.jsx\<close>): the
    state hooks and the form's errors as a record, the form rules, field changes,
    \<open>handleSubmit\<close>, \<open>onSubmit\<close> split at its \<open>await\<close> into a start step and its
    continuations, the view rendered from the state, and the page as an inductive
    step relation with its reachable states; the replies of the auth routes.  The
    success redirect of the Register page is one \<open>window.location.replace\<close>: the
    interval's first tick unloads the page, so no later tick runs.
  \<^item> \<open>ProfilePage\<close> (\<open>Profile.jsx\<close>): the calls in flight as a list, the effect on
    \<open>[id]\<close>, \<open>handleDelete\<close> and \<open>handleLikePost\<close> with their refetch, the
    view; \<open>profile_reach\<close> (replies in any order), \<open>profile_fifo\<close> and the fuelled
    \<open>profile_deliver_fifo\<close> (replies in order).
  \<^item> \<open>ProfileSystem\<close>: the server's answer \<open>serve\<close> to each profile call (token
    check, then the store operation), and \<open>sys_reach\<close>, the closed system of the
    page, the server and other clients, interleaved.
  \<^item> \<open>AuthFlow\<close>: the auth routes \<open>auth_route\<close> answering the request objects
    the Register and Login pages build.
  \<^item> \<open>EndToEnd\<close>: a user across pages and the backend: the Login page's stored token
    used by the Profile page, and the scenario of spec section 8 run through
    \<open>run_ops\<close> (a sequence of backend operations) and viewed on the Profile page.

  \<^bold>\<open>What the lemmas show.\<close>
  Of the backend: each store operation keeps its invariant, a duplicate normalised
  email is refused, register/verify and login/authenticate round-trip, logout
  revokes, friendship is symmetric and a request is detected in either direction,
  the feed holds exactly the user's and their friends' posts, like is idempotent,
  delete is refused to anyone but the author.  Of the server bootstrap (C1--C4): no
  request reaches a handler (every request ends as 204, 400, 413, 415 or 404), the
  10mb JSON limit never applies, every response carries helmet's headers and, on
  the final handler's answers, its own CSP, rejected requests are never logged.  Of
  the Login page (C5--C9): one request in flight at most, the request is sent
  exactly for a valid form, how each reply is shown, and, against the
  Authenticator, that the dispatched token authenticates.  Of the Register page
  (C10--C14): the form rules, the field errors shown after a submit or a change and
  not before, the stale alert, the single redirect 5000 ms after success, duplicate
  emails refused end to end.  Of the Profile page (C15--C17): from any reachable
  state a pending reply for another id can arrive last and the page settles on that
  user; in order the user shown is the current one; a delete followed by
  navigation settles on the old id's posts.  Against the backend (C18--C23): the
  invariants hold in every reachable state of the closed system, the page can only
  delete its user's posts, delete and double like through the page have the
  backend's effect and are shown, friendship is shown symmetrically, a refused
  session is shown as no posts.  Across pages (C24--C27): the token the Login page
  stores opens the user's own profile, the spec's concrete scenario holds as seen
  on the Profile page, a user registered on the Register page signs in on the Login
  page with a token that authenticates, and a like from the page and a concurrent
  like by another client both survive in either order.

  \<^bold>\<open>Bounds and fuel.\<close>  Every definition is structurally recursive or
  non-recursive except \<open>digits10\<close> (recursion on \<open>n div 10\<close>, terminating by the
  \<open>fun\<close> package's measure).  \<open>sys_deliver\<close> takes the number of replies to deliver;
  the end-to-end theorems give it exactly the number of calls their handlers start
  (two for a delete and its refetch, four for two likes and their refetches).
  \<open>profile_deliver_fifo\<close> also takes a count: after a delete and a navigation four
  calls are pending (the delete, its refetch, and the effect's two requests), and
  \<open>profile_drain_to\<close> shows that a state reachable with replies in any order can
  always be drained, by induction on the weight of the pending calls.

  \<^bold>\<open>Not modelled.\<close>  Styling and markup of the pages, \<open>components/index.js\<close> (a
  re-export), the database connection and environment loading, the console, the
  Home page and the components whose code is not under \<open>src/\<close>.  Of the
  libraries: the browser's own \<open>type="email"\<close> constraint (the model validates the
  form only by the registered rules), the HTML body of the final handler's page,
  cors's reflection of Access-Control-Request-Headers, and a null \<open>user\<close> in the
  Profile page's store (the model assumes a signed-in user, where
  \<open>user?.token\<close> on null would throw in \<open>handleDelete\<close>).  A second submit is
  modelled on the state the first one left, which assumes React re-rendered in
  between, as it does for each state update of \<open>onSubmit\<close>.

  \<^bold>\<open>Plan.\<close>  Next: the Register and Login pages against the same closed-system
  construction, unfriend and unlike from other clients interleaved with the page,
  and session expiry between the Profile page's requests.
\<close>

end
